theory Spec2Isabelle
  imports Main "HOL-Library.Word"
begin

section \<open>Strings\<close>

text \<open>
  A JavaScript string is modelled by the list of its UTF-8 bytes. Every character the
  program tests for (\<open>/\<close>, \<open>.\<close>, letters, digits) is ASCII, and an ASCII byte never
  occurs inside a multi-byte UTF-8 sequence, so per-byte tests agree with the per-code-unit
  tests of the source.
\<close>

fun strip_prefix :: "string \<Rightarrow> string \<Rightarrow> string option" where
  "strip_prefix [] s = Some s"
| "strip_prefix (p # ps) [] = None"
| "strip_prefix (p # ps) (c # cs) = (if p = c then strip_prefix ps cs else None)"

text \<open>\<open>String.prototype.startsWith\<close> and \<open>String.prototype.includes\<close>.\<close>

definition startsWith :: "string \<Rightarrow> string \<Rightarrow> bool" where
  "startsWith s p = (strip_prefix p s \<noteq> None)"

fun includes_str :: "string \<Rightarrow> string \<Rightarrow> bool" where
  "includes_str [] p = (p = [])"
| "includes_str (c # cs) p = (startsWith (c # cs) p \<or> includes_str cs p)"

section \<open>The Locator: \<open>parseMonorepoUrl\<close> (src/v1/bundler.ts 56-77, src/utils/index.ts 57-78)\<close>

text \<open>
  The source matches the URL against
  \<^verbatim>\<open>^(https?:\/\/github\.com\/[^/]+\/[^/]+)(?:\/tree\/([^/]+)(?:\/(.*))?)?$\<close>.
  The matcher below follows the pattern piece by piece. \<open>[^/]+\<close> is the longest non-empty
  run of bytes other than \<open>/\<close>: whatever follows it in the pattern begins with \<open>/\<close> or is
  the end of the input, so no shorter run can lead to a match. In the same way \<open>s?\<close> and
  the optional \<open>/tree/\<close> group have one way to match at most.
\<close>

definition not_slash :: "char \<Rightarrow> bool" where
  "not_slash c = (c \<noteq> CHR ''/'')"

text \<open>
  The pattern has no \<open>s\<close> flag, so \<open>.\<close> refuses the line terminators LF, CR, U+2028 and
  U+2029 (the last two are the bytes E2 80 A8 and E2 80 A9).
\<close>

fun has_line_terminator :: "string \<Rightarrow> bool" where
  "has_line_terminator [] = False"
| "has_line_terminator (c # cs) =
     (c = CHR 0x0A \<or> c = CHR 0x0D
      \<or> (c = CHR 0xE2 \<and> (take 2 cs = [CHR 0x80, CHR 0xA8] \<or> take 2 cs = [CHR 0x80, CHR 0xA9]))
      \<or> has_line_terminator cs)"

text \<open>
  \<open>(?:\/tree\/([^/]+)(?:\/(.*))?)?$\<close> on what is left after group 1. The result holds
  groups 2 and 3, \<open>None\<close> for a group that did not take part (\<open>undefined\<close> in the source).
\<close>

definition match_tree :: "string \<Rightarrow> (string option \<times> string option) option" where
  "match_tree r =
     (if r = [] then Some (None, None)
      else case strip_prefix ''/tree/'' r of
        None \<Rightarrow> None
      | Some r1 \<Rightarrow>
          (let b = takeWhile not_slash r1; r2 = dropWhile not_slash r1 in
           if b = [] then None
           else if r2 = [] then Some (Some b, None)
           else if has_line_terminator (tl r2) then None
           else Some (Some b, Some (tl r2))))"

text \<open>
  \<open>:\/\/github\.com\/[^/]+\/[^/]+\<close> and the rest of the pattern, on what is left after
  the scheme; \<open>scheme\<close> is the text the scheme part has consumed.
\<close>

definition match_host :: "string \<Rightarrow> string \<Rightarrow> (string \<times> string option \<times> string option) option" where
  "match_host scheme r1 =
     (case strip_prefix ''://github.com/'' r1 of
        None \<Rightarrow> None
      | Some r2 \<Rightarrow>
          (let owner = takeWhile not_slash r2; r3 = dropWhile not_slash r2 in
           if owner = [] \<or> r3 = [] then None
           else
             (let repo = takeWhile not_slash (tl r3); r4 = dropWhile not_slash (tl r3) in
              if repo = [] then None
              else case match_tree r4 of
                None \<Rightarrow> None
              | Some (g2, g3) \<Rightarrow>
                  Some (scheme @ ''://github.com/'' @ owner @ ''/'' @ repo, g2, g3))))"

text \<open>The whole pattern: \<open>^https?\<close>, then the above. The result holds groups 1, 2, 3.\<close>

definition match_re :: "string \<Rightarrow> (string \<times> string option \<times> string option) option" where
  "match_re url =
     (case strip_prefix ''http'' url of
        None \<Rightarrow> None
      | Some r0 \<Rightarrow>
          (case strip_prefix ''s'' r0 of
             Some r1 \<Rightarrow> match_host ''https'' r1
           | None \<Rightarrow> match_host ''http'' r0))"

record parsed_url =
  baseRepoUrl :: string
  branch :: "string option"
  subDir :: "string option"

text \<open>\<open>match[i] || undefined\<close>: a group that is absent or empty becomes \<open>undefined\<close>.\<close>

definition or_undefined :: "string option \<Rightarrow> string option" where
  "or_undefined g = (case g of None \<Rightarrow> None | Some s \<Rightarrow> if s = [] then None else Some s)"

definition parseMonorepoUrl :: "string \<Rightarrow> parsed_url" where
  "parseMonorepoUrl githubUrl =
     (case match_re githubUrl of
        None \<Rightarrow> \<lparr>baseRepoUrl = githubUrl, branch = None, subDir = None\<rparr>
      | Some (g1, g2, g3) \<Rightarrow>
          \<lparr>baseRepoUrl = g1, branch = or_undefined g2, subDir = or_undefined g3\<rparr>)"

text \<open>
  Vocabulary for stating what the Locator recognises: a path segment is a non-empty string
  without \<open>/\<close>, and \<open>github_base\<close> is the text of group 1.
\<close>

definition is_segment :: "string \<Rightarrow> bool" where
  "is_segment s = (s \<noteq> [] \<and> list_all not_slash s)"

definition github_base :: "string \<Rightarrow> string \<Rightarrow> string \<Rightarrow> string" where
  "github_base scheme owner repo = scheme @ ''://github.com/'' @ owner @ ''/'' @ repo"

section \<open>The world of a build\<close>

text \<open>
  \<open>buildMCPServer\<close> works through the file system and through external commands. The
  file system is a map from absolute paths to nodes. An external command is opaque: the
  environment says how it ends, how long it takes, and what it does to the file system
  and to the rest of the world (\<open>'e\<close>: network, clock, installed tools).

  Every value thrown in the pipeline is a JavaScript \<open>Error\<close>; only its message is
  ever inspected.
\<close>

datatype jserror = Error (message: string)

datatype node = Dir | File string

datatype event =
    Exec string "string option"
  | Mkdir string
  | ReadFile string
  | WriteFile string string
  | Access string
  | Rm string
  | Warn string
  | ErrorLog string
  | SentryBundleFailure jserror string string string
  | SentryBuildFailure jserror string "string option" string
  | SentryLargeBundle string "string option" string nat
  | MkdirRecursive string
  | CopyFile string string
  | Cp string string
  | Stat string
  | Unlink string
  | Upload string string
  | SentryException jserror "(string \<times> string option) list"

text \<open>
  The trace records the effects in the order the code performs them: external commands
  (with their working directory, \<open>None\<close> for the server's own), \<open>fs\<close> calls,
  \<open>console.warn\<close> and \<open>console.error\<close> (the text of the first argument), and reports to
  Sentry. \<open>console.log\<close> lines and the \<open>[PERF]\<close> timers are diagnostics without effect
  on control flow and are left out. The first three Sentry events are the reports of v1;
  \<open>SentryException\<close> is a report of v2, with the members of its \<open>extra\<close> object in
  order (\<open>None\<close> for a member that is \<open>undefined\<close>; the \<open>timers\<close> member of the last
  report is left out with the timers). \<open>Upload\<close> is \<open>bucket.upload\<close> with its source and
  its destination.
\<close>

record 'e state =
  files :: "string \<rightharpoonup> node"
  ext :: 'e
  trace :: "event list"

subsection \<open>JSON values\<close>

text \<open>
  What \<open>JSON.parse\<close> returns. An object is the list of its members in the order in
  which JavaScript enumerates them (that of \<open>Object.keys\<close>), with distinct keys. The
  pipeline tests numbers for truthiness only, so integers stand for them.
\<close>

datatype json =
    JNull
  | JBool bool
  | JNum int
  | JStr string
  | JArr "json list"
  | JObj "(string \<times> json) list"

text \<open>
  The environment of one build. \<open>run_cmd cmd cwd\<close> is the external command: its result
  (the error it rejects with, or its standard output), its duration in milliseconds, and
  the world it leaves. \<open>path_join\<close>, \<open>json_parse\<close> (\<open>None\<close> for a \<open>SyntaxError\<close>) and
  \<open>json_stringify\<close> (\<open>JSON.stringify(v, null, 2)\<close>) are Node's library functions,
  \<open>tmpdir\<close> is \<open>os.tmpdir()\<close>, and \<open>random_source\<close> feeds \<open>crypto.randomBytes\<close>.
\<close>

record 'e env =
  run_cmd :: "string \<Rightarrow> string option \<Rightarrow> (string \<rightharpoonup> node) \<times> 'e
                \<Rightarrow> ((jserror + string) \<times> nat) \<times> (string \<rightharpoonup> node) \<times> 'e"
  path_join :: "string \<Rightarrow> string \<Rightarrow> string"
  tmpdir :: string
  random_source :: "nat \<Rightarrow> 8 word"
  json_parse :: "string \<Rightarrow> json option"
  json_stringify :: "json \<Rightarrow> string"

subsection \<open>Small library functions\<close>

definition endsWith :: "string \<Rightarrow> string \<Rightarrow> bool" where
  "endsWith s p = startsWith (rev s) (rev p)"

definition digit_char :: "nat \<Rightarrow> char" where
  "digit_char n = ''0123456789abcdef'' ! (n mod 16)"

text \<open>Decimal rendering of a number, as a template literal does it.\<close>

fun show_nat :: "nat \<Rightarrow> string" where
  "show_nat n = (if n < 10 then [digit_char n] else show_nat (n div 10) @ [digit_char (n mod 10)])"

declare show_nat.simps [simp del]

text \<open>\<open>crypto.randomBytes(n).toString("hex")\<close>.\<close>

definition hex_byte :: "8 word \<Rightarrow> string" where
  "hex_byte b = [digit_char (unat b div 16), digit_char (unat b mod 16)]"

definition randomBytes :: "(nat \<Rightarrow> 8 word) \<Rightarrow> nat \<Rightarrow> 8 word list" where
  "randomBytes src n = map src [0..<n]"

definition toString_hex :: "8 word list \<Rightarrow> string" where
  "toString_hex bs = concat (map hex_byte bs)"

text \<open>
  The v2 pipeline calls \<open>crypto.randomBytes\<close> in several places. Each call reads its own
  stretch of the random source: \<open>n\<close> bytes from position \<open>off\<close>.
\<close>

definition randomBytes_at :: "(nat \<Rightarrow> 8 word) \<Rightarrow> nat \<Rightarrow> nat \<Rightarrow> 8 word list" where
  "randomBytes_at src off n = map src [off..<off + n]"

subsection \<open>Decoding a file as UTF-8\<close>

text \<open>
  A file holds bytes. \<open>fs.readFile(path, "utf-8")\<close> decodes them: a well-formed sequence
  is kept, and every maximal ill-formed part becomes U+FFFD, which in the string (its
  UTF-8 bytes, as everywhere in this theory) is EF BF BD. The ranges are those of the
  UTF-8 decoder: lead bytes C2-DF, E0-EF, F0-F4, a narrowed second byte after E0, ED, F0
  and F4, and continuation bytes 80-BF.
\<close>

definition byte_in :: "nat \<Rightarrow> nat \<Rightarrow> char \<Rightarrow> bool" where
  "byte_in lo hi c = (lo \<le> of_char c \<and> of_char c \<le> hi)"

definition replacement :: string where
  "replacement = [CHR 0xEF, CHR 0xBF, CHR 0xBD]"

definition second_lo :: "char \<Rightarrow> nat" where
  "second_lo b = (if b = CHR 0xE0 then 0xA0 else if b = CHR 0xF0 then 0x90 else 0x80)"

definition second_hi :: "char \<Rightarrow> nat" where
  "second_hi b = (if b = CHR 0xED then 0x9F else if b = CHR 0xF4 then 0x8F else 0xBF)"

fun utf8_decode :: "string \<Rightarrow> string" where
  "utf8_decode [] = []"
| "utf8_decode (b # bs) =
     (if byte_in 0x00 0x7F b then b # utf8_decode bs
      else if byte_in 0xC2 0xDF b then
        (case bs of
           [] \<Rightarrow> replacement
         | c1 # r1 \<Rightarrow>
             if byte_in 0x80 0xBF c1 then b # c1 # utf8_decode r1
             else replacement @ utf8_decode bs)
      else if byte_in 0xE0 0xEF b then
        (case bs of
           [] \<Rightarrow> replacement
         | c1 # r1 \<Rightarrow>
             if byte_in (second_lo b) (second_hi b) c1 then
               (case r1 of
                  [] \<Rightarrow> replacement
                | c2 # r2 \<Rightarrow>
                    if byte_in 0x80 0xBF c2 then b # c1 # c2 # utf8_decode r2
                    else replacement @ utf8_decode r1)
             else replacement @ utf8_decode bs)
      else if byte_in 0xF0 0xF4 b then
        (case bs of
           [] \<Rightarrow> replacement
         | c1 # r1 \<Rightarrow>
             if byte_in (second_lo b) (second_hi b) c1 then
               (case r1 of
                  [] \<Rightarrow> replacement
                | c2 # r2 \<Rightarrow>
                    if byte_in 0x80 0xBF c2 then
                      (case r2 of
                         [] \<Rightarrow> replacement
                       | c3 # r3 \<Rightarrow>
                           if byte_in 0x80 0xBF c3 then b # c1 # c2 # c3 # utf8_decode r3
                           else replacement @ utf8_decode r2)
                    else replacement @ utf8_decode r1)
             else replacement @ utf8_decode bs)
      else replacement @ utf8_decode bs)"

declare utf8_decode.simps(2) [simp del]

subsection \<open>\<open>String.prototype.trim\<close>\<close>

text \<open>
  The white space and line terminators that \<open>trim\<close> removes, in UTF-8: U+0009 to U+000D,
  U+0020, U+00A0, U+1680, U+2000 to U+200A, U+2028, U+2029, U+202F, U+205F, U+3000 and
  U+FEFF. A lead byte never occurs inside a character, so a string ends with one of these
  byte sequences exactly when its last character is that one.
\<close>

definition white_space :: "string list" where
  "white_space =
     [[CHR 0x09], [CHR 0x0A], [CHR 0x0B], [CHR 0x0C], [CHR 0x0D], [CHR 0x20],
      [CHR 0xC2, CHR 0xA0], [CHR 0xE1, CHR 0x9A, CHR 0x80],
      [CHR 0xE2, CHR 0x80, CHR 0x80], [CHR 0xE2, CHR 0x80, CHR 0x81], [CHR 0xE2, CHR 0x80, CHR 0x82],
      [CHR 0xE2, CHR 0x80, CHR 0x83], [CHR 0xE2, CHR 0x80, CHR 0x84], [CHR 0xE2, CHR 0x80, CHR 0x85],
      [CHR 0xE2, CHR 0x80, CHR 0x86], [CHR 0xE2, CHR 0x80, CHR 0x87], [CHR 0xE2, CHR 0x80, CHR 0x88],
      [CHR 0xE2, CHR 0x80, CHR 0x89], [CHR 0xE2, CHR 0x80, CHR 0x8A],
      [CHR 0xE2, CHR 0x80, CHR 0xA8], [CHR 0xE2, CHR 0x80, CHR 0xA9], [CHR 0xE2, CHR 0x80, CHR 0xAF],
      [CHR 0xE2, CHR 0x81, CHR 0x9F], [CHR 0xE3, CHR 0x80, CHR 0x80], [CHR 0xEF, CHR 0xBB, CHR 0xBF]]"

text \<open>The string without the longest prefix made of the given sequences.\<close>

function strip_leading :: "string list \<Rightarrow> string \<Rightarrow> string" where
  "strip_leading ws s =
     (case find (\<lambda>w. w \<noteq> [] \<and> startsWith s w) ws of
        None \<Rightarrow> s
      | Some w \<Rightarrow> strip_leading ws (drop (length w) s))"
  by pat_completeness auto

termination
proof (relation "measure (\<lambda>(ws, s). length s)")
  show "wf (measure (\<lambda>(ws, s). length s))" by simp
next
  fix ws :: "string list" and s w :: string
  assume "find (\<lambda>w. w \<noteq> [] \<and> startsWith s w) ws = Some w"
  then have "w \<noteq> []" and "startsWith s w" by (auto simp: find_Some_iff)
  then have "s \<noteq> []" by (cases w; cases s) (auto simp: startsWith_def)
  with \<open>w \<noteq> []\<close> show "((ws, drop (length w) s), (ws, s)) \<in> measure (\<lambda>(ws, s). length s)"
    by simp
qed

declare strip_leading.simps [simp del]

definition trim :: "string \<Rightarrow> string" where
  "trim s = rev (strip_leading (map rev white_space) (rev (strip_leading white_space s)))"

subsection \<open>Effects\<close>

definition emit :: "event \<Rightarrow> 'e state \<Rightarrow> 'e state" where
  "emit ev s = s\<lparr>trace := trace s @ [ev]\<rparr>"

text \<open>
  \<open>execAsync(cmd, {cwd})\<close>: resolves with the command's output or rejects with its
  error; the duration is kept for \<open>withTimeout\<close>.
\<close>

definition execAsync ::
  "'e env \<Rightarrow> string \<Rightarrow> string option \<Rightarrow> 'e state \<Rightarrow> ((jserror + string) \<times> nat) \<times> 'e state" where
  "execAsync env cmd cwd s =
     (case run_cmd env cmd cwd (files s, ext s) of
        (p, (f, x)) \<Rightarrow> (p, \<lparr>files = f, ext = x, trace = trace s @ [Exec cmd cwd]\<rparr>))"

text \<open>
  \<open>withTimeout(promise, timeoutMs, operationName)\<close> (src/v1/bundler.ts 31-54): the
  promise races a timer; the timer wins when the command has not settled within
  \<open>timeoutMs\<close>.
\<close>

definition withTimeout :: "(jserror + string) \<times> nat \<Rightarrow> nat \<Rightarrow> string \<Rightarrow> jserror + string" where
  "withTimeout p timeoutMs operationName =
     (if snd p < timeoutMs then fst p
      else Inl (Error (''Operation '' @ [CHR 0x27] @ operationName @ [CHR 0x27]
                       @ '' timed out after '' @ show_nat timeoutMs @ ''ms'')))"

text \<open>
  The \<open>fs\<close> calls. A call fails where the node it needs is missing or of the wrong kind;
  faults of the host (permissions, a full disk) are not modelled, so \<open>writeFile\<close> and
  \<open>rm\<close> with \<open>force\<close> always succeed. \<open>readFile\<close> is always called with the encoding
  \<open>"utf-8"\<close> and gives the decoded text; \<open>writeFile\<close> writes the bytes of a string.
\<close>

definition fs_mkdir :: "string \<Rightarrow> 'e state \<Rightarrow> (jserror + unit) \<times> 'e state" where
  "fs_mkdir p s =
     (if files s p \<noteq> None
      then (Inl (Error (''EEXIST: file already exists, mkdir '' @ p)), emit (Mkdir p) s)
      else (Inr (), emit (Mkdir p) (s\<lparr>files := (files s)(p \<mapsto> Dir)\<rparr>)))"

definition fs_readFile :: "string \<Rightarrow> 'e state \<Rightarrow> (jserror + string) \<times> 'e state" where
  "fs_readFile p s =
     (case files s p of
        Some (File c) \<Rightarrow> Inr (utf8_decode c)
      | Some Dir \<Rightarrow> Inl (Error (''EISDIR: illegal operation on a directory, read''))
      | None \<Rightarrow> Inl (Error (''ENOENT: no such file or directory, open '' @ p)),
      emit (ReadFile p) s)"

definition fs_writeFile :: "string \<Rightarrow> string \<Rightarrow> 'e state \<Rightarrow> 'e state" where
  "fs_writeFile p c s = emit (WriteFile p c) (s\<lparr>files := (files s)(p \<mapsto> File c)\<rparr>)"

text \<open>\<open>fs.access(p)\<close> resolves when \<open>p\<close> exists, file or directory.\<close>

definition fs_access :: "string \<Rightarrow> 'e state \<Rightarrow> bool \<times> 'e state" where
  "fs_access p s = (files s p \<noteq> None, emit (Access p) s)"

definition under :: "string \<Rightarrow> string \<Rightarrow> bool" where
  "under d p = (p = d \<or> startsWith p (d @ ''/''))"

text \<open>\<open>fs.rm(p, {recursive: true, force: true})\<close> removes \<open>p\<close> and all beneath it.\<close>

definition fs_rm :: "string \<Rightarrow> 'e state \<Rightarrow> 'e state" where
  "fs_rm d s = emit (Rm d) (s\<lparr>files := (\<lambda>p. if under d p then None else files s p)\<rparr>)"

text \<open>
  The calls that only v2 makes. \<open>fs.mkdir(p, {recursive: true})\<close> accepts a directory
  that is there already (ancestors are not tracked). \<open>fs.copyFile\<close> copies a file onto a
  path that is no directory. \<open>fs.cp(src, dest, {recursive: true})\<close> copies \<open>src\<close> and all
  beneath it onto \<open>dest\<close>, overwriting; it refuses a destination inside the source and a
  directory meeting a file at the top (a clash of kinds further down is not modelled).
  \<open>fs.stat\<close> needs a node, \<open>fs.unlink\<close> a file.
\<close>

definition fs_mkdir_recursive :: "string \<Rightarrow> 'e state \<Rightarrow> (jserror + unit) \<times> 'e state" where
  "fs_mkdir_recursive p s =
     (case files s p of
        Some (File c) \<Rightarrow> (Inl (Error (''EEXIST: file already exists, mkdir '' @ p)), emit (MkdirRecursive p) s)
      | _ \<Rightarrow> (Inr (), emit (MkdirRecursive p) (s\<lparr>files := (files s)(p \<mapsto> Dir)\<rparr>)))"

definition fs_copyFile :: "string \<Rightarrow> string \<Rightarrow> 'e state \<Rightarrow> (jserror + unit) \<times> 'e state" where
  "fs_copyFile src dest s =
     (case files s src of
        None \<Rightarrow> (Inl (Error (''ENOENT: no such file or directory, copyfile '' @ src)), emit (CopyFile src dest) s)
      | Some Dir \<Rightarrow> (Inl (Error (''EISDIR: illegal operation on a directory, copyfile '' @ src)), emit (CopyFile src dest) s)
      | Some (File c) \<Rightarrow>
          if files s dest = Some Dir
          then (Inl (Error (''EISDIR: illegal operation on a directory, copyfile '' @ src)), emit (CopyFile src dest) s)
          else (Inr (), emit (CopyFile src dest) (s\<lparr>files := (files s)(dest \<mapsto> File c)\<rparr>)))"

definition fs_cp :: "string \<Rightarrow> string \<Rightarrow> 'e state \<Rightarrow> (jserror + unit) \<times> 'e state" where
  "fs_cp src dest s =
     (case files s src of
        None \<Rightarrow> (Inl (Error (''ENOENT: no such file or directory, lstat '' @ src)), emit (Cp src dest) s)
      | Some n \<Rightarrow>
          if under src dest
          then (Inl (Error (''Cannot copy '' @ src @ '' to a subdirectory of self '' @ dest)), emit (Cp src dest) s)
          else if n = Dir \<and> files s dest \<noteq> None \<and> files s dest \<noteq> Some Dir
          then (Inl (Error (''Cannot overwrite non-directory '' @ dest @ '' with directory '' @ src)), emit (Cp src dest) s)
          else if n \<noteq> Dir \<and> files s dest = Some Dir
          then (Inl (Error (''Cannot overwrite directory '' @ dest @ '' with non-directory '' @ src)), emit (Cp src dest) s)
          else (Inr (),
                emit (Cp src dest)
                  (s\<lparr>files := (\<lambda>p. if under dest p
                                      then (case files s (src @ drop (length dest) p) of
                                              Some m \<Rightarrow> Some m
                                            | None \<Rightarrow> files s p)
                                      else files s p)\<rparr>)))"

definition fs_stat :: "string \<Rightarrow> 'e state \<Rightarrow> (jserror + unit) \<times> 'e state" where
  "fs_stat p s =
     (if files s p = None
      then (Inl (Error (''ENOENT: no such file or directory, stat '' @ p)), emit (Stat p) s)
      else (Inr (), emit (Stat p) s))"

definition fs_unlink :: "string \<Rightarrow> 'e state \<Rightarrow> (jserror + unit) \<times> 'e state" where
  "fs_unlink p s =
     (case files s p of
        None \<Rightarrow> (Inl (Error (''ENOENT: no such file or directory, unlink '' @ p)), emit (Unlink p) s)
      | Some Dir \<Rightarrow> (Inl (Error (''EISDIR: illegal operation on a directory, unlink '' @ p)), emit (Unlink p) s)
      | Some (File c) \<Rightarrow> (Inr (), emit (Unlink p) (s\<lparr>files := (files s)(p := None)\<rparr>)))"

subsection \<open>Reading JSON values the way the code does\<close>

text \<open>\<open>!x\<close> on an optional string holds for \<open>undefined\<close> and for the empty string.\<close>

definition truthy_string :: "string option \<Rightarrow> bool" where
  "truthy_string x = (case x of None \<Rightarrow> False | Some v \<Rightarrow> v \<noteq> [])"

definition truthy :: "json option \<Rightarrow> bool" where
  "truthy v =
     (case v of
        None \<Rightarrow> False
      | Some JNull \<Rightarrow> False
      | Some (JBool b) \<Rightarrow> b
      | Some (JNum n) \<Rightarrow> n \<noteq> 0
      | Some (JStr s) \<Rightarrow> s \<noteq> []
      | Some (JArr xs) \<Rightarrow> True
      | Some (JObj ms) \<Rightarrow> True)"

text \<open>
  \<open>v.key\<close> for the keys the pipeline reads (\<open>main\<close>, \<open>bin\<close>, \<open>scripts\<close>, \<open>build\<close>,
  \<open>compilerOptions\<close>), none of which is a property of a string, number, boolean or array
  or of \<open>Object.prototype\<close>: reading from \<open>null\<close> throws a
  \<open>TypeError\<close>, an object gives its member or \<open>undefined\<close> (\<open>None\<close>), anything else
  gives \<open>undefined\<close>.
\<close>

definition get_prop :: "json \<Rightarrow> string \<Rightarrow> jserror + json option" where
  "get_prop v key =
     (case v of
        JNull \<Rightarrow> Inl (Error (''Cannot read properties of null (reading '' @ [CHR 0x27] @ key @ [CHR 0x27] @ '')''))
      | JObj ms \<Rightarrow> Inr (map_of ms key)
      | _ \<Rightarrow> Inr None)"

text \<open>\<open>obj.key = v\<close> on an object: the member keeps its place, a new one goes last.\<close>

fun set_member :: "(string \<times> json) list \<Rightarrow> string \<Rightarrow> json \<Rightarrow> (string \<times> json) list" where
  "set_member [] key v = [(key, v)]"
| "set_member ((k, w) # ms) key v =
     (if k = key then (k, v) # ms else (k, w) # set_member ms key v)"

section \<open>The v1 pipeline: \<open>buildMCPServer\<close> (src/v1/bundler.ts 79-451)\<close>

subsection \<open>1. Git clone (96-123)\<close>

definition git_clone :: "'e env \<Rightarrow> string \<Rightarrow> string \<Rightarrow> 'e state \<Rightarrow> (jserror + unit) \<times> 'e state" where
  "git_clone env repoUrl tempDir s =
     (let cloneUrl = (if endsWith repoUrl ''.git'' then repoUrl else repoUrl @ ''.git'') in
      case execAsync env (''git clone '' @ cloneUrl @ '' '' @ tempDir) (Some tempDir) s of
        (p, s1) \<Rightarrow>
          (case withTimeout p 60000 ''git clone'' of
             Inr out \<Rightarrow> (Inr (), s1)
           | Inl e \<Rightarrow>
               if includes_str (message e) ''git: command not found''
               then (Inl (Error ''Git is not installed. Please install git in your environment.''), s1)
               else (Inl e, s1)))"

subsection \<open>1b. Checkout of the requested commit (125-150)\<close>

text \<open>
  \<open>if (commit)\<close> skips an absent or empty commit. In the \<open>catch\<close> of the checkout the
  \<open>git rev-parse\<close> call is awaited outside any \<open>try\<close>: its rejection leaves the handler.
\<close>

definition git_checkout :: "'e env \<Rightarrow> string option \<Rightarrow> string \<Rightarrow> 'e state \<Rightarrow> (jserror + unit) \<times> 'e state" where
  "git_checkout env commit tempDir s =
     (case commit of
        None \<Rightarrow> (Inr (), s)
      | Some c \<Rightarrow>
          if c = [] then (Inr (), s)
          else
            (case execAsync env (''git checkout '' @ c) (Some tempDir) s of
               (p, s1) \<Rightarrow>
                 (case withTimeout p 30000 ''git checkout'' of
                    Inr out \<Rightarrow> (Inr (), s1)
                  | Inl e \<Rightarrow>
                      (case execAsync env ''git rev-parse --abbrev-ref HEAD'' (Some tempDir)
                              (emit (Warn (''Failed to checkout commit '' @ c @ '', using default branch'')) s1) of
                         (q, s2) \<Rightarrow>
                           (case fst q of
                              Inl e2 \<Rightarrow> (Inl e2, s2)
                            | Inr stdout \<Rightarrow> (Inr (), s2))))))"

subsection \<open>2. Install (152-177)\<close>

definition install :: "'e env \<Rightarrow> string \<Rightarrow> 'e state \<Rightarrow> 'e state" where
  "install env installDir s =
     (case execAsync env ''bun install'' (Some installDir) s of
        (p, s1) \<Rightarrow>
          (case withTimeout p 120000 ''bun install'' of
             Inr out \<Rightarrow> s1
           | Inl e \<Rightarrow>
               (case execAsync env ''npm install'' (Some installDir)
                       (emit (Warn ''Bun install failed, trying npm install:'') s1) of
                  (q, s2) \<Rightarrow>
                    (case withTimeout q 120000 ''npm install'' of
                       Inr out \<Rightarrow> s2
                     | Inl npmError \<Rightarrow>
                         emit (Warn ''Both bun and npm install failed, continuing anyway:'') s2))))"

subsection \<open>3. TypeScript compilation and the \<open>Symbol.dispose\<close> repair (179-246)\<close>

definition es2022_options :: "(string \<times> json) list \<Rightarrow> (string \<times> json) list" where
  "es2022_options opts =
     set_member (set_member opts ''target'' (JStr ''ES2022'')) ''lib'' (JArr [JStr ''ES2022'', JStr ''DOM''])"

text \<open>
  Lines 216-218 on the parsed configuration, as seen by \<open>JSON.stringify\<close> afterwards. The
  file is an ES module, so the code is strict: reading \<open>compilerOptions\<close> from \<open>null\<close>
  and creating a property on a string, number or boolean throw a \<open>TypeError\<close>. A
  property set on an array is not an element and does not reach \<open>JSON.stringify\<close>.
\<close>

definition patch_tsconfig :: "json \<Rightarrow> jserror + json" where
  "patch_tsconfig tsConfig =
     (case get_prop tsConfig ''compilerOptions'' of
        Inl e \<Rightarrow> Inl e
      | Inr co \<Rightarrow>
          (case tsConfig of
             JObj ms \<Rightarrow>
               (if \<not> truthy co
                then Inr (JObj (set_member ms ''compilerOptions'' (JObj (es2022_options []))))
                else case co of
                  Some (JObj opts) \<Rightarrow>
                    Inr (JObj (set_member ms ''compilerOptions'' (JObj (es2022_options opts))))
                | Some (JArr xs) \<Rightarrow> Inr (JObj ms)
                | _ \<Rightarrow> Inl (Error (''Cannot create property '' @ [CHR 0x27] @ ''target'' @ [CHR 0x27])))
           | JArr xs \<Rightarrow> Inr (JArr xs)
           | _ \<Rightarrow> Inl (Error (''Cannot create property '' @ [CHR 0x27] @ ''compilerOptions'' @ [CHR 0x27]))))"

text \<open>The inner \<open>try\<close> of lines 207-244; every failure in it ends in the warning of line 243.\<close>

definition tsconfig_fix :: "'e env \<Rightarrow> string \<Rightarrow> 'e state \<Rightarrow> 'e state" where
  "tsconfig_fix env installDir s =
     (let tsConfigPath = path_join env installDir ''tsconfig.json'' in
      case fs_readFile tsConfigPath s of
        (Inl e, s1) \<Rightarrow> emit (Warn ''Failed to apply tsconfig fix:'') s1
      | (Inr tsConfigContent, s1) \<Rightarrow>
          (case json_parse env tsConfigContent of
             None \<Rightarrow> emit (Warn ''Failed to apply tsconfig fix:'') s1
           | Some tsConfig \<Rightarrow>
               (let s2 = fs_writeFile (tsConfigPath @ ''.backup'') tsConfigContent s1 in
                case patch_tsconfig tsConfig of
                  Inl e \<Rightarrow> emit (Warn ''Failed to apply tsconfig fix:'') s2
                | Inr patched \<Rightarrow>
                    (case execAsync env ''bun run tsc'' (Some installDir)
                            (fs_writeFile tsConfigPath (json_stringify env patched) s2) of
                       (p, s3) \<Rightarrow>
                         (let s4 = (case withTimeout p 60000 ''tsc compile with modified config'' of
                                      Inr out \<Rightarrow> s3
                                    | Inl compileError \<Rightarrow>
                                        emit (Warn ''TypeScript compilation still failed after fix, continuing with build'') s3)
                          in fs_writeFile tsConfigPath tsConfigContent s4)))))"

definition typecheck :: "'e env \<Rightarrow> string \<Rightarrow> 'e state \<Rightarrow> 'e state" where
  "typecheck env installDir s =
     (case execAsync env ''bun run tsc'' (Some installDir) s of
        (p, s1) \<Rightarrow>
          (case withTimeout p 60000 ''tsc compile'' of
             Inr out \<Rightarrow> s1
           | Inl e \<Rightarrow>
               (let s2 = emit (Warn ''TypeScript compilation failed, continuing with build:'') s1 in
                if message e \<noteq> [] \<and> includes_str (message e) ''Symbol.dispose''
                then tsconfig_fix env installDir s2
                else s2)))"

subsection \<open>Find entrypoint (248-295)\<close>

definition possibleEntrypoints :: "string list" where
  "possibleEntrypoints = [''index.ts'', ''index.js'', ''src/index.ts'', ''src/index.js'', ''src/mcp-server.ts'']"

text \<open>The \<open>for\<close> loop of lines 258-266: the first path that \<open>fs.access\<close> accepts.\<close>

fun probe :: "'e env \<Rightarrow> string \<Rightarrow> string list \<Rightarrow> 'e state \<Rightarrow> string option \<times> 'e state" where
  "probe env installDir [] s = (None, s)"
| "probe env installDir (file # rest) s =
     (case fs_access (path_join env installDir file) s of
        (True, s1) \<Rightarrow> (Some file, s1)
      | (False, s1) \<Rightarrow> probe env installDir rest s1)"

text \<open>
  Lines 270-289: the \<open>main\<close> field of \<open>package.json\<close>. Nothing else of the manifest is
  read. A \<open>main\<close> that is truthy but not a string has no \<open>startsWith\<close>, which throws.
\<close>

definition main_from_manifest :: "'e env \<Rightarrow> string \<Rightarrow> 'e state \<Rightarrow> string option \<times> 'e state" where
  "main_from_manifest env installDir s =
     (case fs_readFile (path_join env installDir ''package.json'') s of
        (Inl e, s1) \<Rightarrow> (None, emit (Warn ''Failed to read or parse package.json:'') s1)
      | (Inr packageJsonContent, s1) \<Rightarrow>
          (case json_parse env packageJsonContent of
             None \<Rightarrow> (None, emit (Warn ''Failed to read or parse package.json:'') s1)
           | Some packageJson \<Rightarrow>
               (case get_prop packageJson ''main'' of
                  Inl e \<Rightarrow> (None, emit (Warn ''Failed to read or parse package.json:'') s1)
                | Inr mainField \<Rightarrow>
                    if \<not> truthy mainField then (None, s1)
                    else
                      (case mainField of
                         Some (JStr mainPath) \<Rightarrow>
                           (let normalizedPath = (if startsWith mainPath ''./'' then drop 2 mainPath else mainPath) in
                            case fs_access (path_join env installDir normalizedPath) s1 of
                              (True, s2) \<Rightarrow> (Some normalizedPath, s2)
                            | (False, s2) \<Rightarrow> (None, emit (Warn ''Failed to read or parse package.json:'') s2))
                       | _ \<Rightarrow> (None, emit (Warn ''Failed to read or parse package.json:'') s1)))))"

text \<open>\<open>!entrypoint\<close> holds for \<open>null\<close> and for the empty string.\<close>

definition find_entrypoint :: "'e env \<Rightarrow> string \<Rightarrow> 'e state \<Rightarrow> (jserror + string) \<times> 'e state" where
  "find_entrypoint env installDir s =
     (case probe env installDir possibleEntrypoints s of
        (found, s1) \<Rightarrow>
          (case (case found of
                   Some file \<Rightarrow> (Some file, s1)
                 | None \<Rightarrow> main_from_manifest env installDir s1) of
             (entrypoint, s2) \<Rightarrow>
               (case entrypoint of
                  None \<Rightarrow> (Inl (Error ''No valid entrypoint file found''), s2)
                | Some file \<Rightarrow>
                    if file = [] then (Inl (Error ''No valid entrypoint file found''), s2)
                    else (Inr file, s2))))"

subsection \<open>4. Build the bundle (297-392)\<close>

definition module_format :: "string \<Rightarrow> string" where
  "module_format format = (if format = ''mjs'' then ''esm'' else ''cjs'')"

definition bun_build_cmd :: "'e env \<Rightarrow> string \<Rightarrow> string \<Rightarrow> string \<Rightarrow> string" where
  "bun_build_cmd env installDir entrypoint format =
     ''bun build '' @ path_join env installDir entrypoint @ '' ''
       @ ''--outfile bundle.'' @ format @ '' --target node --format '' @ module_format format"

definition esbuild_cmd :: "'e env \<Rightarrow> string \<Rightarrow> string \<Rightarrow> string \<Rightarrow> string" where
  "esbuild_cmd env installDir entrypoint format =
     ''npx esbuild '' @ path_join env installDir entrypoint @ '' ''
       @ ''--bundle --platform=node --outfile=bundle.'' @ format @ '' --format='' @ module_format format"

text \<open>
  One bundling attempt: an availability command that is not under a timeout, then the
  bundler itself under \<open>withTimeout\<close>.
\<close>

definition attempt ::
  "'e env \<Rightarrow> string \<Rightarrow> string option \<Rightarrow> string \<Rightarrow> string \<Rightarrow> string \<Rightarrow> 'e state
     \<Rightarrow> (jserror + unit) \<times> 'e state" where
  "attempt env check check_cwd cmd installDir operationName s =
     (case execAsync env check check_cwd s of
        (p, s1) \<Rightarrow>
          (case fst p of
             Inl e \<Rightarrow> (Inl e, s1)
           | Inr out \<Rightarrow>
               (case execAsync env cmd (Some installDir) s1 of
                  (q, s2) \<Rightarrow>
                    (case withTimeout q 60000 operationName of
                       Inl e \<Rightarrow> (Inl e, s2)
                     | Inr out2 \<Rightarrow> (Inr (), s2)))))"

definition bundle_stage ::
  "'e env \<Rightarrow> string \<Rightarrow> string \<Rightarrow> string \<Rightarrow> 'e state \<Rightarrow> (jserror + unit) \<times> 'e state" where
  "bundle_stage env installDir entrypoint format s =
     (case attempt env ''which bun'' None (bun_build_cmd env installDir entrypoint format)
             installDir ''bun build'' s of
        (Inr u, s1) \<Rightarrow> (Inr (), s1)
      | (Inl bunError, s1) \<Rightarrow>
          (case attempt env ''npx --no-install esbuild --version'' None
                  (esbuild_cmd env installDir entrypoint format) installDir ''esbuild''
                  (emit (Warn ''Bun build failed or not available:'') s1) of
             (Inr u, s2) \<Rightarrow> (Inr (), s2)
           | (Inl esbuildError, s2) \<Rightarrow>
               (case attempt env ''npm install --no-save esbuild'' (Some installDir)
                       (esbuild_cmd env installDir entrypoint format) installDir ''esbuild after install''
                       (emit (Warn ''esbuild fallback failed:'') s2) of
                  (Inr u, s3) \<Rightarrow> (Inr (), s3)
                | (Inl finalError, s3) \<Rightarrow>
                    (let err = Error (''Failed to bundle: '' @ message finalError) in
                     (Inl err,
                      emit (SentryBundleFailure err entrypoint installDir format)
                        (emit (ErrorLog ''Bundle build failed with error:'')
                           (emit (ErrorLog ''All bundling attempts failed:'') s3)))))))"

subsection \<open>The body of the outer \<open>try\<close> (94-398)\<close>

definition install_dir :: "'e env \<Rightarrow> string \<Rightarrow> string option \<Rightarrow> string" where
  "install_dir env tempDir sub =
     (case sub of
        None \<Rightarrow> tempDir
      | Some d \<Rightarrow> if d = [] then tempDir else path_join env tempDir d)"

definition build_steps ::
  "'e env \<Rightarrow> string \<Rightarrow> string option \<Rightarrow> string \<Rightarrow> string option \<Rightarrow> string \<Rightarrow> 'e state
     \<Rightarrow> (jserror + string) \<times> 'e state" where
  "build_steps env repoUrl sub format commit tempDir s =
     (case fs_mkdir tempDir s of
        (Inl e, s1) \<Rightarrow> (Inl e, s1)
      | (Inr u, s1) \<Rightarrow>
     (case git_clone env repoUrl tempDir s1 of
        (Inl e, s2) \<Rightarrow> (Inl e, s2)
      | (Inr u, s2) \<Rightarrow>
     (case git_checkout env commit tempDir s2 of
        (Inl e, s3) \<Rightarrow> (Inl e, s3)
      | (Inr u, s3) \<Rightarrow>
     (let installDir = install_dir env tempDir sub in
      case find_entrypoint env installDir (typecheck env installDir (install env installDir s3)) of
        (Inl e, s4) \<Rightarrow> (Inl e, s4)
      | (Inr entrypoint, s4) \<Rightarrow>
     (case bundle_stage env installDir entrypoint format s4 of
        (Inl e, s5) \<Rightarrow> (Inl e, s5)
      | (Inr u, s5) \<Rightarrow> fs_readFile (path_join env installDir (''bundle.'' @ format)) s5)))))"

subsection \<open>\<open>buildMCPServer\<close>: the \<open>try\<close>, its \<open>catch\<close> (432-447) and its \<open>finally\<close> (448-450)\<close>

definition MAX_RECOMMENDED_BUNDLE_SIZE :: nat where
  "MAX_RECOMMENDED_BUNDLE_SIZE = 28 * 1024 * 1024"

definition temp_dir :: "'e env \<Rightarrow> string" where
  "temp_dir env = path_join env (tmpdir env) (''mcp-'' @ toString_hex (randomBytes (random_source env) 8))"

text \<open>
  The result is the bundle's text or the error the promise rejects with, together with
  the state the call leaves. The size of the bundle is \<open>Buffer.byteLength\<close> of its text.
\<close>

definition buildMCPServer ::
  "'e env \<Rightarrow> string \<Rightarrow> string \<Rightarrow> string option \<Rightarrow> 'e state \<Rightarrow> (jserror + string) \<times> 'e state" where
  "buildMCPServer env githubUrl format commit s =
     (let located = parseMonorepoUrl githubUrl; tempDir = temp_dir env in
      case build_steps env (baseRepoUrl located) (subDir located) format commit tempDir s of
        (Inr buildContent, s1) \<Rightarrow>
          (Inr buildContent,
           fs_rm tempDir
             (if MAX_RECOMMENDED_BUNDLE_SIZE < length buildContent
              then emit (SentryLargeBundle githubUrl commit format (length buildContent)) s1
              else s1))
      | (Inl e, s1) \<Rightarrow>
          (Inl (Error ''Failed to build the server code.''),
           fs_rm tempDir
             (emit (SentryBuildFailure e githubUrl commit format)
                (emit (ErrorLog ''Error during buildMCPServer:'') s1))))"

text \<open>The external commands of a trace, in order.\<close>

fun commands :: "event list \<Rightarrow> (string \<times> string option) list" where
  "commands [] = []"
| "commands (Exec cmd cwd # evs) = (cmd, cwd) # commands evs"
| "commands (ev # evs) = commands evs"

text \<open>Vocabulary for the statements: a relative path exists in the install directory.\<close>

definition present :: "'e env \<Rightarrow> string \<Rightarrow> 'e state \<Rightarrow> string \<Rightarrow> bool" where
  "present env d s file = (files s (path_join env d file) \<noteq> None)"

text \<open>
  Two requests lead to the same build: the same result, the same external commands in
  the same order, and the same file system and outside world afterwards.
\<close>

definition same_build ::
  "'e env \<Rightarrow> string \<Rightarrow> string \<Rightarrow> string \<Rightarrow> string option \<Rightarrow> 'e state \<Rightarrow> bool" where
  "same_build env u1 u2 format commit s =
     (fst (buildMCPServer env u1 format commit s) = fst (buildMCPServer env u2 format commit s)
      \<and> commands (trace (snd (buildMCPServer env u1 format commit s)))
          = commands (trace (snd (buildMCPServer env u2 format commit s)))
      \<and> files (snd (buildMCPServer env u1 format commit s))
          = files (snd (buildMCPServer env u2 format commit s))
      \<and> ext (snd (buildMCPServer env u1 format commit s))
          = ext (snd (buildMCPServer env u2 format commit s)))"

text \<open>A later state of the same run: its trace extends the earlier one.\<close>

definition grows :: "'e state \<Rightarrow> 'e state \<Rightarrow> bool" where
  "grows s s' = (\<exists>evs. trace s' = trace s @ evs)"

section \<open>The v2 pipeline: \<open>buildMCPServer\<close> of src/v2/bundler.ts\<close>

text \<open>
  The sources hold src/v2/bundler.ts as lines 192-935 of the file src/.env.example; the
  line numbers in this section are those of src/.env.example. \<open>createTarGzArchive\<close> and
  \<open>uploadToGCPBucket\<close> are in src/utils/index.ts.

  The build resolves with a string, or with an object of the members \<open>data\<close> and
  \<open>actualCommit\<close>. The route that calls it allows for \<open>null\<close> as well (the cast of
  src/index.ts 447), so the type has the three shapes.
\<close>

datatype v2result = ResNull | ResInline string string | ResString string

text \<open>
  What the v2 build reads of its host beyond the environment of v1: the bucket client
  (\<open>bucket.upload(source, {destination})\<close>, which reads the file system and acts on the
  outside world), \<open>path.basename\<close>, \<open>process.cwd()\<close>, and the variable
  \<open>GOOGLE_APPLICATION_CREDENTIALS\<close>.
\<close>

record 'e host =
  bucket_upload :: "string \<Rightarrow> string \<Rightarrow> (string \<rightharpoonup> node) \<times> 'e
                      \<Rightarrow> (jserror + unit) \<times> (string \<rightharpoonup> node) \<times> 'e"
  path_basename :: "string \<Rightarrow> string"
  process_cwd :: string
  GOOGLE_APPLICATION_CREDENTIALS :: "string option"

text \<open>
  The \<open>SyntaxError\<close> of \<open>JSON.parse\<close>. Its message is the engine's own; the pipeline
  never inspects it and only passes the error on to Sentry.
\<close>

definition json_syntax_error :: jserror where
  "json_syntax_error = Error ''SyntaxError: JSON.parse''"

subsection \<open>1. Git clone (230-266) and checkout (268-293)\<close>

text \<open>
  The clone is that of v1, with a report to Sentry before the error is thrown again.
  The checkout is word for word that of v1: \<open>git_checkout\<close>.
\<close>

definition git_cloneV2 ::
  "'e env \<Rightarrow> string \<Rightarrow> string option \<Rightarrow> string option \<Rightarrow> string \<Rightarrow> string \<Rightarrow> 'e state
     \<Rightarrow> (jserror + unit) \<times> 'e state" where
  "git_cloneV2 env githubUrl commit mcpId repoUrl tempDir s =
     (let cloneUrl = (if endsWith repoUrl ''.git'' then repoUrl else repoUrl @ ''.git'') in
      case execAsync env (''git clone '' @ cloneUrl @ '' '' @ tempDir) (Some tempDir) s of
        (p, s1) \<Rightarrow>
          (case withTimeout p 60000 ''git clone'' of
             Inr out \<Rightarrow> (Inr (), s1)
           | Inl e \<Rightarrow>
               if includes_str (message e) ''git: command not found''
               then (Inl (Error ''Git is not installed. Please install git in your environment.''), s1)
               else (Inl e,
                     emit (SentryException e
                             [(''githubUrl'', Some githubUrl), (''commit'', commit), (''mcpId'', mcpId),
                              (''stage'', Some ''git:clone'')]) s1)))"

subsection \<open>The resolved revision (295-316)\<close>

text \<open>
  \<open>actualCommit\<close> is \<open>null\<close> up to here, so the block always runs: the trimmed output of
  \<open>git rev-parse HEAD\<close>, or forty hexadecimal digits from \<open>crypto.randomBytes(20)\<close>
  when the command fails.
\<close>

definition resolve_commit :: "'e env \<Rightarrow> string \<Rightarrow> 'e state \<Rightarrow> string \<times> 'e state" where
  "resolve_commit env tempDir s =
     (case execAsync env ''git rev-parse HEAD'' (Some tempDir) s of
        (p, s1) \<Rightarrow>
          (case fst p of
             Inr stdout \<Rightarrow> (trim stdout, s1)
           | Inl e \<Rightarrow>
               (toString_hex (randomBytes_at (random_source env) 8 20),
                emit (Warn ''Failed to get actual commit hash:'') s1)))"

subsection \<open>2. Install (318-377)\<close>

text \<open>
  One \<open>npm install\<close> for each platform, each in its own \<open>try\<close>; the variables the
  command is given (\<open>npm_config_platform\<close>, \<open>npm_config_arch\<close>, \<open>INIT_CWD\<close>) repeat the
  platform in its text and its working directory. Then the install of v1: \<open>install\<close>.
\<close>

definition platforms :: "(string \<times> string) list" where
  "platforms = [(''darwin'', ''arm64''), (''darwin'', ''x64''), (''linux'', ''x64''),
                (''win32'', ''x64''), (''win32'', ''ia32'')]"

fun install_platforms :: "'e env \<Rightarrow> string \<Rightarrow> (string \<times> string) list \<Rightarrow> 'e state \<Rightarrow> 'e state" where
  "install_platforms env installDir [] s = s"
| "install_platforms env installDir ((os, cpu) # rest) s =
     (case execAsync env (''npm install --no-save --force --ignore-scripts --os='' @ os @ '' --cpu='' @ cpu)
             (Some installDir) s of
        (p, s1) \<Rightarrow>
          install_platforms env installDir rest
            (case withTimeout p 120000 (''install '' @ os @ ''-'' @ cpu) of
               Inr out \<Rightarrow> s1
             | Inl err \<Rightarrow> emit (Warn (''Failed to install for '' @ os @ ''-'' @ cpu @ '':'')) s1))"

definition installV2 :: "'e env \<Rightarrow> string \<Rightarrow> 'e state \<Rightarrow> 'e state" where
  "installV2 env installDir s = install env installDir (install_platforms env installDir platforms s)"

subsection \<open>3. TypeScript compilation (379-481)\<close>

text \<open>
  The body of the \<open>try\<close> of lines 432-466, which is that of v1; here its failure is
  also reported to Sentry (467-479).
\<close>

definition tsconfig_repair :: "'e env \<Rightarrow> string \<Rightarrow> 'e state \<Rightarrow> (jserror + unit) \<times> 'e state" where
  "tsconfig_repair env installDir s =
     (let tsConfigPath = path_join env installDir ''tsconfig.json'' in
      case fs_readFile tsConfigPath s of
        (Inl e, s1) \<Rightarrow> (Inl e, s1)
      | (Inr tsConfigContent, s1) \<Rightarrow>
          (case json_parse env tsConfigContent of
             None \<Rightarrow> (Inl json_syntax_error, s1)
           | Some tsConfig \<Rightarrow>
               (let s2 = fs_writeFile (tsConfigPath @ ''.backup'') tsConfigContent s1 in
                case patch_tsconfig tsConfig of
                  Inl e \<Rightarrow> (Inl e, s2)
                | Inr patched \<Rightarrow>
                    (case execAsync env ''bun run tsc'' (Some installDir)
                            (fs_writeFile tsConfigPath (json_stringify env patched) s2) of
                       (p, s3) \<Rightarrow>
                         (let s4 = (case withTimeout p 60000 ''tsc compile with modified config'' of
                                      Inr out \<Rightarrow> s3
                                    | Inl compileError \<Rightarrow>
                                        emit (Warn ''TypeScript compilation still failed after fix, continuing with build'') s3)
                          in (Inr (), fs_writeFile tsConfigPath tsConfigContent s4))))))"

definition tsconfig_fixV2 ::
  "'e env \<Rightarrow> string \<Rightarrow> string option \<Rightarrow> string option \<Rightarrow> string \<Rightarrow> 'e state \<Rightarrow> 'e state" where
  "tsconfig_fixV2 env githubUrl commit mcpId installDir s =
     (case tsconfig_repair env installDir s of
        (Inr u, s1) \<Rightarrow> s1
      | (Inl configError, s1) \<Rightarrow>
          emit (SentryException configError
                  [(''githubUrl'', Some githubUrl), (''commit'', commit), (''mcpId'', mcpId),
                   (''stage'', Some ''typescript:fix''), (''installDir'', Some installDir)])
            (emit (Warn ''Failed to apply tsconfig fix:'') s1))"

text \<open>
  The first compilation, and after its failure a second one through \<open>npx\<close> whose outcome
  changes nothing but a warning; then the \<open>Symbol.dispose\<close> test on the first error.
\<close>

definition typecheckV2 ::
  "'e env \<Rightarrow> string \<Rightarrow> string option \<Rightarrow> string option \<Rightarrow> string \<Rightarrow> 'e state \<Rightarrow> 'e state" where
  "typecheckV2 env githubUrl commit mcpId installDir s =
     (case execAsync env ''bun run tsc --noEmitOnError false'' (Some installDir) s of
        (p, s1) \<Rightarrow>
          (case withTimeout p 60000 ''tsc compile'' of
             Inr out \<Rightarrow> s1
           | Inl e \<Rightarrow>
               (case execAsync env ''npx tsc --noEmitOnError false'' (Some installDir)
                       (emit (Warn ''TypeScript compilation failed, continuing with build:'') s1) of
                  (q, s2) \<Rightarrow>
                    (let s3 = (case withTimeout q 60000 ''tsc compile with noEmitOnError=false'' of
                                 Inr out \<Rightarrow> s2
                               | Inl retryError \<Rightarrow>
                                   emit (Warn ''TypeScript compilation still failed with noEmitOnError=false, continuing anyway'') s2)
                     in if message e \<noteq> [] \<and> includes_str (message e) ''Symbol.dispose''
                        then tsconfig_fixV2 env githubUrl commit mcpId installDir s3
                        else s3))))"

subsection \<open>The build script (495-558)\<close>

text \<open>
  \<open>String(v)\<close> of a parsed value. It throws for an object that has a member
  \<open>toString\<close> (no JSON value is callable, and \<open>valueOf\<close> gives the object back), and for
  an array that holds such an object, since the text of an array is that of its elements
  joined by commas. Otherwise the text of a number, a boolean, \<open>null\<close> or an object has
  no \<open>/\<close>, and the text of an array holds \<open>dist/\<close> exactly when that of an element
  does: \<open>dist/\<close> has no comma.
\<close>

fun String_returns :: "json \<Rightarrow> bool" where
  "String_returns (JObj ms) = (''toString'' \<notin> set (map fst ms))"
| "String_returns (JArr xs) = list_all String_returns xs"
| "String_returns v = True"

fun String_includes_dist :: "json \<Rightarrow> bool" where
  "String_includes_dist (JStr s) = includes_str s ''dist/''"
| "String_includes_dist (JArr xs) = list_ex String_includes_dist xs"
| "String_includes_dist v = False"

text \<open>\<open>values.some((bin) => String(bin).includes("dist/"))\<close>, which stops at the first hit.\<close>

fun some_includes_dist :: "json list \<Rightarrow> jserror + bool" where
  "some_includes_dist [] = Inr False"
| "some_includes_dist (v # vs) =
     (if \<not> String_returns v then Inl (Error ''Cannot convert object to primitive value'')
      else if String_includes_dist v then Inr True
      else some_includes_dist vs)"

text \<open>
  \<open>packageJson.main.includes("dist/")\<close> for a truthy \<open>main\<close>: a substring test on a
  string, a membership test on an array, and a \<open>TypeError\<close> on anything else.
\<close>

definition main_includes_dist :: "json \<Rightarrow> jserror + bool" where
  "main_includes_dist v =
     (case v of
        JStr s \<Rightarrow> Inr (includes_str s ''dist/'')
      | JArr xs \<Rightarrow> Inr (JStr ''dist/'' \<in> set xs)
      | _ \<Rightarrow> Inl (Error ''packageJson.main.includes is not a function''))"

text \<open>The condition of lines 503-515, or the \<open>TypeError\<close> its evaluation throws.\<close>

definition wants_build :: "json \<Rightarrow> jserror + bool" where
  "wants_build packageJson =
     (case get_prop packageJson ''scripts'' of
        Inl e \<Rightarrow> Inl e
      | Inr scripts \<Rightarrow>
          (case scripts of
             None \<Rightarrow> Inr False
           | Some sc \<Rightarrow>
               if \<not> truthy scripts then Inr False
               else
                 (case get_prop sc ''build'' of
                    Inl e \<Rightarrow> Inl e
                  | Inr build \<Rightarrow>
                      if \<not> truthy build then Inr False
                      else
                        (case get_prop packageJson ''bin'' of
                           Inl e \<Rightarrow> Inl e
                         | Inr bin \<Rightarrow>
                             (case (case bin of
                                      Some (JObj ms) \<Rightarrow> some_includes_dist (map snd ms)
                                    | Some (JArr xs) \<Rightarrow> some_includes_dist xs
                                    | _ \<Rightarrow> Inr False) of
                                Inl e \<Rightarrow> Inl e
                              | Inr True \<Rightarrow> Inr True
                              | Inr False \<Rightarrow>
                                  if (case bin of Some (JStr b) \<Rightarrow> includes_str b ''dist/'' | _ \<Rightarrow> False)
                                  then Inr True
                                  else
                                    (case get_prop packageJson ''main'' of
                                       Inl e \<Rightarrow> Inl e
                                     | Inr mainField \<Rightarrow>
                                         (case mainField of
                                            None \<Rightarrow> Inr False
                                          | Some m \<Rightarrow>
                                              if \<not> truthy mainField then Inr False
                                              else main_includes_dist m)))))))"

definition run_build_script :: "'e env \<Rightarrow> string \<Rightarrow> 'e state \<Rightarrow> 'e state" where
  "run_build_script env installDir s =
     (case execAsync env ''npm run build'' (Some installDir) s of
        (p, s1) \<Rightarrow>
          (case withTimeout p 300000 ''npm build'' of
             Inr out \<Rightarrow> s1
           | Inl buildError \<Rightarrow>
               (case execAsync env ''bun run build'' (Some installDir)
                       (emit (Warn ''Build script failed:'') s1) of
                  (q, s2) \<Rightarrow>
                    (case withTimeout q 300000 ''bun build'' of
                       Inr out \<Rightarrow> s2
                     | Inl bunBuildError \<Rightarrow> emit (Warn ''Bun build script also failed:'') s2))))"

definition build_script ::
  "'e env \<Rightarrow> string \<Rightarrow> string option \<Rightarrow> string option \<Rightarrow> string \<Rightarrow> 'e state \<Rightarrow> 'e state" where
  "build_script env githubUrl commit mcpId installDir s =
     (let failed = (\<lambda>e s'.
            emit (SentryException e
                    [(''githubUrl'', Some githubUrl), (''commit'', commit), (''mcpId'', mcpId),
                     (''stage'', Some ''build:script''), (''installDir'', Some installDir)])
              (emit (Warn ''Failed to check or run build script:'') s')) in
      case fs_readFile (path_join env installDir ''package.json'') s of
        (Inl e, s1) \<Rightarrow> failed e s1
      | (Inr packageJsonContent, s1) \<Rightarrow>
          (case json_parse env packageJsonContent of
             None \<Rightarrow> failed json_syntax_error s1
           | Some packageJson \<Rightarrow>
               (case wants_build packageJson of
                  Inl e \<Rightarrow> failed e s1
                | Inr True \<Rightarrow> run_build_script env installDir s1
                | Inr False \<Rightarrow> s1)))"

subsection \<open>Find entrypoint (485-493, 560-653)\<close>

definition possibleEntrypointsV2 :: "string list" where
  "possibleEntrypointsV2 = [''index.ts'', ''index.js'', ''src/index.ts'', ''src/index.js'',
                            ''src/mcp-server.ts'', ''src/bin.ts'', ''src/server.ts'']"

text \<open>
  Lines 580-591: \<open>binPath\<close> from a truthy \<open>bin\<close>, \<open>None\<close> where it stays \<open>null\<close>.
  \<open>Object.keys(bin)[0]\<close> is the first key of an object and \<open>"0"\<close> for an array with
  elements; an empty key is falsy.
\<close>

definition bin_path :: "json option \<Rightarrow> json option" where
  "bin_path bin =
     (case bin of
        Some (JStr b) \<Rightarrow> Some (JStr b)
      | Some (JObj ms) \<Rightarrow> (case ms of [] \<Rightarrow> None | (firstBinKey, v) # rest \<Rightarrow> if firstBinKey \<noteq> [] then Some v else None)
      | Some (JArr xs) \<Rightarrow> (case xs of [] \<Rightarrow> None | v # rest \<Rightarrow> Some v)
      | _ \<Rightarrow> None)"

text \<open>
  Lines 593-612 and 615-634: the path from the manifest, made relative, is the
  entrypoint when \<open>fs.access\<close> accepts it; otherwise a warning, and \<open>entrypoint\<close> stays
  as it was. A truthy value that is no string has no \<open>startsWith\<close>.
\<close>

definition manifest_path ::
  "'e env \<Rightarrow> string \<Rightarrow> string \<Rightarrow> json \<Rightarrow> string option \<Rightarrow> 'e state
     \<Rightarrow> (jserror + string option) \<times> 'e state" where
  "manifest_path env installDir field v entrypoint s =
     (case v of
        JStr p \<Rightarrow>
          (let normalizedPath = (if startsWith p ''./'' then drop 2 p else p) in
           case fs_access (path_join env installDir normalizedPath) s of
             (True, s1) \<Rightarrow> (Inr (Some normalizedPath), s1)
           | (False, s1) \<Rightarrow>
               (Inr entrypoint, emit (Warn (field @ '' file '' @ normalizedPath @ '' not found, continuing search'')) s1))
      | _ \<Rightarrow> (Inl (Error ''startsWith is not a function''), s))"

text \<open>
  Lines 573-647 when no conventional file was found: \<open>bin\<close> first, then \<open>main\<close> if
  there is still no entrypoint. Whatever is thrown inside is warned about and reported.
\<close>

definition entrypoint_from_manifest ::
  "'e env \<Rightarrow> string \<Rightarrow> string option \<Rightarrow> string option \<Rightarrow> string \<Rightarrow> 'e state
     \<Rightarrow> string option \<times> 'e state" where
  "entrypoint_from_manifest env githubUrl commit mcpId installDir s =
     (let failed = (\<lambda>entrypoint e s'.
            (entrypoint,
             emit (SentryException e
                     [(''githubUrl'', Some githubUrl), (''commit'', commit), (''mcpId'', mcpId),
                      (''stage'', Some ''find:entrypoint:package.json''), (''installDir'', Some installDir)])
               (emit (Warn ''Failed to read or parse package.json:'') s'))) in
      case fs_readFile (path_join env installDir ''package.json'') s of
        (Inl e, s1) \<Rightarrow> failed None e s1
      | (Inr packageJsonContent, s1) \<Rightarrow>
          (case json_parse env packageJsonContent of
             None \<Rightarrow> failed None json_syntax_error s1
           | Some packageJson \<Rightarrow>
               (case get_prop packageJson ''bin'' of
                  Inl e \<Rightarrow> failed None e s1
                | Inr bin \<Rightarrow>
                    (case (case (if truthy bin \<and> truthy (bin_path bin) then bin_path bin else None) of
                             None \<Rightarrow> (Inr None, s1)
                           | Some binPath \<Rightarrow> manifest_path env installDir ''Bin'' binPath None s1) of
                       (Inl e, s2) \<Rightarrow> failed None e s2
                     | (Inr entrypoint, s2) \<Rightarrow>
                         if truthy_string entrypoint then (entrypoint, s2)
                         else
                           (case get_prop packageJson ''main'' of
                              Inl e \<Rightarrow> failed entrypoint e s2
                            | Inr mainField \<Rightarrow>
                                (case (if truthy mainField then mainField else None) of
                                   None \<Rightarrow> (entrypoint, s2)
                                 | Some mainPath \<Rightarrow>
                                     (case manifest_path env installDir ''Main'' mainPath entrypoint s2 of
                                        (Inl e, s3) \<Rightarrow> failed entrypoint e s3
                                      | (Inr found, s3) \<Rightarrow> (found, s3))))))))"

definition find_entrypointV2 ::
  "'e env \<Rightarrow> string \<Rightarrow> string option \<Rightarrow> string option \<Rightarrow> string \<Rightarrow> 'e state
     \<Rightarrow> (jserror + string) \<times> 'e state" where
  "find_entrypointV2 env githubUrl commit mcpId installDir s =
     (case probe env installDir possibleEntrypointsV2 s of
        (found, s1) \<Rightarrow>
          (case (case found of
                   Some file \<Rightarrow> (Some file, s1)
                 | None \<Rightarrow> entrypoint_from_manifest env githubUrl commit mcpId installDir s1) of
             (entrypoint, s2) \<Rightarrow>
               (case entrypoint of
                  None \<Rightarrow> (Inl (Error ''No valid entrypoint file found''), s2)
                | Some file \<Rightarrow>
                    if file = [] then (Inl (Error ''No valid entrypoint file found''), s2)
                    else (Inr file, s2))))"

subsection \<open>4. Build the bundle (655-746)\<close>

definition bun_build_cmdV2 :: "'e env \<Rightarrow> string \<Rightarrow> string \<Rightarrow> string" where
  "bun_build_cmdV2 env installDir entrypoint =
     ''bun build '' @ path_join env installDir entrypoint @ '' ''
       @ ''--outfile bundle.mjs --target node --format esm --packages external''"

definition esbuild_cmdV2 :: "'e env \<Rightarrow> string \<Rightarrow> string \<Rightarrow> string" where
  "esbuild_cmdV2 env installDir entrypoint =
     ''npx esbuild '' @ path_join env installDir entrypoint @ '' ''
       @ ''--bundle --platform=node --outfile=bundle.mjs --format=esm''"

definition bundle_stageV2 ::
  "'e env \<Rightarrow> string \<Rightarrow> string option \<Rightarrow> string option \<Rightarrow> string \<Rightarrow> string \<Rightarrow> 'e state
     \<Rightarrow> (jserror + unit) \<times> 'e state" where
  "bundle_stageV2 env githubUrl commit mcpId installDir entrypoint s =
     (case attempt env ''which bun'' None (bun_build_cmdV2 env installDir entrypoint)
             installDir ''bun build'' s of
        (Inr u, s1) \<Rightarrow> (Inr (), s1)
      | (Inl bunError, s1) \<Rightarrow>
          (case attempt env ''npx --no-install esbuild --version'' None
                  (esbuild_cmdV2 env installDir entrypoint) installDir ''esbuild''
                  (emit (Warn ''Bun build failed or not available:'') s1) of
             (Inr u, s2) \<Rightarrow> (Inr (), s2)
           | (Inl esbuildError, s2) \<Rightarrow>
               (case attempt env ''npm install --no-save esbuild'' (Some installDir)
                       (esbuild_cmdV2 env installDir entrypoint) installDir ''esbuild after install''
                       (emit (Warn ''esbuild fallback failed:'') s2) of
                  (Inr u, s3) \<Rightarrow> (Inr (), s3)
                | (Inl finalError, s3) \<Rightarrow>
                    (let err = Error (''Failed to bundle: '' @ message finalError) in
                     (Inl err,
                      emit (SentryException err
                              [(''githubUrl'', Some githubUrl), (''commit'', commit), (''mcpId'', mcpId),
                               (''stage'', Some ''bundle:build''), (''entrypoint'', Some entrypoint),
                               (''installDir'', Some installDir)])
                        (emit (ErrorLog ''Bundle build failed with error:'')
                           (emit (ErrorLog ''All bundling attempts failed:'') s3)))))))"

subsection \<open>The stages up to the bundle's text (226-752)\<close>

text \<open>
  What the stages hand on: the text of \<open>bundle.mjs\<close>, the resolved revision
  (\<open>actualCommit\<close>), and the install directory.
\<close>

record built =
  bundle_text :: string
  revision :: string
  built_in :: string

definition build_stepsV2 ::
  "'e env \<Rightarrow> string \<Rightarrow> string option \<Rightarrow> string option \<Rightarrow> string \<Rightarrow> string option \<Rightarrow> string
     \<Rightarrow> 'e state \<Rightarrow> (jserror + built) \<times> 'e state" where
  "build_stepsV2 env githubUrl commit mcpId repoUrl sub tempDir s =
     (case fs_mkdir tempDir s of
        (Inl e, s1) \<Rightarrow> (Inl e, s1)
      | (Inr u, s1) \<Rightarrow>
     (case git_cloneV2 env githubUrl commit mcpId repoUrl tempDir s1 of
        (Inl e, s2) \<Rightarrow> (Inl e, s2)
      | (Inr u, s2) \<Rightarrow>
     (case git_checkout env commit tempDir s2 of
        (Inl e, s3) \<Rightarrow> (Inl e, s3)
      | (Inr u, s3) \<Rightarrow>
     (case resolve_commit env tempDir s3 of
        (actualCommit, s4) \<Rightarrow>
     (let installDir = install_dir env tempDir sub in
      case find_entrypointV2 env githubUrl commit mcpId installDir
             (build_script env githubUrl commit mcpId installDir
                (typecheckV2 env githubUrl commit mcpId installDir (installV2 env installDir s4))) of
        (Inl e, s5) \<Rightarrow> (Inl e, s5)
      | (Inr entrypoint, s5) \<Rightarrow>
     (case bundle_stageV2 env githubUrl commit mcpId installDir entrypoint s5 of
        (Inl e, s6) \<Rightarrow> (Inl e, s6)
      | (Inr u, s6) \<Rightarrow>
     (case fs_readFile (path_join env installDir ''bundle.mjs'') s6 of
        (Inl e, s7) \<Rightarrow> (Inl e, s7)
      | (Inr buildContent, s7) \<Rightarrow>
          (Inr \<lparr>bundle_text = buildContent, revision = actualCommit, built_in = installDir\<rparr>, s7))))))))"

subsection \<open>The commit marker (766-772)\<close>

text \<open>
  With a truthy \<open>mcpId\<close> the text is given a first line that names the revision;
  \<open>actualCommit || "unknown"\<close> replaces an empty one.
\<close>

definition commit_marker :: "string \<Rightarrow> string" where
  "commit_marker actualCommit =
     ''// COMMIT_HASH:'' @ (if actualCommit = [] then ''unknown'' else actualCommit) @ [CHR 0x0A]"

definition marked :: "string option \<Rightarrow> string \<Rightarrow> string \<Rightarrow> string" where
  "marked mcpId actualCommit buildContent =
     (if truthy_string mcpId then commit_marker actualCommit @ buildContent else buildContent)"

subsection \<open>The archive (774-901)\<close>

text \<open>
  \<open>createTarGzArchive\<close> (src/utils/index.ts 81-146). The copy of \<open>node_modules\<close> is in
  a \<open>try\<close> of its own; every other failure is logged and thrown again under a new message.
\<close>

definition copy_node_modules :: "'e env \<Rightarrow> string \<Rightarrow> string \<Rightarrow> 'e state \<Rightarrow> 'e state" where
  \<open>copy_node_modules env sourceDir archiveDir s =
     (case fs_access (path_join env sourceDir ''node_modules'') s of
        (False, s1) \<Rightarrow> emit (Warn ''node_modules directory not found, skipping'') s1
      | (True, s1) \<Rightarrow>
          (case fs_mkdir_recursive (path_join env archiveDir ''node_modules'') s1 of
             (Inl e, s2) \<Rightarrow> emit (Warn ''node_modules directory not found, skipping'') s2
           | (Inr u, s2) \<Rightarrow>
               (case execAsync env (''tar -cf - -C "'' @ sourceDir @ ''" node_modules | tar -xf - -C "'' @ archiveDir @ ''"'')
                       None s2 of
                  (p, s3) \<Rightarrow>
                    (case fst p of
                       Inl e \<Rightarrow> emit (Warn ''node_modules directory not found, skipping'') s3
                     | Inr out \<Rightarrow> s3))))\<close>

definition createTarGzArchive ::
  "'e env \<Rightarrow> string \<Rightarrow> string \<Rightarrow> string \<Rightarrow> 'e state \<Rightarrow> (jserror + string) \<times> 'e state" where
  \<open>createTarGzArchive env sourceDir bundleFile outputPath s =
     (let archiveDir = path_join env (tmpdir env)
                         (''archive-'' @ toString_hex (randomBytes_at (random_source env) 28 8));
          failed = (\<lambda>e s'.
            (Inl (Error (''Failed to create tar.gz archive: '' @ message e)),
             emit (ErrorLog ''Error creating tar.gz archive:'') s')) in
      case fs_mkdir_recursive archiveDir s of
        (Inl e, s1) \<Rightarrow> failed e s1
      | (Inr u, s1) \<Rightarrow>
     (case fs_copyFile (path_join env sourceDir bundleFile) (path_join env archiveDir bundleFile) s1 of
        (Inl e, s2) \<Rightarrow> failed e s2
      | (Inr u, s2) \<Rightarrow>
     (case execAsync env (''tar -czf "'' @ outputPath @ ''" -C "'' @ archiveDir @ ''" .'') None
             (copy_node_modules env sourceDir archiveDir s2) of
        (p, s3) \<Rightarrow>
          (case fst p of
             Inl e \<Rightarrow> failed e s3
           | Inr out \<Rightarrow> (Inr outputPath, fs_rm archiveDir s3)))))\<close>

text \<open>
  \<open>uploadToGCPBucket\<close> (src/utils/index.ts 149-210). Credentials given as JSON in the
  variable are parsed first; creating the client itself is taken not to fail. The object
  goes to \<open><mcpId>/<commitId>/<file name>\<close> in the bucket
  \<open>bundler-microservice-servers\<close>, and the call returns its location.
\<close>

definition upload_location :: "string \<Rightarrow> string \<Rightarrow> string \<Rightarrow> string" where
  "upload_location mcpId commitId fileName =
     ''gs://'' @ ''bundler-microservice-servers'' @ ''/'' @ mcpId @ ''/'' @ commitId @ ''/'' @ fileName"

definition uploadToGCPBucket ::
  "'e env \<Rightarrow> 'e host \<Rightarrow> string \<Rightarrow> string \<Rightarrow> string \<Rightarrow> 'e state \<Rightarrow> (jserror + string) \<times> 'e state" where
  \<open>uploadToGCPBucket env host sourcePath mcpId commitId s =
     (if (case GOOGLE_APPLICATION_CREDENTIALS host of
            None \<Rightarrow> False
          | Some c \<Rightarrow> c \<noteq> [] \<and> includes_str c ''"type": "service_account"'' \<and> json_parse env c = None)
      then (Inl (Error ''Could not initialize GCP Storage client''),
            emit (ErrorLog ''Error uploading to GCP:'')
              (emit (ErrorLog ''Failed to parse credentials from environment variable:'') s))
      else
        (let fileName = path_basename host sourcePath;
             destPath = mcpId @ ''/'' @ commitId @ ''/'' @ fileName in
         case bucket_upload host sourcePath destPath (files s, ext s) of
           (Inl e, (f, x)) \<Rightarrow>
             (Inl e, \<lparr>files = f, ext = x,
                      trace = trace s @ [Upload sourcePath destPath, ErrorLog ''Error uploading to GCP:'']\<rparr>)
         | (Inr u, (f, x)) \<Rightarrow>
             (Inr (upload_location mcpId commitId fileName),
              \<lparr>files = f, ext = x, trace = trace s @ [Upload sourcePath destPath]\<rparr>)))\<close>

text \<open>
  Lines 808-854, with a truthy \<open>mcpId\<close>: an empty \<open>actualCommit\<close> is resolved once
  more, then the archive is uploaded. A failed upload is logged and reported and does
  not fail the build. The result is \<open>actualCommit\<close> as it then is.
\<close>

definition upload_archive ::
  "'e env \<Rightarrow> 'e host \<Rightarrow> string \<Rightarrow> string \<Rightarrow> string \<Rightarrow> string \<Rightarrow> string \<Rightarrow> 'e state
     \<Rightarrow> string \<times> 'e state" where
  "upload_archive env host githubUrl mcpId tempDir archivePath actualCommit s =
     (case (if actualCommit = []
            then (case execAsync env ''git rev-parse HEAD'' (Some tempDir) s of
                    (p, s1) \<Rightarrow>
                      (case fst p of
                         Inr stdout \<Rightarrow> (trim stdout, s1)
                       | Inl e \<Rightarrow>
                           (toString_hex (randomBytes_at (random_source env) 36 20),
                            emit (Warn ''Still failed to get actual commit hash before upload:'') s1)))
            else (actualCommit, s)) of
        (commitId, s2) \<Rightarrow>
          (case uploadToGCPBucket env host archivePath mcpId commitId s2 of
             (Inr archiveUrl, s3) \<Rightarrow> (commitId, s3)
           | (Inl uploadError, s3) \<Rightarrow>
               (commitId,
                emit (SentryException uploadError
                        [(''githubUrl'', Some githubUrl), (''commit'', Some commitId),
                         (''mcpId'', Some mcpId), (''stage'', Some ''gcp:upload'')])
                  (emit (ErrorLog ''Failed to upload to GCP bucket:'') s3))))"

text \<open>
  Lines 855-885, without one: a copy of the archive goes to \<open>bundled\<close> under the
  server's working directory. A failure to create that directory is only logged.
\<close>

definition save_archive ::
  "'e env \<Rightarrow> 'e host \<Rightarrow> string \<Rightarrow> string \<Rightarrow> string \<Rightarrow> string \<Rightarrow> 'e state \<Rightarrow> 'e state" where
  "save_archive env host githubUrl archivePath archiveName actualCommit s =
     (let bundledDir = path_join env (process_cwd host) ''bundled'' in
      case fs_copyFile archivePath (path_join env bundledDir archiveName)
             (snd (fs_mkdir_recursive bundledDir s)) of
        (Inr u, s1) \<Rightarrow> s1
      | (Inl copyError, s1) \<Rightarrow>
          emit (SentryException copyError
                  [(''githubUrl'', Some githubUrl), (''commit'', Some actualCommit),
                   (''stage'', Some ''local:copy'')])
            (emit (ErrorLog ''Failed to save archive to bundled directory:'') s1))"

text \<open>
  The whole block. Whatever it throws is logged and reported, with \<open>actualCommit\<close> as it
  is at that moment, and the build goes on.
\<close>

definition archive_stage ::
  "'e env \<Rightarrow> 'e host \<Rightarrow> string \<Rightarrow> string option \<Rightarrow> string \<Rightarrow> string \<Rightarrow> string \<Rightarrow> 'e state
     \<Rightarrow> 'e state" where
  "archive_stage env host githubUrl mcpId tempDir installDir actualCommit s =
     (let failed = (\<lambda>current e s'.
            emit (SentryException e
                    [(''githubUrl'', Some githubUrl), (''commit'', Some current), (''mcpId'', mcpId),
                     (''stage'', Some ''archive:create'')])
              (emit (ErrorLog ''Failed to create or handle archive:'') s'));
          nodeModulesDir = path_join env tempDir ''node_modules'';
          destModulesDir = path_join env installDir ''node_modules'';
          archiveName = ''bundle-'' @ actualCommit @ ''.tar.gz'';
          archivePath = path_join env (tmpdir env) archiveName in
      case (if nodeModulesDir \<noteq> destModulesDir then fs_cp nodeModulesDir destModulesDir s
            else (Inr (), s)) of
        (Inl e, s1) \<Rightarrow> failed actualCommit e s1
      | (Inr u, s1) \<Rightarrow>
     (case createTarGzArchive env installDir ''bundle.mjs'' archivePath s1 of
        (Inl e, s2) \<Rightarrow> failed actualCommit e s2
      | (Inr out, s2) \<Rightarrow>
     (case fs_stat archivePath s2 of
        (Inl e, s3) \<Rightarrow> failed actualCommit e s3
      | (Inr u, s3) \<Rightarrow>
     (case (case mcpId of
              None \<Rightarrow> (actualCommit, save_archive env host githubUrl archivePath archiveName actualCommit s3)
            | Some key \<Rightarrow>
                if key = []
                then (actualCommit, save_archive env host githubUrl archivePath archiveName actualCommit s3)
                else upload_archive env host githubUrl key tempDir archivePath actualCommit s3) of
        (current, s4) \<Rightarrow>
          (case fs_unlink archivePath s4 of
             (Inl e, s5) \<Rightarrow> failed current e s5
           | (Inr u, s5) \<Rightarrow> s5)))))"

subsection \<open>\<open>buildMCPServer\<close> of v2: the \<open>try\<close>, its \<open>catch\<close> (916-931) and its \<open>finally\<close> (932-934)\<close>

text \<open>
  Lines 903-915: without a truthy \<open>mcpId\<close> the build resolves with the object, whose
  \<open>actualCommit\<close> is \<open>"latest"\<close> for an empty revision; with one it resolves with the
  marked text. The temporary directory is that of v1, \<open>temp_dir\<close>. The index file imports
  the function under the name \<open>buildMCPServerV2\<close>.
\<close>

definition build_result :: "string option \<Rightarrow> built \<Rightarrow> v2result" where
  "build_result mcpId b =
     (if \<not> truthy_string mcpId
      then ResInline (bundle_text b) (if revision b = [] then ''latest'' else revision b)
      else ResString (marked mcpId (revision b) (bundle_text b)))"

definition buildMCPServerV2 ::
  "'e env \<Rightarrow> 'e host \<Rightarrow> string \<Rightarrow> string option \<Rightarrow> string option \<Rightarrow> 'e state
     \<Rightarrow> (jserror + v2result) \<times> 'e state" where
  "buildMCPServerV2 env host githubUrl commit mcpId s =
     (let located = parseMonorepoUrl githubUrl; tempDir = temp_dir env in
      case build_stepsV2 env githubUrl commit mcpId (baseRepoUrl located) (subDir located) tempDir s of
        (Inr b, s1) \<Rightarrow>
          (Inr (build_result mcpId b),
           fs_rm tempDir
             (archive_stage env host githubUrl mcpId tempDir (built_in b) (revision b) s1))
      | (Inl e, s1) \<Rightarrow>
          (Inl (Error ''Failed to build the server code.''),
           fs_rm tempDir
             (emit (SentryException e
                      [(''githubUrl'', Some githubUrl), (''commit'', commit), (''mcpId'', mcpId),
                       (''stage'', Some ''buildMCPServer'')])
                (emit (ErrorLog ''Error during buildMCPServer:'') s1))))"
section \<open>The HTTP layer (src/index.ts 333-561)\<close>

text \<open>
  A value caught by a route's \<open>catch\<close> is an \<open>Error\<close> with its message and its stack
  trace, or some other value. A build promise resolves or rejects after some time, or
  is still pending whenever it is looked at (\<open>None\<close>).
\<close>

datatype thrown = ThrownError string string | ThrownOther

datatype 'a settle = Resolved 'a | Rejected thrown

text \<open>
  What the route reads of a request and of the process: the query parameters
  (\<open>c.req.query\<close> gives \<open>undefined\<close> for an absent one), the two environment variables,
  the random source behind \<open>crypto.randomBytes\<close>, and the stack trace the runtime
  attaches to an \<open>Error\<close> that the route itself creates.
\<close>

record query =
  q_url :: "string option"
  q_commit :: "string option"
  q_format :: "string option"
  q_mcpId :: "string option"

record http_env =
  DISABLE_GCP_INTEGRATION :: "string option"
  GCP_BUCKET_NAME :: "string option"
  http_random :: "nat \<Rightarrow> 8 word"
  new_stack :: "string \<Rightarrow> string"

record response =
  status :: nat
  body :: json

text \<open>\<open>x || fallback\<close> on an optional string: absent and empty both give the fallback.\<close>

definition or_else :: "string option \<Rightarrow> string \<Rightarrow> string" where
  "or_else x fallback = (case x of None \<Rightarrow> fallback | Some v \<Rightarrow> if v = [] then fallback else v)"

definition BUNDLER_TIMEOUT :: nat where
  "BUNDLER_TIMEOUT = 300000"

definition bundler_timeout_message :: string where
  "bundler_timeout_message = ''Bundler operation timed out after '' @ show_nat BUNDLER_TIMEOUT @ ''ms''"

text \<open>\<open>Promise.race([build, timeoutPromise])\<close>.\<close>

definition race :: "http_env \<Rightarrow> 'a settle \<times> nat option \<Rightarrow> 'a settle" where
  "race env p =
     (case snd p of
        None \<Rightarrow> Rejected (ThrownError bundler_timeout_message (new_stack env bundler_timeout_message))
      | Some t \<Rightarrow>
          if t < BUNDLER_TIMEOUT then fst p
          else Rejected (ThrownError bundler_timeout_message (new_stack env bundler_timeout_message)))"

definition timed_out :: "thrown \<Rightarrow> bool" where
  "timed_out error = (case error of ThrownError m st \<Rightarrow> includes_str m ''timed out'' | ThrownOther \<Rightarrow> False)"

definition timeout_body :: json where
  "timeout_body = JObj [(''error'', JStr ''Bundler operation timed out. The repository may contain large WASM files or complex dependencies that exceed the processing limits.'')]"

definition url_required :: response where
  "url_required = \<lparr>status = 400, body = JObj [(''error'', JStr ''Github url is required'')]\<rparr>"

subsection \<open>\<open>/bundler\<close> (333-401)\<close>

text \<open>
  The route gives its response and what it reports to Sentry. \<open>build\<close> is the imported
  \<open>buildMCPServerV1\<close>.
\<close>

definition bundler_catch :: "thrown \<Rightarrow> response" where
  "bundler_catch error =
     (if timed_out error then \<lparr>status = 504, body = timeout_body\<rparr>
      else \<lparr>status = 500, body = JObj [(''error'', JStr ''Failed to build MCP server'')]\<rparr>)"

definition bundler_route ::
  "(string \<Rightarrow> string \<Rightarrow> string option \<Rightarrow> string settle \<times> nat option) \<Rightarrow> http_env \<Rightarrow> query
     \<Rightarrow> response \<times> thrown list" where
  "bundler_route build env q =
     (let format = or_else (q_format q) ''mjs'' in
      if or_else (q_url q) [] = [] then (url_required, [])
      else
        (case race env (build (or_else (q_url q) []) format (q_commit q)) of
           Resolved result \<Rightarrow> (\<lparr>status = 200, body = JObj [(''data'', JStr result)]\<rparr>, [])
         | Rejected error \<Rightarrow> (bundler_catch error, [error])))"

subsection \<open>\<open>/v2/bundler\<close> (404-561)\<close>

text \<open>\<open>str.match(re)\<close> for a pattern without anchor: the leftmost position where it matches.\<close>

fun search :: "(string \<Rightarrow> 'a option) \<Rightarrow> string \<Rightarrow> 'a option" where
  "search m [] = m []"
| "search m (c # cs) = (case m (c # cs) of Some r \<Rightarrow> Some r | None \<Rightarrow> search m cs)"

definition is_hex :: "char \<Rightarrow> bool" where
  "is_hex c = (c \<in> set ''abcdef0123456789'')"

text \<open>\<open>([a-f0-9]+)\<close> at the end of a pattern: the longest run, which must not be empty.\<close>

definition hex_run :: "string \<Rightarrow> string option" where
  "hex_run s = (if takeWhile is_hex s = [] then None else Some (takeWhile is_hex s))"

text \<open>\<open>/\/\/ COMMIT_HASH:([a-f0-9]+|unknown)/\<close>, group 1.\<close>

definition content_re :: "string \<Rightarrow> string option" where
  "content_re s =
     (case strip_prefix ''// COMMIT_HASH:'' s of
        None \<Rightarrow> None
      | Some r \<Rightarrow>
          (case hex_run r of
             Some h \<Rightarrow> Some h
           | None \<Rightarrow> if startsWith r ''unknown'' then Some ''unknown'' else None))"

text \<open>\<open>/COMMIT_HASH_FOR_RESPONSE:([a-f0-9]+)/\<close>, group 1.\<close>

definition marker_re :: "string \<Rightarrow> string option" where
  "marker_re s =
     (case strip_prefix ''COMMIT_HASH_FOR_RESPONSE:'' s of None \<Rightarrow> None | Some r \<Rightarrow> hex_run r)"

text \<open>\<open>([^\/]+)\/\<close>: a non-empty run without \<open>/\<close>, then \<open>/\<close>; the run and what follows.\<close>

definition segment_slash :: "string \<Rightarrow> (string \<times> string) option" where
  "segment_slash s =
     (if takeWhile not_slash s = [] \<or> dropWhile not_slash s = [] then None
      else Some (takeWhile not_slash s, tl (dropWhile not_slash s)))"

text \<open>
  \<open>/gs:\/\/([^\/]+)\/([^\/]+)\/([^\/]+)\/[^\/]+\.tar\.gz/\<close>, groups 1, 2 and 3. The last
  piece matches when \<open>.tar.gz\<close> occurs in the run without \<open>/\<close>, after its first byte.
\<close>

definition path_re :: "string \<Rightarrow> (string \<times> string \<times> string) option" where
  "path_re s =
     (case strip_prefix ''gs://'' s of
        None \<Rightarrow> None
      | Some r0 \<Rightarrow>
          (case segment_slash r0 of
             None \<Rightarrow> None
           | Some (g1, r1) \<Rightarrow>
               (case segment_slash r1 of
                  None \<Rightarrow> None
                | Some (g2, r2) \<Rightarrow>
                    (case segment_slash r2 of
                       None \<Rightarrow> None
                     | Some (g3, r3) \<Rightarrow>
                         if takeWhile not_slash r3 \<noteq> []
                            \<and> includes_str (tl (takeWhile not_slash r3)) ''.tar.gz''
                         then Some (g1, g2, g3) else None))))"

text \<open>\<open>/Using actual commit hash: ([a-f0-9]+)/\<close>, group 1.\<close>

definition log_re :: "string \<Rightarrow> string option" where
  "log_re s =
     (case strip_prefix ''Using actual commit hash: '' s of None \<Rightarrow> None | Some r \<Rightarrow> hex_run r)"

text \<open>Lines 470-518: the commit the route reports, scraped from the result string.\<close>

definition scrape_commit :: "string \<Rightarrow> string \<Rightarrow> string" where
  "scrape_commit commit resultStr =
     (case (case search content_re resultStr of
              Some h \<Rightarrow> if h \<noteq> ''unknown'' then Some h else None
            | None \<Rightarrow> None) of
        Some h \<Rightarrow> h
      | None \<Rightarrow>
          (case search marker_re resultStr of
             Some h \<Rightarrow> h
           | None \<Rightarrow>
               (case search path_re resultStr of
                  Some (g1, g2, g3) \<Rightarrow> g2
                | None \<Rightarrow>
                    (case (if includes_str resultStr ''Using actual commit hash:''
                           then search log_re resultStr else None) of
                       Some h \<Rightarrow> h
                     | None \<Rightarrow> commit))))"

text \<open>
  \<open>c.json\<close> leaves out a member whose value is \<open>undefined\<close>: \<open>bucket\<close> when the
  variable is unset, \<open>details\<close> when the caught value is no \<open>Error\<close>.
\<close>

definition gcp_upload_body :: "http_env \<Rightarrow> string \<Rightarrow> string \<Rightarrow> json" where
  "gcp_upload_body env mcpId actualCommit =
     JObj [(''success'', JBool True),
           (''gcp_upload'',
            JObj ((case GCP_BUCKET_NAME env of None \<Rightarrow> [] | Some b \<Rightarrow> [(''bucket'', JStr b)])
                  @ [(''path'', JStr (mcpId @ ''/'' @ actualCommit @ ''/'')),
                     (''files'', JArr [JStr (''bundle-'' @ actualCommit @ ''.tar.gz'')])]))]"

definition v2_catch :: "thrown \<Rightarrow> response" where
  "v2_catch error =
     (if timed_out error then \<lparr>status = 504, body = timeout_body\<rparr>
      else \<lparr>status = 500,
            body = (case error of
                      ThrownError m st \<Rightarrow> JObj [(''error'', JStr m), (''details'', JStr st)]
                    | ThrownOther \<Rightarrow> JObj [(''error'', JStr ''Failed to build MCP server'')])\<rparr>)"

definition request_mcpId :: "http_env \<Rightarrow> query \<Rightarrow> string" where
  "request_mcpId env q = or_else (q_mcpId q) (toString_hex (randomBytes (http_random env) 16))"

definition mcpId_required :: response where
  "mcpId_required =
     \<lparr>status = 400, body = JObj [(''error'', JStr ''mcpId is required for v2/bundler endpoint with GCP upload'')]\<rparr>"

text \<open>
  Lines 443-529, the rest of the \<open>try\<close>: the response, or the value thrown to the
  \<open>catch\<close>. \<open>build\<close> is the imported \<open>buildMCPServerV2\<close>.
\<close>

definition v2_try ::
  "(string \<Rightarrow> string \<Rightarrow> string option \<Rightarrow> v2result settle \<times> nat option) \<Rightarrow> http_env
     \<Rightarrow> string \<Rightarrow> string \<Rightarrow> string \<Rightarrow> bool \<Rightarrow> thrown + response" where
  "v2_try build env url commit mcpId skipGcpUpload =
     (case race env (build url commit (if skipGcpUpload then None else Some mcpId)) of
        Rejected error \<Rightarrow> Inl error
      | Resolved ResNull \<Rightarrow>
          Inl (ThrownError ''Unexpected null result from bundler''
                 (new_stack env ''Unexpected null result from bundler''))
      | Resolved (ResInline d actual) \<Rightarrow>
          Inr \<lparr>status = 200, body = JObj [(''success'', JBool True), (''data'', JStr d)]\<rparr>
      | Resolved (ResString resultStr) \<Rightarrow>
          Inr \<lparr>status = 200, body = gcp_upload_body env mcpId (scrape_commit commit resultStr)\<rparr>)"

definition v2_route ::
  "(string \<Rightarrow> string \<Rightarrow> string option \<Rightarrow> v2result settle \<times> nat option) \<Rightarrow> http_env \<Rightarrow> query
     \<Rightarrow> response \<times> thrown list" where
  "v2_route build env q =
     (let commit = or_else (q_commit q) ''latest'';
          mcpId = request_mcpId env q;
          skipGcpUpload = (DISABLE_GCP_INTEGRATION env = Some ''true'') in
      if or_else (q_url q) [] = [] then (url_required, [])
      else if mcpId = [] \<and> \<not> skipGcpUpload then (mcpId_required, [])
      else
        (case v2_try build env (or_else (q_url q) []) commit mcpId skipGcpUpload of
           Inr ok \<Rightarrow> (ok, [])
         | Inl error \<Rightarrow> (v2_catch error, [error])))"

subsection \<open>The route on the v2 build\<close>

text \<open>
  The promise that \<open>buildMCPServerV2(url, commit, mcpId)\<close> gives the route when the
  build starts in state \<open>s\<close>: it settles with the build's result after the time \<open>t\<close>
  that the build takes (\<open>None\<close>: it is still pending whenever it is looked at). The
  route always passes a commit. The \<open>Error\<close> of a rejection carries the stack trace that
  the runtime attaches to it.
\<close>

definition buildV2_promise ::
  "'e env \<Rightarrow> 'e host \<Rightarrow> http_env \<Rightarrow> 'e state \<Rightarrow> nat option
     \<Rightarrow> string \<Rightarrow> string \<Rightarrow> string option \<Rightarrow> v2result settle \<times> nat option" where
  "buildV2_promise env host henv s t url commit mcpId =
     (case fst (buildMCPServerV2 env host url (Some commit) mcpId s) of
        Inr result \<Rightarrow> Resolved result
      | Inl e \<Rightarrow> Rejected (ThrownError (message e) (new_stack henv (message e))),
      t)"

text \<open>Vocabulary for the statements: the members of a JSON object.\<close>

definition has_key :: "json \<Rightarrow> string \<Rightarrow> bool" where
  "has_key v key = (case v of JObj ms \<Rightarrow> key \<in> set (map fst ms) | _ \<Rightarrow> False)"


section \<open>Concrete environments\<close>

text \<open>
  Environments for running the model on concrete inputs. Paths are joined with \<open>/\<close>
  (which is what \<open>path.join\<close> does for the relative paths used here), the random source
  yields zero bytes, and the external world has no state of its own. \<open>demo_parse\<close> agrees
  with \<open>JSON.parse\<close> on the texts listed and stands for it; \<open>demo_stringify\<close> stands for
  \<open>JSON.stringify\<close>, whose text no property below depends on.
\<close>

definition manifest_bin_main :: string where
  \<open>manifest_bin_main = ''{"bin":"cli.js","main":"./lib.js"}''\<close>

text \<open>
  A configuration file that is not well-formed UTF-8: \<open>{"x":"\<close>, the byte FF, \<open>"}\<close>.
  Read as UTF-8 it is the JSON text of an object whose member \<open>x\<close> is the one-character
  string U+FFFD.
\<close>

definition ill_formed_config :: string where
  "ill_formed_config =
     [CHR 0x7B, CHR 0x22, CHR 0x78, CHR 0x22, CHR 0x3A, CHR 0x22, CHR 0xFF, CHR 0x22, CHR 0x7D]"

definition demo_parse :: "string \<Rightarrow> json option" where
  "demo_parse text =
     (if text = ''null'' then Some JNull
      else if text = ''{}'' then Some (JObj [])
      else if text = manifest_bin_main
      then Some (JObj [(''bin'', JStr ''cli.js''), (''main'', JStr ''./lib.js'')])
      else if text = [CHR 0x7B, CHR 0x22, CHR 0x78, CHR 0x22, CHR 0x3A, CHR 0x22,
                      CHR 0xEF, CHR 0xBF, CHR 0xBD, CHR 0x22, CHR 0x7D]
      then Some (JObj [(''x'', JStr [CHR 0xEF, CHR 0xBF, CHR 0xBD])])
      else None)"

definition demo_stringify :: "json \<Rightarrow> string" where
  "demo_stringify v = ''patched configuration''"

definition demo_env ::
  "(string \<Rightarrow> string option \<Rightarrow> (string \<rightharpoonup> node) \<times> unit
      \<Rightarrow> ((jserror + string) \<times> nat) \<times> (string \<rightharpoonup> node) \<times> unit) \<Rightarrow> unit env" where
  "demo_env run =
     \<lparr>run_cmd = run, path_join = (\<lambda>a b. a @ ''/'' @ b), tmpdir = ''/tmp'',
      random_source = (\<lambda>i. 0), json_parse = demo_parse, json_stringify = demo_stringify\<rparr>"

text \<open>A command that leaves the file system as it is and ends as the script says.\<close>

definition scripted ::
  "(string \<Rightarrow> (jserror + string) \<times> nat) \<Rightarrow> string \<Rightarrow> string option \<Rightarrow> (string \<rightharpoonup> node) \<times> unit
     \<Rightarrow> ((jserror + string) \<times> nat) \<times> (string \<rightharpoonup> node) \<times> unit" where
  "scripted script cmd cwd w = (script cmd, w)"

text \<open>Every command succeeds at once and prints nothing.\<close>

definition quiet_script :: "string \<Rightarrow> (jserror + string) \<times> nat" where
  "quiet_script cmd = (Inr [], 100)"

text \<open>
  The clone of a repository without commits: \<open>git clone\<close> succeeds, \<open>git checkout\<close>
  of any commit fails, and \<open>git rev-parse --abbrev-ref HEAD\<close> fails because \<open>HEAD\<close> is
  unborn.
\<close>

definition unborn_head_script :: "string \<Rightarrow> (jserror + string) \<times> nat" where
  "unborn_head_script cmd =
     (if startsWith cmd ''git checkout '' \<or> cmd = ''git rev-parse --abbrev-ref HEAD''
      then (Inl (Error (''Command failed: '' @ cmd)), 40)
      else (Inr [], 100))"

text \<open>The compiler fails with the \<open>Symbol.dispose\<close> signature, before and after the patch.\<close>

definition dispose_script :: "string \<Rightarrow> (jserror + string) \<times> nat" where
  "dispose_script cmd =
     (if cmd = ''bun run tsc''
      then (Inl (Error ''Command failed: bun run tsc error TS2550: Property Symbol.dispose does not exist''), 900)
      else (Inr [], 100))"

definition empty_state :: "unit state" where
  "empty_state = \<lparr>files = Map.empty, ext = (), trace = []\<rparr>"

definition state_with :: "(string \<times> node) list \<Rightarrow> unit state" where
  "state_with nodes = \<lparr>files = map_of nodes, ext = (), trace = []\<rparr>"

text \<open>
  A process for the routes: remote publishing enabled or not as \<open>flag\<close> says, and a
  stack trace that names the message.
\<close>

definition demo_http :: "string option \<Rightarrow> http_env" where
  "demo_http flag =
     \<lparr>DISABLE_GCP_INTEGRATION = flag, GCP_BUCKET_NAME = Some ''bundler-microservice-servers'',
      http_random = (\<lambda>i. 0), new_stack = (\<lambda>m. ''Error: '' @ m @ '' at index.ts'')\<rparr>"

definition demo_query :: "string option \<Rightarrow> query" where
  "demo_query mcpId =
     \<lparr>q_url = Some ''https://github.com/o/r'', q_commit = None, q_format = None, q_mcpId = mcpId\<rparr>"

text \<open>
  A v2 build that resolves with a bundle marked with the revision \<open>0a1b2c3\<close>, and one
  that fails with an \<open>Error\<close>.
\<close>

definition marked_build :: "string \<Rightarrow> string \<Rightarrow> string option \<Rightarrow> v2result settle \<times> nat option" where
  "marked_build url commit mcpId =
     (Resolved (ResString (''// COMMIT_HASH:0a1b2c3'' @ [CHR 0x0A] @ ''export {};'')), Some 1000)"


text \<open>
  A host for v2 whose uploads succeed, and a repository with \<open>index.js\<close> and an empty
  manifest: the clone brings its files, \<open>HEAD\<close> is the commit
  \<open>3f2a9c41d07be5861a4c0f9d2b7e6a1c5d8f0b23\<close>, the bundler writes \<open>bundle.mjs\<close> and
  \<open>tar\<close> writes the archive. All other commands succeed and change nothing.
\<close>

definition demo_host :: "unit host" where
  "demo_host =
     \<lparr>bucket_upload = (\<lambda>source destination w. (Inr (), w)),
      path_basename = (\<lambda>p. rev (takeWhile not_slash (rev p))),
      process_cwd = ''/srv'', GOOGLE_APPLICATION_CREDENTIALS = None\<rparr>"

definition demo_head :: string where
  "demo_head = ''3f2a9c41d07be5861a4c0f9d2b7e6a1c5d8f0b23''"

definition repo_run ::
  "string \<Rightarrow> string option \<Rightarrow> (string \<rightharpoonup> node) \<times> unit
     \<Rightarrow> ((jserror + string) \<times> nat) \<times> (string \<rightharpoonup> node) \<times> unit" where
  "repo_run cmd cwd w =
     (if startsWith cmd ''git clone ''
      then ((Inr [], 2000),
            ((fst w)(''/tmp/mcp-0000000000000000/index.js'' \<mapsto> File ''export {}'',
                     ''/tmp/mcp-0000000000000000/package.json'' \<mapsto> File ''{}''), ()))
      else if cmd = ''git rev-parse HEAD''
      then ((Inr (demo_head @ [CHR 0x0A]), 20), w)
      else if startsWith cmd ''bun build ''
      then ((Inr [], 900), ((fst w)(''/tmp/mcp-0000000000000000/bundle.mjs'' \<mapsto> File ''export {};''), ()))
      else if startsWith cmd ''tar -czf ''
      then ((Inr [], 300), ((fst w)(''/tmp/bundle-'' @ demo_head @ ''.tar.gz'' \<mapsto> File ''archive''), ()))
      else ((Inr [], 100), w))"
section \<open>Properties of the Locator\<close>

lemma strip_prefix_append [simp]: "strip_prefix p (p @ s) = Some s"
  by (induction p) auto

lemma strip_prefix_Some: "strip_prefix p s = Some r \<longleftrightarrow> s = p @ r"
  by (induction p s rule: strip_prefix.induct) auto

lemma takeWhile_segment:
  "list_all not_slash b \<Longrightarrow> takeWhile not_slash (b @ CHR ''/'' # r) = b"
  by (induction b) (auto simp: not_slash_def)

lemma dropWhile_segment:
  "list_all not_slash b \<Longrightarrow> dropWhile not_slash (b @ CHR ''/'' # r) = CHR ''/'' # r"
  by (induction b) (auto simp: not_slash_def)

lemma takeWhile_segment_end: "list_all not_slash b \<Longrightarrow> takeWhile not_slash b = b"
  by (induction b) auto

lemma dropWhile_segment_end: "list_all not_slash b \<Longrightarrow> dropWhile not_slash b = []"
  by (induction b) auto

lemma run_split:
  "takeWhile not_slash s = b \<Longrightarrow> dropWhile not_slash s = r \<Longrightarrow>
     s = b @ r \<and> list_all not_slash b \<and> (r = [] \<or> (\<exists>r'. r = CHR ''/'' # r'))"
proof -
  assume b: "takeWhile not_slash s = b" and r: "dropWhile not_slash s = r"
  have 1: "s = b @ r" using b r takeWhile_dropWhile_id [of not_slash s] by simp
  have 2: "list_all not_slash b" using b by (auto simp: list_all_iff dest: set_takeWhileD)
  have 3: "r = [] \<or> (\<exists>r'. r = CHR ''/'' # r')"
  proof (cases r)
    case Nil then show ?thesis by simp
  next
    case (Cons c r')
    then have "\<not> not_slash c" using r hd_dropWhile [of not_slash s] by auto
    then show ?thesis using Cons by (simp add: not_slash_def)
  qed
  show ?thesis using 1 2 3 by simp
qed

lemma match_tree_empty: "match_tree [] = Some (None, None)"
  by (simp add: match_tree_def)

lemma match_tree_branch:
  "is_segment b \<Longrightarrow> match_tree (''/tree/'' @ b) = Some (Some b, None)"
  by (cases b) (auto simp add: match_tree_def is_segment_def takeWhile_segment_end dropWhile_segment_end Let_def)

lemma match_tree_sub:
  "is_segment b \<Longrightarrow> match_tree (''/tree/'' @ b @ ''/'' @ sub) =
     (if has_line_terminator sub then None else Some (Some b, Some sub))"
  by (cases b) (auto simp add: match_tree_def is_segment_def takeWhile_segment dropWhile_segment Let_def)

lemma match_tree_Some:
  assumes "match_tree t = Some (g2, g3)"
  shows "(t = [] \<and> g2 = None \<and> g3 = None)
       \<or> (\<exists>b. is_segment b \<and> g2 = Some b \<and>
             ((t = ''/tree/'' @ b \<and> g3 = None)
              \<or> (\<exists>sub. t = ''/tree/'' @ b @ ''/'' @ sub \<and> \<not> has_line_terminator sub \<and> g3 = Some sub)))"
proof (cases "t = []")
  case True
  then show ?thesis using assms by (simp add: match_tree_def)
next
  case False
  then obtain r1 where r1: "strip_prefix ''/tree/'' t = Some r1"
    using assms by (auto simp: match_tree_def split: option.splits)
  then have t: "t = ''/tree/'' @ r1" by (simp only: strip_prefix_Some)
  define b where "b = takeWhile not_slash r1"
  define r2 where "r2 = dropWhile not_slash r1"
  from run_split [OF b_def [symmetric] r2_def [symmetric]]
  have split: "r1 = b @ r2" "list_all not_slash b" "r2 = [] \<or> (\<exists>r'. r2 = CHR ''/'' # r')"
    by auto
  have m: "(if b = [] then None
           else if r2 = [] then Some (Some b, None)
           else if has_line_terminator (tl r2) then None
           else Some (Some b, Some (tl r2))) = Some (g2, g3)"
    using assms False r1 unfolding match_tree_def b_def r2_def by (simp add: Let_def)
  then have bne: "b \<noteq> []" by (auto split: if_splits)
  then have seg: "is_segment b" using split(2) by (simp add: is_segment_def)
  show ?thesis
  proof (cases "r2 = []")
    case True
    then have "g2 = Some b" "g3 = None" using m bne by auto
    moreover have "t = ''/tree/'' @ b" using t split(1) True by simp
    ultimately show ?thesis using seg by blast
  next
    case r2ne: False
    then obtain r' where r': "r2 = CHR ''/'' # r'" using split(3) by auto
    then have "g2 = Some b" "g3 = Some r'" "\<not> has_line_terminator r'"
      using m bne by (auto split: if_splits)
    moreover have "t = ''/tree/'' @ b @ ''/'' @ r'" using t split(1) r' by simp
    ultimately show ?thesis using seg by blast
  qed
qed

lemma match_host_base:
  assumes "is_segment owner" "is_segment repo"
    and "t = [] \<or> (\<exists>t'. t = CHR ''/'' # t')"
  shows "match_host scheme (''://github.com/'' @ owner @ ''/'' @ repo @ t) =
           (case match_tree t of None \<Rightarrow> None
            | Some (g2, g3) \<Rightarrow> Some (github_base scheme owner repo, g2, g3))"
proof -
  have o: "list_all not_slash owner" "owner \<noteq> []" using assms(1) by (auto simp: is_segment_def)
  have r: "list_all not_slash repo" "repo \<noteq> []" using assms(2) by (auto simp: is_segment_def)
  have tw: "takeWhile not_slash (repo @ t) = repo" "dropWhile not_slash (repo @ t) = t"
    using assms(3) r(1) takeWhile_segment dropWhile_segment takeWhile_segment_end dropWhile_segment_end
    by auto
  show ?thesis
    using o r tw unfolding match_host_def
    by (simp add: takeWhile_segment dropWhile_segment github_base_def Let_def split: option.splits)
qed

lemma match_re_base:
  assumes "scheme = ''http'' \<or> scheme = ''https''" "is_segment owner" "is_segment repo"
    and "t = [] \<or> (\<exists>t'. t = CHR ''/'' # t')"
  shows "match_re (github_base scheme owner repo @ t) =
           (case match_tree t of None \<Rightarrow> None
            | Some (g2, g3) \<Rightarrow> Some (github_base scheme owner repo, g2, g3))"
proof -
  have h: "match_re (scheme @ ''://github.com/'' @ owner @ ''/'' @ repo @ t)
         = match_host scheme (''://github.com/'' @ owner @ ''/'' @ repo @ t)"
    using assms(1) by (auto simp: match_re_def)
  show ?thesis using h match_host_base [OF assms(2,3,4), of scheme]
    by (simp add: github_base_def)
qed

lemma match_host_Some:
  assumes "match_host scheme r1 = Some (g1, g2, g3)"
  shows "\<exists>owner repo t. is_segment owner
            \<and> is_segment repo \<and> g1 = github_base scheme owner repo
            \<and> r1 = ''://github.com/'' @ owner @ ''/'' @ repo @ t
            \<and> match_tree t = Some (g2, g3)"
proof -
  obtain r2 where r2: "strip_prefix ''://github.com/'' r1 = Some r2"
    using assms unfolding match_host_def by (auto split: option.splits)
  then have u2: "r1 = ''://github.com/'' @ r2" by (simp only: strip_prefix_Some)
  define owner where "owner = takeWhile not_slash r2"
  define r3 where "r3 = dropWhile not_slash r2"
  define repo where "repo = takeWhile not_slash (tl r3)"
  define r4 where "r4 = dropWhile not_slash (tl r3)"
  have m: "(if owner = [] \<or> r3 = [] then None
            else if repo = [] then None
                 else case match_tree r4 of None \<Rightarrow> None
                      | Some (g2, g3) \<Rightarrow> Some (scheme @ ''://github.com/'' @ owner @ ''/'' @ repo, g2, g3))
           = Some (g1, g2, g3)"
    using assms r2 unfolding match_host_def owner_def r3_def repo_def r4_def
    by (auto simp add: Let_def simp del: dropWhile_eq_Nil_conv split: if_splits)
  then have ne: "owner \<noteq> []" "r3 \<noteq> []" "repo \<noteq> []" by (auto split: if_splits)
  from run_split [OF owner_def [symmetric] r3_def [symmetric]] ne
  obtain r3' where s1: "r2 = owner @ r3" "list_all not_slash owner" "r3 = CHR ''/'' # r3'" by auto
  then have tl3: "tl r3 = r3'" by simp
  from run_split [OF repo_def [symmetric] r4_def [symmetric]]
  have s2: "r3' = repo @ r4" "list_all not_slash repo" using tl3 by auto
  have mt: "match_tree r4 = Some (g2, g3)" "g1 = github_base scheme owner repo"
    using m ne by (auto simp: github_base_def split: option.splits)
  have "r1 = ''://github.com/'' @ owner @ ''/'' @ repo @ r4" using u2 s1 s2 by simp
  moreover have "is_segment owner" "is_segment repo" using ne s1 s2 by (auto simp: is_segment_def)
  ultimately show ?thesis using mt by blast
qed

lemma match_re_Some:
  assumes "match_re url = Some (g1, g2, g3)"
  shows "\<exists>scheme owner repo t. (scheme = ''http'' \<or> scheme = ''https'') \<and> is_segment owner
            \<and> is_segment repo \<and> g1 = github_base scheme owner repo \<and> url = g1 @ t
            \<and> match_tree t = Some (g2, g3)"
proof -
  obtain r0 where r0: "strip_prefix ''http'' url = Some r0"
    using assms by (auto simp: match_re_def split: option.splits)
  then have u0: "url = ''http'' @ r0" by (simp only: strip_prefix_Some)
  show ?thesis
  proof (cases "strip_prefix ''s'' r0")
    case None
    then have "match_host ''http'' r0 = Some (g1, g2, g3)"
      using assms r0 by (simp add: match_re_def)
    from match_host_Some [OF this] u0 show ?thesis
      by (fastforce simp: github_base_def)
  next
    case (Some r1)
    then have u1: "r0 = ''s'' @ r1" by (simp only: strip_prefix_Some)
    have "match_host ''https'' r1 = Some (g1, g2, g3)"
      using assms r0 Some by (simp add: match_re_def)
    from match_host_Some [OF this] u0 u1 show ?thesis
      by (fastforce simp: github_base_def)
  qed
qed

lemma parse_tree_fields:
  assumes "scheme = ''http'' \<or> scheme = ''https''" "is_segment owner" "is_segment repo" "is_segment b"
    and "rest = [] \<or> (rest \<noteq> [] \<and> hd rest = CHR ''/'' \<and> \<not> has_line_terminator (tl rest))"
  shows "baseRepoUrl (parseMonorepoUrl (github_base scheme owner repo @ ''/tree/'' @ b @ rest))
           = github_base scheme owner repo
       \<and> subDir (parseMonorepoUrl (github_base scheme owner repo @ ''/tree/'' @ b @ rest))
           = (if rest = [] \<or> tl rest = [] then None else Some (tl rest))"
proof (cases "rest = []")
  case True
  then show ?thesis
    using match_re_base [OF assms(1,2,3), of "''/tree/'' @ b"] match_tree_branch [OF assms(4)]
    by (simp add: parseMonorepoUrl_def or_undefined_def)
next
  case False
  then have r: "rest = ''/'' @ tl rest" "\<not> has_line_terminator (tl rest)"
    using assms(5) by (cases rest; auto)+
  have "match_re (github_base scheme owner repo @ ''/tree/'' @ b @ ''/'' @ tl rest)
          = Some (github_base scheme owner repo, Some b, Some (tl rest))"
    using match_re_base [OF assms(1,2,3), of "''/tree/'' @ b @ ''/'' @ tl rest"]
      match_tree_sub [OF assms(4), of "tl rest"] r(2)
    by simp
  then have "match_re (github_base scheme owner repo @ ''/tree/'' @ b @ rest)
          = Some (github_base scheme owner repo, Some b, Some (tl rest))"
    using r(1) by metis
  then show ?thesis using False
    by (simp add: parseMonorepoUrl_def or_undefined_def)
qed

text \<open>
  C1, as the code has it. For \<open>scheme\<close> http or https and path segments \<open>owner\<close>,
  \<open>repo\<close>, \<open>b\<close>: the plain URL \<open>scheme://github.com/owner/repo\<close> is returned unchanged
  with no branch and no subdirectory; with \<open>/tree/b\<close> appended the base is the plain URL
  and the branch is \<open>b\<close>, with no subdirectory; with \<open>/tree/b/sub\<close> appended the
  subdirectory is \<open>sub\<close> when \<open>sub\<close> is non-empty and free of line terminators, absent
  when \<open>sub\<close> is empty, and the whole input is returned unchanged when \<open>sub\<close> holds a
  line terminator. Every other input string is returned unchanged with no branch and no
  subdirectory. \<open>parseMonorepoUrl\<close> is total: it has no failing branch.
\<close>

theorem parseMonorepoUrl_shapes:
  "(\<forall>scheme owner repo b sub.
      (scheme = ''http'' \<or> scheme = ''https'') \<and> is_segment owner \<and> is_segment repo \<and> is_segment b \<longrightarrow>
        parseMonorepoUrl (github_base scheme owner repo)
          = \<lparr>baseRepoUrl = github_base scheme owner repo, branch = None, subDir = None\<rparr>
      \<and> parseMonorepoUrl (github_base scheme owner repo @ ''/tree/'' @ b)
          = \<lparr>baseRepoUrl = github_base scheme owner repo, branch = Some b, subDir = None\<rparr>
      \<and> parseMonorepoUrl (github_base scheme owner repo @ ''/tree/'' @ b @ ''/'' @ sub)
          = (if has_line_terminator sub
             then \<lparr>baseRepoUrl = github_base scheme owner repo @ ''/tree/'' @ b @ ''/'' @ sub,
                    branch = None, subDir = None\<rparr>
             else \<lparr>baseRepoUrl = github_base scheme owner repo, branch = Some b,
                    subDir = (if sub = [] then None else Some sub)\<rparr>))
   \<and> (\<forall>url.
        parseMonorepoUrl url = \<lparr>baseRepoUrl = url, branch = None, subDir = None\<rparr>
      \<or> (\<exists>scheme owner repo b rest.
            (scheme = ''http'' \<or> scheme = ''https'') \<and> is_segment owner \<and> is_segment repo
          \<and> is_segment b \<and> (rest = [] \<or> hd rest = CHR ''/'')
          \<and> url = github_base scheme owner repo @ ''/tree/'' @ b @ rest
          \<and> baseRepoUrl (parseMonorepoUrl url) = github_base scheme owner repo
          \<and> branch (parseMonorepoUrl url) = Some b))"
proof (intro conjI allI impI)
  fix scheme owner repo b sub :: string
  assume h: "(scheme = ''http'' \<or> scheme = ''https'') \<and> is_segment owner \<and> is_segment repo \<and> is_segment b"
  then have s: "scheme = ''http'' \<or> scheme = ''https''" and o: "is_segment owner"
    and r: "is_segment repo" and b: "is_segment b" by auto
  have bne: "b \<noteq> []" using b by (simp add: is_segment_def)
  show "parseMonorepoUrl (github_base scheme owner repo)
          = \<lparr>baseRepoUrl = github_base scheme owner repo, branch = None, subDir = None\<rparr>"
    using match_re_base [OF s o r, of "[]"]
    by (simp add: parseMonorepoUrl_def match_tree_empty or_undefined_def)
  show "parseMonorepoUrl (github_base scheme owner repo @ ''/tree/'' @ b)
          = \<lparr>baseRepoUrl = github_base scheme owner repo, branch = Some b, subDir = None\<rparr>"
    using match_re_base [OF s o r, of "''/tree/'' @ b"] match_tree_branch [OF b] bne
    by (simp add: parseMonorepoUrl_def or_undefined_def)
  show "parseMonorepoUrl (github_base scheme owner repo @ ''/tree/'' @ b @ ''/'' @ sub)
          = (if has_line_terminator sub
             then \<lparr>baseRepoUrl = github_base scheme owner repo @ ''/tree/'' @ b @ ''/'' @ sub,
                    branch = None, subDir = None\<rparr>
             else \<lparr>baseRepoUrl = github_base scheme owner repo, branch = Some b,
                    subDir = (if sub = [] then None else Some sub)\<rparr>)"
    using match_re_base [OF s o r, of "''/tree/'' @ b @ ''/'' @ sub"] match_tree_sub [OF b, of sub] bne
    by (simp add: parseMonorepoUrl_def or_undefined_def)
next
  fix url :: string
  show "parseMonorepoUrl url = \<lparr>baseRepoUrl = url, branch = None, subDir = None\<rparr>
      \<or> (\<exists>scheme owner repo b rest.
            (scheme = ''http'' \<or> scheme = ''https'') \<and> is_segment owner \<and> is_segment repo
          \<and> is_segment b \<and> (rest = [] \<or> hd rest = CHR ''/'')
          \<and> url = github_base scheme owner repo @ ''/tree/'' @ b @ rest
          \<and> baseRepoUrl (parseMonorepoUrl url) = github_base scheme owner repo
          \<and> branch (parseMonorepoUrl url) = Some b)"
  proof (cases "match_re url")
    case None
    then show ?thesis by (simp add: parseMonorepoUrl_def)
  next
    case (Some g)
    obtain g1 g2 g3 where g: "g = (g1, g2, g3)" by (cases g)
    from match_re_Some [OF Some [unfolded g]]
    obtain scheme owner repo t where
      m: "scheme = ''http'' \<or> scheme = ''https''" "is_segment owner" "is_segment repo"
         "g1 = github_base scheme owner repo" "url = g1 @ t" "match_tree t = Some (g2, g3)"
      by blast
    have p: "parseMonorepoUrl url
               = \<lparr>baseRepoUrl = g1, branch = or_undefined g2, subDir = or_undefined g3\<rparr>"
      using Some g by (simp add: parseMonorepoUrl_def)
    from match_tree_Some [OF m(6)] show ?thesis
    proof (elim disjE conjE exE)
      assume "t = []" "g2 = None" "g3 = None"
      then show ?thesis using p m(5) by (simp add: or_undefined_def)
    next
      fix b assume b: "is_segment b" "g2 = Some b" and t: "t = ''/tree/'' @ b" "g3 = None"
      have "b \<noteq> []" using b(1) by (simp add: is_segment_def)
      then have "branch (parseMonorepoUrl url) = Some b" using p b(2) by (simp add: or_undefined_def)
      moreover have "url = github_base scheme owner repo @ ''/tree/'' @ b @ []"
        using m(4,5) t(1) by simp
      ultimately show ?thesis using m(1,2,3,4) b(1) p by (intro disjI2 exI [of _ "[]"] exI) auto
    next
      fix b sub assume b: "is_segment b" "g2 = Some b"
        and t: "t = ''/tree/'' @ b @ ''/'' @ sub"
      have "b \<noteq> []" using b(1) by (simp add: is_segment_def)
      then have "branch (parseMonorepoUrl url) = Some b" using p b(2) by (simp add: or_undefined_def)
      moreover have "url = github_base scheme owner repo @ ''/tree/'' @ b @ (''/'' @ sub)"
        using m(4,5) t by simp
      moreover have "hd (''/'' @ sub) = CHR ''/''" by simp
      ultimately show ?thesis using m(1,2,3,4) b(1) p
        by (intro disjI2 exI [of _ "''/'' @ sub"] exI) auto
    qed
  qed
qed

theorem parseMonorepoUrl_shapes_witness:
  "is_segment ''o'' \<and> is_segment ''r'' \<and> is_segment ''main''
   \<and> parseMonorepoUrl ''https://github.com/o/r/tree/main/packages/srv''
       = \<lparr>baseRepoUrl = ''https://github.com/o/r'', branch = Some ''main'',
          subDir = Some ''packages/srv''\<rparr>"
proof -
  have h: "(''https'' = ''http'' \<or> ''https'' = ''https'') \<and> is_segment ''o'' \<and> is_segment ''r''
           \<and> is_segment ''main''"
    by (simp add: is_segment_def not_slash_def)
  show ?thesis
    using h parseMonorepoUrl_shapes [THEN conjunct1, rule_format, OF h, of "''packages/srv''"]
    by (simp add: github_base_def)
qed

text \<open>
  C1 as stated fails: a URL with \<open>/tree/<branch>\<close> and no subpath is not of the shape
  \<open>.../tree/<branch>/<subpath>\<close>, yet it is not returned unchanged and a branch is reported.
\<close>

theorem parseMonorepoUrl_unchanged_counterexample:
  "baseRepoUrl (parseMonorepoUrl ''https://github.com/o/r/tree/main'') \<noteq> ''https://github.com/o/r/tree/main''
   \<and> branch (parseMonorepoUrl ''https://github.com/o/r/tree/main'') = Some ''main''
   \<and> subDir (parseMonorepoUrl ''https://github.com/o/r/tree/main'') = None"
  by (simp add: parseMonorepoUrl_def match_re_def match_host_def match_tree_def not_slash_def
      or_undefined_def)

section \<open>Properties of the v1 pipeline\<close>

subsection \<open>Effects\<close>

text \<open>The definitions to unfold when the model runs on a concrete input.\<close>

lemmas demo_defs = demo_env_def scripted_def demo_parse_def demo_stringify_def manifest_bin_main_def

lemmas stage_defs = buildMCPServer_def build_steps_def git_clone_def git_checkout_def install_def
  typecheck_def tsconfig_fix_def patch_tsconfig_def find_entrypoint_def main_from_manifest_def
  bundle_stage_def attempt_def install_dir_def temp_dir_def possibleEntrypoints_def get_prop_def truthy_def

lemmas effect_defs = execAsync_def withTimeout_def fs_mkdir_def fs_readFile_def fs_writeFile_def
  fs_access_def fs_rm_def emit_def endsWith_def startsWith_def toString_hex_def randomBytes_def
  hex_byte_def digit_char_def upt_rec utf8_decode.simps byte_in_def

lemmas locator_defs = parseMonorepoUrl_def match_re_def match_host_def match_tree_def not_slash_def
  or_undefined_def

lemma files_emit [simp]: "files (emit ev s) = files s"
  by (simp add: emit_def)

lemma ext_emit [simp]: "ext (emit ev s) = ext s"
  by (simp add: emit_def)

lemma trace_emit [simp]: "trace (emit ev s) = trace s @ [ev]"
  by (simp add: emit_def)

lemma files_fs_rm: "files (fs_rm d s) p = (if under d p then None else files s p)"
  by (simp add: fs_rm_def)

lemma trace_fs_rm: "trace (fs_rm d s) = trace s @ [Rm d]"
  by (simp add: fs_rm_def)

lemma ext_fs_rm: "ext (fs_rm d s) = ext s"
  by (simp add: fs_rm_def)

lemma fs_readFile_file:
  "files s p = Some (File c) \<Longrightarrow> fs_readFile p s = (Inr (utf8_decode c), emit (ReadFile p) s)"
  by (simp add: fs_readFile_def)

lemma commands_append: "commands (xs @ ys) = commands xs @ commands ys"
  by (induction xs rule: commands.induct) auto

lemma includes_str_nonempty: "includes_str m (c # cs) \<Longrightarrow> m \<noteq> []"
  by (cases m) auto

subsection \<open>Every stage only adds to the trace\<close>

lemma grows_refl [simp]: "grows s s"
  by (simp add: grows_def)

lemma grows_trans: "grows s s1 \<Longrightarrow> grows s1 s2 \<Longrightarrow> grows s s2"
  by (auto simp: grows_def)

lemma grows_emit: "grows s s1 \<Longrightarrow> grows s (emit ev s1)"
  by (auto simp: grows_def)

lemma grows_execAsync: "grows s s1 \<Longrightarrow> grows s (snd (execAsync env c d s1))"
  by (auto simp: grows_def execAsync_def split: prod.splits)

lemma grows_execAsync': "execAsync env c d s1 = (p, s2) \<Longrightarrow> grows s s1 \<Longrightarrow> grows s s2"
  using grows_execAsync [of s s1 env c d] by simp

lemma grows_readFile: "fs_readFile p s1 = (r, s2) \<Longrightarrow> grows s s1 \<Longrightarrow> grows s s2"
  by (auto simp: fs_readFile_def intro: grows_emit)

lemma grows_writeFile: "grows s s1 \<Longrightarrow> grows s (fs_writeFile p c s1)"
  by (auto simp: grows_def fs_writeFile_def)

lemma grows_access: "fs_access p s1 = (r, s2) \<Longrightarrow> grows s s1 \<Longrightarrow> grows s s2"
  by (auto simp: fs_access_def intro: grows_emit)

lemma grows_git_clone: "git_clone env u t s1 = (r, s2) \<Longrightarrow> grows s s1 \<Longrightarrow> grows s s2"
  by (auto simp: git_clone_def Let_def split: prod.splits sum.splits if_splits dest: grows_execAsync')

lemma grows_git_checkout: "git_checkout env c t s1 = (r, s2) \<Longrightarrow> grows s s1 \<Longrightarrow> grows s s2"
  by (auto simp: git_checkout_def split: option.splits prod.splits sum.splits if_splits
      dest!: grows_execAsync' intro: grows_emit)


lemma grows_install: "grows s s1 \<Longrightarrow> grows s (install env d s1)"
  by (auto simp: install_def split: prod.splits sum.splits
      dest!: grows_execAsync' intro: grows_emit)

lemma grows_tsconfig_fix: "grows s s1 \<Longrightarrow> grows s (tsconfig_fix env d s1)"
  by (auto simp: tsconfig_fix_def Let_def split: prod.splits sum.splits option.splits
      dest!: grows_readFile grows_execAsync' intro!: grows_emit grows_writeFile)

lemma grows_typecheck: "grows s s1 \<Longrightarrow> grows s (typecheck env d s1)"
  by (auto simp: typecheck_def Let_def split: prod.splits sum.splits
      dest!: grows_execAsync' intro!: grows_tsconfig_fix grows_emit)

lemma grows_probe: "probe env d xs s1 = (r, s2) \<Longrightarrow> grows s s1 \<Longrightarrow> grows s s2"
proof (induction xs arbitrary: s1)
  case Nil
  then show ?case by simp
next
  case (Cons x xs)
  have g: "grows s (emit (Access (path_join env d x)) s1)"
    using Cons.prems(2) by (rule grows_emit)
  show ?case
  proof (cases "files s1 (path_join env d x) \<noteq> None")
    case True
    then show ?thesis using Cons.prems(1) g by (auto simp: fs_access_def)
  next
    case False
    then have "probe env d xs (emit (Access (path_join env d x)) s1) = (r, s2)"
      using Cons.prems(1) by (auto simp: fs_access_def)
    then show ?thesis using Cons.IH g by blast
  qed
qed

lemma grows_main_from_manifest:
  "main_from_manifest env d s1 = (r, s2) \<Longrightarrow> grows s s1 \<Longrightarrow> grows s s2"
  by (auto simp: main_from_manifest_def Let_def fs_access_def
      split: prod.splits sum.splits option.splits if_splits json.splits bool.splits
      dest!: grows_readFile intro!: grows_emit)

lemma grows_find_entrypoint:
  "find_entrypoint env d s1 = (r, s2) \<Longrightarrow> grows s s1 \<Longrightarrow> grows s s2"
  by (auto simp: find_entrypoint_def split: prod.splits option.splits if_splits
      dest!: grows_probe grows_main_from_manifest)

lemma grows_attempt:
  "attempt env chk cwd cmd d name s1 = (r, s2) \<Longrightarrow> grows s s1 \<Longrightarrow> grows s s2"
  by (auto simp: attempt_def split: prod.splits sum.splits dest!: grows_execAsync')

lemma grows_bundle_stage:
  "bundle_stage env d e f s1 = (r, s2) \<Longrightarrow> grows s s1 \<Longrightarrow> grows s s2"
  by (auto simp: bundle_stage_def Let_def split: prod.splits sum.splits
      dest!: grows_attempt intro!: grows_emit)

lemma fs_mkdir_trace: "\<exists>evs. trace (snd (fs_mkdir p s)) = trace s @ Mkdir p # evs"
  by (simp add: fs_mkdir_def)


lemma fs_mkdir_trace': "fs_mkdir p s = (r, s1) \<Longrightarrow> trace s1 = trace s @ [Mkdir p]"
  by (auto simp: fs_mkdir_def split: if_splits)

lemma build_steps_grows:
  assumes "build_steps env u sub f c t s = (r, s')"
  shows "\<exists>evs. trace s' = trace s @ Mkdir t # evs"
proof -
  obtain r0 s1 where m: "fs_mkdir t s = (r0, s1)" by (cases "fs_mkdir t s")
  have t1: "trace s1 = trace s @ [Mkdir t]" by (rule fs_mkdir_trace' [OF m])
  have "grows s1 s'"
    using assms m
    by (auto simp: build_steps_def Let_def split: prod.splits sum.splits
        dest!: grows_git_clone [where s = s1] grows_git_checkout [where s = s1]
               grows_find_entrypoint [where s = s1] grows_bundle_stage [where s = s1]
               grows_readFile [where s = s1]
        intro!: grows_typecheck grows_install)
  then show ?thesis using t1 by (auto simp: grows_def)
qed

lemma buildMCPServer_trace:
  "\<exists>evs. trace (snd (buildMCPServer env u f c s)) = trace s @ Mkdir (temp_dir env) # evs @ [Rm (temp_dir env)]"
proof -
  obtain r s1 where b: "build_steps env (baseRepoUrl (parseMonorepoUrl u)) (subDir (parseMonorepoUrl u)) f c
                          (temp_dir env) s = (r, s1)"
    by (cases "build_steps env (baseRepoUrl (parseMonorepoUrl u)) (subDir (parseMonorepoUrl u)) f c (temp_dir env) s")
  from build_steps_grows [OF b] obtain evs where e: "trace s1 = trace s @ Mkdir (temp_dir env) # evs"
    by blast
  show ?thesis
    using b e
    by (cases r) (auto simp: buildMCPServer_def Let_def fs_rm_def emit_def)
qed

subsection \<open>Workspace teardown\<close>

text \<open>
  C2. Whatever the environment does and however the build ends (the bundle returned, or
  the rejection after any failed stage: no entrypoint, bundling exhausted, a stage timed
  out), the call begins by making the scratch directory \<open>temp_dir env\<close> and ends by
  removing it, and when it settles nothing exists at or beneath that directory.
\<close>

theorem buildMCPServer_removes_scratch:
  "dom (files (snd (buildMCPServer env githubUrl format commit s))) \<inter> {p. under (temp_dir env) p} = {}
   \<and> (\<exists>evs. trace (snd (buildMCPServer env githubUrl format commit s))
               = trace s @ Mkdir (temp_dir env) # evs @ [Rm (temp_dir env)])"
proof
  show "dom (files (snd (buildMCPServer env githubUrl format commit s))) \<inter> {p. under (temp_dir env) p} = {}"
    by (auto simp: buildMCPServer_def Let_def files_fs_rm split: prod.splits sum.splits)
  show "\<exists>evs. trace (snd (buildMCPServer env githubUrl format commit s))
               = trace s @ Mkdir (temp_dir env) # evs @ [Rm (temp_dir env)]"
    by (rule buildMCPServer_trace)
qed

text \<open>
  The teardown on the abort for a missing entrypoint: the clone leaves no file, the
  build is rejected, and the scratch directory that \<open>mkdir\<close> made is gone.
\<close>

theorem buildMCPServer_removes_scratch_witness:
  "fst (buildMCPServer (demo_env (scripted quiet_script)) ''https://github.com/o/r'' ''mjs'' None empty_state)
     = Inl (Error ''Failed to build the server code.'')
   \<and> temp_dir (demo_env (scripted quiet_script)) = ''/tmp/mcp-0000000000000000''
   \<and> hd (trace (snd (buildMCPServer (demo_env (scripted quiet_script)) ''https://github.com/o/r'' ''mjs'' None empty_state)))
       = Mkdir ''/tmp/mcp-0000000000000000''
   \<and> SentryBuildFailure (Error ''No valid entrypoint file found'') ''https://github.com/o/r'' None ''mjs''
       \<in> set (trace (snd (buildMCPServer (demo_env (scripted quiet_script)) ''https://github.com/o/r'' ''mjs'' None empty_state)))
   \<and> last (trace (snd (buildMCPServer (demo_env (scripted quiet_script)) ''https://github.com/o/r'' ''mjs'' None empty_state)))
       = Rm ''/tmp/mcp-0000000000000000''
   \<and> dom (files (snd (buildMCPServer (demo_env (scripted quiet_script)) ''https://github.com/o/r'' ''mjs'' None empty_state)))
       \<inter> {p. under ''/tmp/mcp-0000000000000000'' p} = {}"
proof -
  have t: "temp_dir (demo_env (scripted quiet_script)) = ''/tmp/mcp-0000000000000000''"
    by (simp add: temp_dir_def demo_defs effect_defs)
  have r: "fst (buildMCPServer (demo_env (scripted quiet_script)) ''https://github.com/o/r'' ''mjs'' None empty_state)
     = Inl (Error ''Failed to build the server code.'')"
    by (simp add: stage_defs demo_defs quiet_script_def empty_state_def effect_defs locator_defs Let_def)
  have e: "hd (trace (snd (buildMCPServer (demo_env (scripted quiet_script)) ''https://github.com/o/r'' ''mjs'' None empty_state)))
       = Mkdir ''/tmp/mcp-0000000000000000''
   \<and> last (trace (snd (buildMCPServer (demo_env (scripted quiet_script)) ''https://github.com/o/r'' ''mjs'' None empty_state)))
       = Rm ''/tmp/mcp-0000000000000000''
   \<and> SentryBuildFailure (Error ''No valid entrypoint file found'') ''https://github.com/o/r'' None ''mjs''
       \<in> set (trace (snd (buildMCPServer (demo_env (scripted quiet_script)) ''https://github.com/o/r'' ''mjs'' None empty_state)))"
    by (simp add: stage_defs demo_defs quiet_script_def empty_state_def effect_defs locator_defs Let_def)
  show ?thesis
    using t r e buildMCPServer_removes_scratch
      [of "demo_env (scripted quiet_script)" "''https://github.com/o/r''" "''mjs''" None empty_state,
       THEN conjunct1]
    by simp
qed

subsection \<open>The checkout of a pinned commit\<close>

text \<open>
  What a failed checkout leads to: the warning, then \<open>git rev-parse\<close>, whose outcome
  decides whether the stage goes on.
\<close>

lemma git_checkout_failed:
  assumes "c \<noteq> []"
    and "run_cmd env (''git checkout '' @ c) (Some t) (files s, ext s) = (p, (f1, x1))"
    and "withTimeout p 30000 ''git checkout'' = Inl e"
    and "run_cmd env ''git rev-parse --abbrev-ref HEAD'' (Some t) (f1, x1) = (q, (f2, x2))"
  shows "fst (git_checkout env (Some c) t s) = (case fst q of Inl e2 \<Rightarrow> Inl e2 | Inr out \<Rightarrow> Inr ())
       \<and> trace (snd (git_checkout env (Some c) t s))
           = trace s @ [Exec (''git checkout '' @ c) (Some t),
                        Warn (''Failed to checkout commit '' @ c @ '', using default branch''),
                        Exec ''git rev-parse --abbrev-ref HEAD'' (Some t)]"
  using assms by (simp add: git_checkout_def execAsync_def emit_def split: sum.splits)

text \<open>
  C6 does not hold of the code. When \<open>git checkout\<close> fails, the handler warns and then
  awaits \<open>git rev-parse --abbrev-ref HEAD\<close> outside any \<open>try\<close>; in a clone whose
  \<open>HEAD\<close> is unborn that command fails too, its rejection leaves the Fetch stage, and
  the build is rejected before any install command runs.
\<close>

theorem checkout_failure_rejects_build:
  "fst (buildMCPServer (demo_env (scripted unborn_head_script)) ''https://github.com/o/r'' ''mjs''
          (Some ''deadbeef'') empty_state)
     = Inl (Error ''Failed to build the server code.'')
   \<and> commands (trace (snd (buildMCPServer (demo_env (scripted unborn_head_script)) ''https://github.com/o/r''
          ''mjs'' (Some ''deadbeef'') empty_state)))
     = [(''git clone https://github.com/o/r.git /tmp/mcp-0000000000000000'', Some ''/tmp/mcp-0000000000000000''),
        (''git checkout deadbeef'', Some ''/tmp/mcp-0000000000000000''),
        (''git rev-parse --abbrev-ref HEAD'', Some ''/tmp/mcp-0000000000000000'')]"
  by (simp add: stage_defs demo_defs unborn_head_script_def empty_state_def effect_defs locator_defs Let_def)

subsection \<open>The \<open>Symbol.dispose\<close> repair\<close>

lemma map_of_set_member_same: "map_of (set_member ms k v) k = Some v"
  by (induction ms k v rule: set_member.induct) auto

lemma map_of_set_member_other: "k' \<noteq> k \<Longrightarrow> map_of (set_member ms k v) k' = map_of ms k'"
  by (induction ms k v rule: set_member.induct) auto

lemma es2022_options_target: "map_of (es2022_options opts) ''target'' = Some (JStr ''ES2022'')"
  by (simp add: es2022_options_def map_of_set_member_same map_of_set_member_other)

lemma es2022_options_lib:
  "map_of (es2022_options opts) ''lib'' = Some (JArr [JStr ''ES2022'', JStr ''DOM''])"
  by (simp add: es2022_options_def map_of_set_member_same)

lemma patch_tsconfig_object:
  assumes "map_of ms ''compilerOptions'' = None \<and> opts = []
         \<or> map_of ms ''compilerOptions'' = Some (JObj opts)"
  shows "patch_tsconfig (JObj ms)
           = Inr (JObj (set_member ms ''compilerOptions'' (JObj (es2022_options opts))))"
  using assms by (auto simp: patch_tsconfig_def get_prop_def truthy_def)

lemma tsconfig_fix_parsed:
  assumes "files s (path_join env d ''tsconfig.json'') = Some (File content)"
    and "json_parse env (utf8_decode content) = Some cfg"
  shows "tsconfig_fix env d s =
     (let tsConfigPath = path_join env d ''tsconfig.json'';
          s2 = fs_writeFile (tsConfigPath @ ''.backup'') (utf8_decode content) (emit (ReadFile tsConfigPath) s) in
                case patch_tsconfig cfg of
                  Inl e \<Rightarrow> emit (Warn ''Failed to apply tsconfig fix:'') s2
                | Inr patched \<Rightarrow>
                    (case execAsync env ''bun run tsc'' (Some d)
                            (fs_writeFile tsConfigPath (json_stringify env patched) s2) of
                       (p, s3) \<Rightarrow>
                         (let s4 = (case withTimeout p 60000 ''tsc compile with modified config'' of
                                      Inr out \<Rightarrow> s3
                                    | Inl compileError \<Rightarrow>
                                        emit (Warn ''TypeScript compilation still failed after fix, continuing with build'') s3)
                          in fs_writeFile tsConfigPath (utf8_decode content) s4)))"
  using assms by (simp add: tsconfig_fix_def fs_readFile_file Let_def)

lemma tsconfig_fix_content_patched:
  assumes "files s (path_join env d ''tsconfig.json'') = Some (File content)"
    and "json_parse env (utf8_decode content) = Some cfg"
    and "patch_tsconfig cfg = Inr patched"
  shows "files (tsconfig_fix env d s) (path_join env d ''tsconfig.json'')
           = Some (File (utf8_decode content))"
  unfolding tsconfig_fix_parsed [OF assms(1,2)]
  using assms(3)
  by (auto simp: Let_def fs_writeFile_def execAsync_def split: sum.splits prod.splits)

lemma tsconfig_fix_content_thrown:
  assumes "files s (path_join env d ''tsconfig.json'') = Some (File content)"
    and "json_parse env (utf8_decode content) = Some cfg"
    and "patch_tsconfig cfg = Inl e"
  shows "files (tsconfig_fix env d s) (path_join env d ''tsconfig.json'') = Some (File content)"
  unfolding tsconfig_fix_parsed [OF assms(1,2)]
  using assms(1,3)
  by (auto simp: Let_def fs_writeFile_def)

lemma tsconfig_fix_trace_patched:
  assumes "files s (path_join env d ''tsconfig.json'') = Some (File content)"
    and "json_parse env (utf8_decode content) = Some cfg"
    and "patch_tsconfig cfg = Inr patched"
  shows "\<exists>w. (w = [] \<or> w = [Warn ''TypeScript compilation still failed after fix, continuing with build''])
          \<and> trace (tsconfig_fix env d s) = trace s @
             [ReadFile (path_join env d ''tsconfig.json''),
              WriteFile (path_join env d ''tsconfig.json'' @ ''.backup'') (utf8_decode content),
              WriteFile (path_join env d ''tsconfig.json'') (json_stringify env patched),
              Exec ''bun run tsc'' (Some d)] @ w @
             [WriteFile (path_join env d ''tsconfig.json'') (utf8_decode content)]"
  unfolding tsconfig_fix_parsed [OF assms(1,2)]
  using assms(3)
  by (auto simp: Let_def fs_writeFile_def execAsync_def split: sum.splits prod.splits)

lemma tsconfig_fix_trace_thrown:
  assumes "files s (path_join env d ''tsconfig.json'') = Some (File content)"
    and "json_parse env (utf8_decode content) = Some cfg"
    and "patch_tsconfig cfg = Inl e"
  shows "trace (tsconfig_fix env d s) = trace s @
             [ReadFile (path_join env d ''tsconfig.json''),
              WriteFile (path_join env d ''tsconfig.json'' @ ''.backup'') (utf8_decode content),
              Warn ''Failed to apply tsconfig fix:'']"
  unfolding tsconfig_fix_parsed [OF assms(1,2)]
  using assms(3)
  by (auto simp: Let_def fs_writeFile_def)

lemma typecheck_dispose:
  assumes "run_cmd env ''bun run tsc'' (Some d) (files s, ext s) = (p, (f1, x1))"
    and "withTimeout p 60000 ''tsc compile'' = Inl e"
    and "includes_str (message e) ''Symbol.dispose''"
  shows "typecheck env d s =
           tsconfig_fix env d
             \<lparr>files = f1, ext = x1,
              trace = trace s @ [Exec ''bun run tsc'' (Some d),
                                 Warn ''TypeScript compilation failed, continuing with build:'']\<rparr>"
  using assms includes_str_nonempty [OF assms(3)]
  by (simp add: typecheck_def execAsync_def Let_def emit_def)

text \<open>
  C5, as the code has it. Let the first \<open>bun run tsc\<close> fail with a message that holds
  \<open>Symbol.dispose\<close>, and let \<open>tsconfig.json\<close> in the install directory then be a file
  of bytes \<open>content\<close> whose text, the bytes decoded as UTF-8, is valid JSON. The stage
  reads the file and writes the text as the backup. If lines 216-218 apply to the parsed
  value (\<open>patch_tsconfig\<close> returns), it writes the patched configuration, runs the
  compiler again, warns if that fails, and writes the text back: the file then holds the
  decoded text. An object whose \<open>compilerOptions\<close> is absent or an object is such a
  value, and its patch sets \<open>target\<close> to ES2022 and \<open>lib\<close> to ES2022 and DOM. If those
  lines throw, the stage warns and stops after the backup, and the file is untouched. So
  \<open>tsconfig.json\<close> holds \<open>content\<close> at the end whenever \<open>content\<close> is well-formed
  UTF-8, that is, decodes to itself.
\<close>

theorem typecheck_dispose_repair:
  assumes "run_cmd env ''bun run tsc'' (Some d) (files s, ext s) = (p, (f1, x1))"
    and "withTimeout p 60000 ''tsc compile'' = Inl e"
    and "includes_str (message e) ''Symbol.dispose''"
    and "f1 (path_join env d ''tsconfig.json'') = Some (File content)"
    and "json_parse env (utf8_decode content) = Some cfg"
  shows "(utf8_decode content = content \<longrightarrow>
        files (typecheck env d s) (path_join env d ''tsconfig.json'') = Some (File content))
   \<and> (\<forall>patched. patch_tsconfig cfg = Inr patched \<longrightarrow>
        files (typecheck env d s) (path_join env d ''tsconfig.json'') = Some (File (utf8_decode content))
        \<and> (\<exists>w. (w = [] \<or> w = [Warn ''TypeScript compilation still failed after fix, continuing with build''])
           \<and> trace (typecheck env d s) = trace s @
               [Exec ''bun run tsc'' (Some d),
                Warn ''TypeScript compilation failed, continuing with build:'',
                ReadFile (path_join env d ''tsconfig.json''),
                WriteFile (path_join env d ''tsconfig.json'' @ ''.backup'') (utf8_decode content),
                WriteFile (path_join env d ''tsconfig.json'') (json_stringify env patched),
                Exec ''bun run tsc'' (Some d)] @ w @
               [WriteFile (path_join env d ''tsconfig.json'') (utf8_decode content)]))
   \<and> (\<forall>ms opts. cfg = JObj ms
          \<and> (map_of ms ''compilerOptions'' = None \<and> opts = []
             \<or> map_of ms ''compilerOptions'' = Some (JObj opts)) \<longrightarrow>
        (\<exists>ms' opts'. patch_tsconfig cfg = Inr (JObj ms')
           \<and> map_of ms' ''compilerOptions'' = Some (JObj opts')
           \<and> map_of opts' ''target'' = Some (JStr ''ES2022'')
           \<and> map_of opts' ''lib'' = Some (JArr [JStr ''ES2022'', JStr ''DOM''])))
   \<and> (\<forall>thrown. patch_tsconfig cfg = Inl thrown \<longrightarrow>
        files (typecheck env d s) (path_join env d ''tsconfig.json'') = Some (File content)
        \<and> trace (typecheck env d s) = trace s @
               [Exec ''bun run tsc'' (Some d),
                Warn ''TypeScript compilation failed, continuing with build:'',
                ReadFile (path_join env d ''tsconfig.json''),
                WriteFile (path_join env d ''tsconfig.json'' @ ''.backup'') (utf8_decode content),
                Warn ''Failed to apply tsconfig fix:''])"
proof -
  let ?s2 = "\<lparr>files = f1, ext = x1,
              trace = trace s @ [Exec ''bun run tsc'' (Some d),
                                 Warn ''TypeScript compilation failed, continuing with build:'']\<rparr>"
  have tc: "typecheck env d s = tsconfig_fix env d ?s2"
    by (rule typecheck_dispose [OF assms(1,2,3)])
  have fl: "files ?s2 (path_join env d ''tsconfig.json'') = Some (File content)"
    using assms(4) by simp
  have c2: "\<forall>patched. patch_tsconfig cfg = Inr patched \<longrightarrow>
        files (typecheck env d s) (path_join env d ''tsconfig.json'') = Some (File (utf8_decode content))
        \<and> (\<exists>w. (w = [] \<or> w = [Warn ''TypeScript compilation still failed after fix, continuing with build''])
           \<and> trace (typecheck env d s) = trace s @
               [Exec ''bun run tsc'' (Some d),
                Warn ''TypeScript compilation failed, continuing with build:'',
                ReadFile (path_join env d ''tsconfig.json''),
                WriteFile (path_join env d ''tsconfig.json'' @ ''.backup'') (utf8_decode content),
                WriteFile (path_join env d ''tsconfig.json'') (json_stringify env patched),
                Exec ''bun run tsc'' (Some d)] @ w @
               [WriteFile (path_join env d ''tsconfig.json'') (utf8_decode content)])"
  proof (intro allI impI conjI)
    fix patched assume pt: "patch_tsconfig cfg = Inr patched"
    show "files (typecheck env d s) (path_join env d ''tsconfig.json'') = Some (File (utf8_decode content))"
      unfolding tc by (rule tsconfig_fix_content_patched [OF fl assms(5) pt])
    from tsconfig_fix_trace_patched [OF fl assms(5) pt]
    show "\<exists>w. (w = [] \<or> w = [Warn ''TypeScript compilation still failed after fix, continuing with build''])
           \<and> trace (typecheck env d s) = trace s @
               [Exec ''bun run tsc'' (Some d),
                Warn ''TypeScript compilation failed, continuing with build:'',
                ReadFile (path_join env d ''tsconfig.json''),
                WriteFile (path_join env d ''tsconfig.json'' @ ''.backup'') (utf8_decode content),
                WriteFile (path_join env d ''tsconfig.json'') (json_stringify env patched),
                Exec ''bun run tsc'' (Some d)] @ w @
               [WriteFile (path_join env d ''tsconfig.json'') (utf8_decode content)]"
      unfolding tc by auto
  qed
  have c3: "\<forall>ms opts. cfg = JObj ms
          \<and> (map_of ms ''compilerOptions'' = None \<and> opts = []
             \<or> map_of ms ''compilerOptions'' = Some (JObj opts)) \<longrightarrow>
        (\<exists>ms' opts'. patch_tsconfig cfg = Inr (JObj ms')
           \<and> map_of ms' ''compilerOptions'' = Some (JObj opts')
           \<and> map_of opts' ''target'' = Some (JStr ''ES2022'')
           \<and> map_of opts' ''lib'' = Some (JArr [JStr ''ES2022'', JStr ''DOM'']))"
  proof (intro allI impI, elim conjE)
    fix ms opts
    assume c: "cfg = JObj ms"
      and o: "map_of ms ''compilerOptions'' = None \<and> opts = []
             \<or> map_of ms ''compilerOptions'' = Some (JObj opts)"
    show "\<exists>ms' opts'. patch_tsconfig cfg = Inr (JObj ms')
           \<and> map_of ms' ''compilerOptions'' = Some (JObj opts')
           \<and> map_of opts' ''target'' = Some (JStr ''ES2022'')
           \<and> map_of opts' ''lib'' = Some (JArr [JStr ''ES2022'', JStr ''DOM''])"
      using patch_tsconfig_object [OF o] c map_of_set_member_same es2022_options_target es2022_options_lib
      by blast
  qed
  have c4: "\<forall>thrown. patch_tsconfig cfg = Inl thrown \<longrightarrow>
        files (typecheck env d s) (path_join env d ''tsconfig.json'') = Some (File content)
        \<and> trace (typecheck env d s) = trace s @
               [Exec ''bun run tsc'' (Some d),
                Warn ''TypeScript compilation failed, continuing with build:'',
                ReadFile (path_join env d ''tsconfig.json''),
                WriteFile (path_join env d ''tsconfig.json'' @ ''.backup'') (utf8_decode content),
                Warn ''Failed to apply tsconfig fix:'']"
  proof (intro allI impI conjI)
    fix thrown assume pt: "patch_tsconfig cfg = Inl thrown"
    show "files (typecheck env d s) (path_join env d ''tsconfig.json'') = Some (File content)"
      unfolding tc by (rule tsconfig_fix_content_thrown [OF fl assms(5) pt])
    from tsconfig_fix_trace_thrown [OF fl assms(5) pt]
    show "trace (typecheck env d s) = trace s @
               [Exec ''bun run tsc'' (Some d),
                Warn ''TypeScript compilation failed, continuing with build:'',
                ReadFile (path_join env d ''tsconfig.json''),
                WriteFile (path_join env d ''tsconfig.json'' @ ''.backup'') (utf8_decode content),
                Warn ''Failed to apply tsconfig fix:'']"
      unfolding tc by simp
  qed
  have c1: "utf8_decode content = content \<longrightarrow>
        files (typecheck env d s) (path_join env d ''tsconfig.json'') = Some (File content)"
  proof
    assume wf: "utf8_decode content = content"
    show "files (typecheck env d s) (path_join env d ''tsconfig.json'') = Some (File content)"
    proof (cases "patch_tsconfig cfg")
      case (Inl thrown)
      then show ?thesis using c4 by blast
    next
      case (Inr patched)
      then show ?thesis using c2 wf by simp
    qed
  qed
  show ?thesis using c1 c2 c3 c4 by (intro conjI)
qed

text \<open>
  The repair on a configuration \<open>{}\<close> with a compiler that fails before and after the
  patch: the whole sequence runs and \<open>tsconfig.json\<close> holds \<open>{}\<close> at the end.
\<close>

theorem typecheck_dispose_repair_witness:
  "includes_str ''Command failed: bun run tsc error TS2550: Property Symbol.dispose does not exist'' ''Symbol.dispose''
   \<and> utf8_decode ''{}'' = ''{}''
   \<and> demo_parse ''{}'' = Some (JObj [])
   \<and> patch_tsconfig (JObj [])
        = Inr (JObj [(''compilerOptions'',
                      JObj [(''target'', JStr ''ES2022''), (''lib'', JArr [JStr ''ES2022'', JStr ''DOM''])])])
   \<and> files (typecheck (demo_env (scripted dispose_script)) ''/w''
               (state_with [(''/w/tsconfig.json'', File ''{}'')])) ''/w/tsconfig.json''
        = Some (File ''{}'')
   \<and> trace (typecheck (demo_env (scripted dispose_script)) ''/w''
               (state_with [(''/w/tsconfig.json'', File ''{}'')]))
        = [Exec ''bun run tsc'' (Some ''/w''),
           Warn ''TypeScript compilation failed, continuing with build:'',
           ReadFile ''/w/tsconfig.json'',
           WriteFile ''/w/tsconfig.json.backup'' ''{}'',
           WriteFile ''/w/tsconfig.json'' ''patched configuration'',
           Exec ''bun run tsc'' (Some ''/w''),
           Warn ''TypeScript compilation still failed after fix, continuing with build'',
           WriteFile ''/w/tsconfig.json'' ''{}'']"
proof -
  let ?env = "demo_env (scripted dispose_script)"
  let ?s = "state_with [(''/w/tsconfig.json'', File ''{}'')]"
  let ?msg = "''Command failed: bun run tsc error TS2550: Property Symbol.dispose does not exist''"
  have h1: "run_cmd ?env ''bun run tsc'' (Some ''/w'') (files ?s, ext ?s)
              = ((Inl (Error ?msg), 900), (files ?s, ()))"
    by (simp add: demo_defs dispose_script_def)
  have h2: "withTimeout (Inl (Error ?msg), 900) 60000 ''tsc compile'' = Inl (Error ?msg)"
    by (simp add: withTimeout_def)
  have h3: "includes_str (message (Error ?msg)) ''Symbol.dispose''"
    by (simp add: startsWith_def)
  have h4: "files ?s (path_join ?env ''/w'' ''tsconfig.json'') = Some (File ''{}'')"
    by (simp add: demo_defs state_with_def)
  have dc: "utf8_decode ''{}'' = ''{}''"
    by (simp add: utf8_decode.simps byte_in_def)
  have h5: "json_parse ?env (utf8_decode ''{}'') = Some (JObj [])"
    by (simp add: demo_defs dc)
  have tr: "trace (typecheck ?env ''/w'' ?s)
        = [Exec ''bun run tsc'' (Some ''/w''),
           Warn ''TypeScript compilation failed, continuing with build:'',
           ReadFile ''/w/tsconfig.json'',
           WriteFile ''/w/tsconfig.json.backup'' ''{}'',
           WriteFile ''/w/tsconfig.json'' ''patched configuration'',
           Exec ''bun run tsc'' (Some ''/w''),
           Warn ''TypeScript compilation still failed after fix, continuing with build'',
           WriteFile ''/w/tsconfig.json'' ''{}'']"
    by (simp add: stage_defs demo_defs dispose_script_def state_with_def effect_defs es2022_options_def Let_def)
  have pt: "patch_tsconfig (JObj [])
        = Inr (JObj [(''compilerOptions'',
                      JObj [(''target'', JStr ''ES2022''), (''lib'', JArr [JStr ''ES2022'', JStr ''DOM''])])])"
    by (simp add: patch_tsconfig_def get_prop_def truthy_def es2022_options_def)
  show ?thesis
    using typecheck_dispose_repair [OF h1 h2 h3 h4 h5] h3 h5 tr pt dc
    by (simp add: demo_defs state_with_def)
qed

text \<open>
  C5 as stated fails in both of its parts. On the valid JSON text \<open>null\<close> the
  configuration is read and the backup written, then reading \<open>compilerOptions\<close> from
  \<open>null\<close> throws, and there is no patched write, no second compilation and no restoring
  write. On the nine bytes \<open>{"x":"\<close> FF \<open>"}\<close>, which are read as the valid JSON text
  \<open>{"x":"\<close> U+FFFD \<open>"}\<close>, the whole sequence runs and the file ends with the eleven
  bytes of that text, not with its own nine.
\<close>

theorem typecheck_dispose_null_counterexample:
  "demo_parse ''null'' = Some JNull
   \<and> trace (typecheck (demo_env (scripted dispose_script)) ''/w''
               (state_with [(''/w/tsconfig.json'', File ''null'')]))
        = [Exec ''bun run tsc'' (Some ''/w''),
           Warn ''TypeScript compilation failed, continuing with build:'',
           ReadFile ''/w/tsconfig.json'',
           WriteFile ''/w/tsconfig.json.backup'' ''null'',
           Warn ''Failed to apply tsconfig fix:'']
   \<and> demo_parse (utf8_decode ill_formed_config) = Some (JObj [(''x'', JStr replacement)])
   \<and> files (typecheck (demo_env (scripted dispose_script)) ''/w''
               (state_with [(''/w/tsconfig.json'', File ill_formed_config)])) ''/w/tsconfig.json''
        = Some (File (utf8_decode ill_formed_config))
   \<and> utf8_decode ill_formed_config \<noteq> ill_formed_config"
  by (simp add: stage_defs demo_defs dispose_script_def state_with_def effect_defs Let_def
      ill_formed_config_def replacement_def es2022_options_def)

subsection \<open>Entrypoint resolution\<close>

lemma probe_find:
  "fst (probe env d xs s) = find (present env d s) xs \<and> files (snd (probe env d xs s)) = files s"
proof (induction xs arbitrary: s)
  case Nil
  then show ?case by simp
next
  case (Cons x xs)
  have p: "present env d (emit (Access (path_join env d x)) s) = present env d s"
    by (simp add: present_def fun_eq_iff)
  show ?case using Cons [of "emit (Access (path_join env d x)) s"] p
    by (simp add: fs_access_def present_def)
qed

lemma find_entrypoint_conventional:
  assumes "find (present env d s) possibleEntrypoints = Some file"
  shows "fst (find_entrypoint env d s) = Inr file"
proof -
  have "file \<in> set possibleEntrypoints" using assms by (auto simp: find_Some_iff)
  then have ne: "file \<noteq> []" by (auto simp: possibleEntrypoints_def)
  obtain found s1 where p: "probe env d possibleEntrypoints s = (found, s1)"
    by (cases "probe env d possibleEntrypoints s")
  then have "found = Some file" using probe_find [of env d possibleEntrypoints s] assms by simp
  then show ?thesis using p ne by (simp add: find_entrypoint_def)
qed

lemma main_from_manifest_string:
  assumes "files s (path_join env d ''package.json'') = Some (File text)"
    and "json_parse env (utf8_decode text) = Some (JObj ms)"
    and "map_of ms ''main'' = Some (JStr m)"
    and "n = (if startsWith m ''./'' then drop 2 m else m)"
    and "n \<noteq> []"
    and "present env d s n"
  shows "fst (main_from_manifest env d s) = Some n"
proof -
  have "m \<noteq> []" using assms(4,5) by (auto split: if_splits)
  then show ?thesis using assms
    by (simp add: main_from_manifest_def fs_readFile_file get_prop_def truthy_def
        fs_access_def present_def Let_def)
qed

lemma find_entrypoint_main:
  assumes "find (present env d s) possibleEntrypoints = None"
    and "files s (path_join env d ''package.json'') = Some (File text)"
    and "json_parse env (utf8_decode text) = Some (JObj ms)"
    and "map_of ms ''main'' = Some (JStr m)"
    and "n = (if startsWith m ''./'' then drop 2 m else m)"
    and "n \<noteq> []"
    and "present env d s n"
  shows "fst (find_entrypoint env d s) = Inr n"
proof -
  obtain found s1 where p: "probe env d possibleEntrypoints s = (found, s1)"
    by (cases "probe env d possibleEntrypoints s")
  then have f: "found = None" "files s1 = files s"
    using probe_find [of env d possibleEntrypoints s] assms(1) by simp_all
  have pr: "present env d s1 n" using assms(7) f(2) by (simp add: present_def)
  have fl: "files s1 (path_join env d ''package.json'') = Some (File text)"
    using assms(2) f(2) by simp
  obtain e s2 where m: "main_from_manifest env d s1 = (e, s2)"
    by (cases "main_from_manifest env d s1")
  then have "e = Some n"
    using main_from_manifest_string [OF fl assms(3,4,5,6) pr] by simp
  then show ?thesis using p f(1) m assms(6) by (simp add: find_entrypoint_def)
qed

text \<open>
  C4, as the v1 code has it. If one of \<open>index.ts\<close>, \<open>index.js\<close>, \<open>src/index.ts\<close>,
  \<open>src/index.js\<close>, \<open>src/mcp-server.ts\<close> exists in the install directory, the first that
  exists in this order is the entrypoint, whatever the manifest declares. If none exists
  and \<open>package.json\<close>, read as UTF-8, is an object whose \<open>main\<close> is a string that, with a leading
  \<open>./\<close> stripped, is non-empty and names an existing path, that path is the entrypoint,
  whatever else the manifest declares: v1 never reads \<open>bin\<close>.
\<close>

theorem find_entrypoint_v1:
  "(find (present env d s) possibleEntrypoints = Some file \<longrightarrow>
      fst (find_entrypoint env d s) = Inr file)
   \<and> (find (present env d s) possibleEntrypoints = None
        \<and> files s (path_join env d ''package.json'') = Some (File text)
        \<and> json_parse env (utf8_decode text) = Some (JObj ms)
        \<and> map_of ms ''main'' = Some (JStr m)
        \<and> n = (if startsWith m ''./'' then drop 2 m else m)
        \<and> n \<noteq> []
        \<and> present env d s n \<longrightarrow>
      fst (find_entrypoint env d s) = Inr n)"
  using find_entrypoint_conventional find_entrypoint_main by blast

text \<open>
  Two install directories whose manifest declares \<open>bin\<close> and \<open>main\<close>, both existing:
  with \<open>index.js\<close> and \<open>src/index.ts\<close> present the entrypoint is \<open>index.js\<close>; with no
  conventional path it is the \<open>main\<close> path.
\<close>

theorem find_entrypoint_v1_witness:
  "find (present (demo_env (scripted quiet_script)) ''/w''
           (state_with [(''/w/package.json'', File manifest_bin_main), (''/w/cli.js'', File ''c''),
                        (''/w/lib.js'', File ''l''), (''/w/src/index.ts'', File ''s''),
                        (''/w/index.js'', File ''i'')]))
      possibleEntrypoints = Some ''index.js''
   \<and> fst (find_entrypoint (demo_env (scripted quiet_script)) ''/w''
           (state_with [(''/w/package.json'', File manifest_bin_main), (''/w/cli.js'', File ''c''),
                        (''/w/lib.js'', File ''l''), (''/w/src/index.ts'', File ''s''),
                        (''/w/index.js'', File ''i'')])) = Inr ''index.js''
   \<and> find (present (demo_env (scripted quiet_script)) ''/w''
           (state_with [(''/w/package.json'', File manifest_bin_main), (''/w/cli.js'', File ''c''),
                        (''/w/lib.js'', File ''l'')]))
      possibleEntrypoints = None
   \<and> fst (find_entrypoint (demo_env (scripted quiet_script)) ''/w''
           (state_with [(''/w/package.json'', File manifest_bin_main), (''/w/cli.js'', File ''c''),
                        (''/w/lib.js'', File ''l'')])) = Inr ''lib.js''"
proof -
  let ?env = "demo_env (scripted quiet_script)"
  let ?s1 = "state_with [(''/w/package.json'', File manifest_bin_main), (''/w/cli.js'', File ''c''),
                        (''/w/lib.js'', File ''l''), (''/w/src/index.ts'', File ''s''),
                        (''/w/index.js'', File ''i'')]"
  let ?s2 = "state_with [(''/w/package.json'', File manifest_bin_main), (''/w/cli.js'', File ''c''),
                        (''/w/lib.js'', File ''l'')]"
  let ?ms = "[(''bin'', JStr ''cli.js''), (''main'', JStr ''./lib.js'')]"
  have a: "find (present ?env ''/w'' ?s1) possibleEntrypoints = Some ''index.js''"
    by (simp add: present_def possibleEntrypoints_def demo_defs state_with_def)
  have b: "find (present ?env ''/w'' ?s2) possibleEntrypoints = None
        \<and> files ?s2 (path_join ?env ''/w'' ''package.json'') = Some (File manifest_bin_main)
        \<and> json_parse ?env (utf8_decode manifest_bin_main) = Some (JObj ?ms)
        \<and> map_of ?ms ''main'' = Some (JStr ''./lib.js'')
        \<and> ''lib.js'' = (if startsWith ''./lib.js'' ''./'' then drop 2 ''./lib.js'' else ''./lib.js'')
        \<and> ''lib.js'' \<noteq> []
        \<and> present ?env ''/w'' ?s2 ''lib.js''"
    by (simp add: present_def possibleEntrypoints_def demo_defs state_with_def startsWith_def
        utf8_decode.simps byte_in_def)
  show ?thesis
    using a b
      find_entrypoint_v1 [of ?env "''/w''" ?s1 "''index.js''", THEN conjunct1]
      find_entrypoint_v1 [of ?env "''/w''" ?s2 _ manifest_bin_main ?ms "''./lib.js''" "''lib.js''", THEN conjunct2]
    by blast
qed

text \<open>
  C4 as stated fails: with no conventional path and a manifest
  \<open>{"bin":"cli.js","main":"./lib.js"}\<close> whose two paths exist, the entrypoint is the
  \<open>main\<close> path, not the \<open>bin\<close> path.
\<close>

theorem find_entrypoint_bin_counterexample:
  "demo_parse manifest_bin_main = Some (JObj [(''bin'', JStr ''cli.js''), (''main'', JStr ''./lib.js'')])
   \<and> fst (find_entrypoint (demo_env (scripted quiet_script)) ''/w''
           (state_with [(''/w/package.json'', File manifest_bin_main), (''/w/cli.js'', File ''c''),
                        (''/w/lib.js'', File ''l'')])) = Inr ''lib.js''"
  by (simp add: stage_defs demo_defs quiet_script_def state_with_def effect_defs Let_def)

subsection \<open>The branch of the request URL\<close>

lemma buildMCPServer_cases:
  "buildMCPServer env u format commit s =
     (case build_steps env (baseRepoUrl (parseMonorepoUrl u)) (subDir (parseMonorepoUrl u)) format commit
             (temp_dir env) s of
        (Inr buildContent, s1) \<Rightarrow>
          (Inr buildContent,
           fs_rm (temp_dir env)
             (if MAX_RECOMMENDED_BUNDLE_SIZE < length buildContent
              then emit (SentryLargeBundle u commit format (length buildContent)) s1
              else s1))
      | (Inl e, s1) \<Rightarrow>
          (Inl (Error ''Failed to build the server code.''),
           fs_rm (temp_dir env)
             (emit (SentryBuildFailure e u commit format)
                (emit (ErrorLog ''Error during buildMCPServer:'') s1))))"
  by (simp add: buildMCPServer_def Let_def)

lemma same_build_locator:
  assumes "baseRepoUrl (parseMonorepoUrl u1) = baseRepoUrl (parseMonorepoUrl u2)"
    and "subDir (parseMonorepoUrl u1) = subDir (parseMonorepoUrl u2)"
  shows "same_build env u1 u2 format commit s"
  unfolding same_build_def buildMCPServer_cases assms
  by (auto simp: commands_append trace_fs_rm ext_fs_rm fs_rm_def split: prod.splits sum.splits)

text \<open>
  C10, for the URLs that the Locator splits. The build is a function of the Locator's
  base URL and subdirectory only: two request URLs on which these agree lead to the same
  result, the same external commands and the same file system, whatever branch was
  parsed. In particular this holds for two URLs
  \<open>scheme://github.com/owner/repo/tree/<branch>\<close> followed by the same rest (nothing, or
  \<open>/\<close> and a subpath without line terminator) that differ in the branch segment only.
\<close>

theorem branch_never_consumed:
  "(baseRepoUrl (parseMonorepoUrl u1) = baseRepoUrl (parseMonorepoUrl u2)
      \<and> subDir (parseMonorepoUrl u1) = subDir (parseMonorepoUrl u2) \<longrightarrow>
    same_build env u1 u2 format commit s)
   \<and> ((scheme = ''http'' \<or> scheme = ''https'') \<and> is_segment owner \<and> is_segment repo
        \<and> is_segment b1 \<and> is_segment b2
        \<and> (rest = [] \<or> (rest \<noteq> [] \<and> hd rest = CHR ''/'' \<and> \<not> has_line_terminator (tl rest))) \<longrightarrow>
      same_build env (github_base scheme owner repo @ ''/tree/'' @ b1 @ rest)
        (github_base scheme owner repo @ ''/tree/'' @ b2 @ rest) format commit s)"
proof (intro conjI impI)
  assume "baseRepoUrl (parseMonorepoUrl u1) = baseRepoUrl (parseMonorepoUrl u2)
      \<and> subDir (parseMonorepoUrl u1) = subDir (parseMonorepoUrl u2)"
  then show "same_build env u1 u2 format commit s"
    using same_build_locator by blast
next
  assume h: "(scheme = ''http'' \<or> scheme = ''https'') \<and> is_segment owner \<and> is_segment repo
        \<and> is_segment b1 \<and> is_segment b2
        \<and> (rest = [] \<or> (rest \<noteq> [] \<and> hd rest = CHR ''/'' \<and> \<not> has_line_terminator (tl rest)))"
  then have s: "scheme = ''http'' \<or> scheme = ''https''" and o: "is_segment owner"
    and r: "is_segment repo" and b1: "is_segment b1" and b2: "is_segment b2"
    and t: "rest = [] \<or> (rest \<noteq> [] \<and> hd rest = CHR ''/'' \<and> \<not> has_line_terminator (tl rest))"
    by blast+
  show "same_build env (github_base scheme owner repo @ ''/tree/'' @ b1 @ rest)
        (github_base scheme owner repo @ ''/tree/'' @ b2 @ rest) format commit s"
    using parse_tree_fields [OF s o r b1 t] parse_tree_fields [OF s o r b2 t]
    by (intro same_build_locator) simp_all
qed

theorem branch_never_consumed_witness:
  "is_segment ''o'' \<and> is_segment ''r'' \<and> is_segment ''main'' \<and> is_segment ''dev''
   \<and> \<not> has_line_terminator ''packages/srv''
   \<and> branch (parseMonorepoUrl ''https://github.com/o/r/tree/main/packages/srv'') = Some ''main''
   \<and> branch (parseMonorepoUrl ''https://github.com/o/r/tree/dev/packages/srv'') = Some ''dev''
   \<and> same_build (demo_env (scripted quiet_script))
        ''https://github.com/o/r/tree/main/packages/srv''
        ''https://github.com/o/r/tree/dev/packages/srv'' ''mjs'' None empty_state"
proof -
  have h: "(''https'' = ''http'' \<or> ''https'' = ''https'') \<and> is_segment ''o'' \<and> is_segment ''r''
        \<and> is_segment ''main'' \<and> is_segment ''dev''
        \<and> (''/packages/srv'' = [] \<or> (''/packages/srv'' \<noteq> [] \<and> hd ''/packages/srv'' = CHR ''/''
             \<and> \<not> has_line_terminator (tl ''/packages/srv'')))"
    by (simp add: is_segment_def not_slash_def)
  have br: "branch (parseMonorepoUrl ''https://github.com/o/r/tree/main/packages/srv'') = Some ''main''
          \<and> branch (parseMonorepoUrl ''https://github.com/o/r/tree/dev/packages/srv'') = Some ''dev''"
    by (simp add: locator_defs)
  show ?thesis
    using h br
      branch_never_consumed [THEN conjunct2, rule_format, OF h,
        of "demo_env (scripted quiet_script)" "''mjs''" None empty_state]
    by (simp add: github_base_def)
qed

text \<open>
  C10 as stated fails for a URL that the Locator does not split: the whole URL, with its
  \<open>/tree/<branch>\<close> text, is the clone URL. Two URLs on another host that differ in the
  branch only, and two \<open>github.com\<close> URLs that differ in the branch only and whose
  subpath holds a line feed, lead to different \<open>git clone\<close> commands.
\<close>

theorem branch_cloned_counterexample:
  "hd (commands (trace (snd (buildMCPServer (demo_env (scripted quiet_script))
         ''https://gitlab.com/o/r/tree/main/packages/srv'' ''mjs'' None empty_state))))
     = (''git clone https://gitlab.com/o/r/tree/main/packages/srv.git /tmp/mcp-0000000000000000'',
        Some ''/tmp/mcp-0000000000000000'')
   \<and> hd (commands (trace (snd (buildMCPServer (demo_env (scripted quiet_script))
         ''https://gitlab.com/o/r/tree/dev/packages/srv'' ''mjs'' None empty_state))))
     = (''git clone https://gitlab.com/o/r/tree/dev/packages/srv.git /tmp/mcp-0000000000000000'',
        Some ''/tmp/mcp-0000000000000000'')
   \<and> \<not> same_build (demo_env (scripted quiet_script))
        ''https://gitlab.com/o/r/tree/main/packages/srv''
        ''https://gitlab.com/o/r/tree/dev/packages/srv'' ''mjs'' None empty_state
   \<and> \<not> same_build (demo_env (scripted quiet_script))
        (''https://github.com/o/r/tree/main/a'' @ [CHR 0x0A] @ ''b'')
        (''https://github.com/o/r/tree/dev/a'' @ [CHR 0x0A] @ ''b'') ''mjs'' None empty_state"
  by (simp add: same_build_def stage_defs demo_defs quiet_script_def empty_state_def effect_defs
      locator_defs Let_def)
section \<open>Properties of the HTTP layer\<close>

lemmas http_defs = v2_route_def v2_try_def bundler_route_def race_def v2_catch_def bundler_catch_def
  timed_out_def request_mcpId_def or_else_def url_required_def mcpId_required_def timeout_body_def
  BUNDLER_TIMEOUT_def bundler_timeout_message_def gcp_upload_body_def

lemmas scrape_defs = scrape_commit_def content_re_def marker_re_def path_re_def log_re_def hex_run_def
  segment_slash_def is_hex_def not_slash_def startsWith_def

lemmas http_demo_defs = demo_http_def demo_query_def toString_hex_def randomBytes_def hex_byte_def
  digit_char_def upt_rec




lemma race_cases:
  "race env p = fst p
   \<or> race env p = Rejected (ThrownError bundler_timeout_message (new_stack env bundler_timeout_message))"
  by (simp add: race_def split: option.splits)

lemma hex_digit_nth: "k < 16 \<Longrightarrow> is_hex (''0123456789abcdef'' ! k)"
proof -
  assume k: "k < 16"
  have a: "list_all is_hex ''0123456789abcdef''" by (simp add: is_hex_def)
  have "''0123456789abcdef'' ! k \<in> set ''0123456789abcdef''"
    using k by (intro nth_mem) simp
  then show ?thesis using a unfolding list_all_iff by blast
qed

lemma digit_char_hex: "is_hex (digit_char n)"
  unfolding digit_char_def by (rule hex_digit_nth) simp

lemma toString_hex_length: "length (toString_hex bs) = 2 * length bs"
  by (induction bs) (simp_all add: toString_hex_def hex_byte_def)

lemma toString_hex_is_hex: "list_all is_hex (toString_hex bs)"
  by (induction bs) (simp_all add: toString_hex_def hex_byte_def digit_char_hex)

lemma random_id_length: "length (toString_hex (randomBytes src n)) = 2 * n"
  by (simp add: toString_hex_length randomBytes_def)

lemma request_mcpId_nonempty: "request_mcpId env q \<noteq> []"
proof -
  have "length (toString_hex (randomBytes (http_random env) 16)) = 32"
    by (simp add: random_id_length)
  then have "toString_hex (randomBytes (http_random env) 16) \<noteq> []" by auto
  then show ?thesis by (auto simp: request_mcpId_def or_else_def split: option.splits)
qed

lemma status_v2_catch: "status (v2_catch error) = 504 \<or> status (v2_catch error) = 500"
  by (simp add: v2_catch_def)

lemma v2_try_ok: "v2_try build env url commit mcpId skip = Inr ok \<Longrightarrow> status ok = 200"
  by (auto simp: v2_try_def split: settle.splits v2result.splits)

lemma v2_route_cases:
  "(fst (v2_route build env q) = url_required \<and> snd (v2_route build env q) = [])
   \<or> (status (fst (v2_route build env q)) = 200 \<and> snd (v2_route build env q) = [])
   \<or> (\<exists>error. fst (v2_route build env q) = v2_catch error \<and> snd (v2_route build env q) = [error])"
proof -
  let ?t = "v2_try build env (or_else (q_url q) []) (or_else (q_commit q) ''latest'') (request_mcpId env q)
              (DISABLE_GCP_INTEGRATION env = Some ''true'')"
  show ?thesis
  proof (cases "or_else (q_url q) [] = []")
    case True
    then show ?thesis by (simp add: v2_route_def Let_def)
  next
    case False
    show ?thesis
    proof (cases ?t)
      case (Inl error)
      then show ?thesis using False request_mcpId_nonempty [of env q]
        by (simp add: v2_route_def Let_def)
    next
      case (Inr ok)
      then show ?thesis using False request_mcpId_nonempty [of env q] v2_try_ok [OF Inr]
        by (simp add: v2_route_def Let_def)
    qed
  qed
qed

lemma v2_route_not_mcpId_required: "fst (v2_route build env q) \<noteq> mcpId_required"
proof -
  have s: "status mcpId_required = 400" "body mcpId_required \<noteq> body url_required"
    by (simp_all add: mcpId_required_def url_required_def)
  from v2_route_cases [of build env q] show ?thesis
  proof (elim disjE conjE exE)
    assume "fst (v2_route build env q) = url_required"
    then show ?thesis using s(2) by auto
  next
    assume "status (fst (v2_route build env q)) = 200"
    then show ?thesis using s(1) by auto
  next
    fix error assume "fst (v2_route build env q) = v2_catch error"
    then show ?thesis using s(1) status_v2_catch [of error] by auto
  qed
qed

subsection \<open>The publish key\<close>

lemma v2_route_unfold:
  "v2_route build env q =
     (if or_else (q_url q) [] = [] then (url_required, [])
      else case v2_try build env (or_else (q_url q) []) (or_else (q_commit q) ''latest'')
                  (request_mcpId env q) (DISABLE_GCP_INTEGRATION env = Some ''true'') of
             Inr ok \<Rightarrow> (ok, [])
           | Inl error \<Rightarrow> (v2_catch error, [error]))"
  using request_mcpId_nonempty [of env q] by (simp add: v2_route_def Let_def)

text \<open>
  C9. The \<open>mcpId\<close> of a \<open>/v2/bundler\<close> request is the query parameter when that is
  supplied and not empty, and otherwise the 32 hexadecimal characters that
  \<open>crypto.randomBytes(16).toString("hex")\<close> gives; so it is never empty. This value is
  what the route hands to the build (unless remote publishing is disabled, when it hands
  over \<open>undefined\<close>): the route consults the build at that one argument only, and the
  location it reports begins with it. Whatever the build does, the route never answers
  with the 400 response \<open>mcpId is required for v2/bundler endpoint with GCP upload\<close>.
\<close>

theorem mcpId_never_missing:
  "request_mcpId env q =
     (case q_mcpId q of
        None \<Rightarrow> toString_hex (randomBytes (http_random env) 16)
      | Some m \<Rightarrow> if m = [] then toString_hex (randomBytes (http_random env) 16) else m)
   \<and> toString_hex (randomBytes (http_random env) 16)
       = concat (map hex_byte (map (http_random env) [0..<16]))
   \<and> length (toString_hex (randomBytes (http_random env) 16)) = 32
   \<and> list_all is_hex (toString_hex (randomBytes (http_random env) 16))
   \<and> request_mcpId env q \<noteq> []
   \<and> v2_route build env q =
       v2_route (\<lambda>url commit mcpId.
                   build (or_else (q_url q) []) (or_else (q_commit q) ''latest'')
                     (if DISABLE_GCP_INTEGRATION env = Some ''true'' then None
                      else Some (request_mcpId env q))) env q
   \<and> (\<forall>resultStr. or_else (q_url q) [] \<noteq> [] \<and> DISABLE_GCP_INTEGRATION env \<noteq> Some ''true''
         \<and> race env (build (or_else (q_url q) []) (or_else (q_commit q) ''latest'')
                        (Some (request_mcpId env q))) = Resolved (ResString resultStr) \<longrightarrow>
        fst (v2_route build env q) =
          \<lparr>status = 200,
           body = JObj [(''success'', JBool True),
                        (''gcp_upload'',
                         JObj ((case GCP_BUCKET_NAME env of None \<Rightarrow> [] | Some b \<Rightarrow> [(''bucket'', JStr b)])
                               @ [(''path'', JStr (request_mcpId env q @ ''/''
                                                   @ scrape_commit (or_else (q_commit q) ''latest'') resultStr @ ''/'')),
                                  (''files'', JArr [JStr (''bundle-''
                                                   @ scrape_commit (or_else (q_commit q) ''latest'') resultStr
                                                   @ ''.tar.gz'')])]))]\<rparr>)
   \<and> fst (v2_route build env q) \<noteq> mcpId_required"
proof (intro conjI allI impI)
  show "request_mcpId env q =
     (case q_mcpId q of
        None \<Rightarrow> toString_hex (randomBytes (http_random env) 16)
      | Some m \<Rightarrow> if m = [] then toString_hex (randomBytes (http_random env) 16) else m)"
    by (simp add: request_mcpId_def or_else_def)
next
  show "toString_hex (randomBytes (http_random env) 16)
       = concat (map hex_byte (map (http_random env) [0..<16]))"
    by (simp only: toString_hex_def randomBytes_def)
next
  show "length (toString_hex (randomBytes (http_random env) 16)) = 32"
    using random_id_length [of "http_random env" 16] by simp
next
  show "list_all is_hex (toString_hex (randomBytes (http_random env) 16))"
    by (rule toString_hex_is_hex)
next
  show "request_mcpId env q \<noteq> []" by (rule request_mcpId_nonempty)
next
  show "v2_route build env q =
       v2_route (\<lambda>url commit mcpId.
                   build (or_else (q_url q) []) (or_else (q_commit q) ''latest'')
                     (if DISABLE_GCP_INTEGRATION env = Some ''true'' then None
                      else Some (request_mcpId env q))) env q"
    unfolding v2_route_unfold by (simp add: v2_try_def)
next
  fix resultStr
  assume h: "or_else (q_url q) [] \<noteq> [] \<and> DISABLE_GCP_INTEGRATION env \<noteq> Some ''true''
         \<and> race env (build (or_else (q_url q) []) (or_else (q_commit q) ''latest'')
                        (Some (request_mcpId env q))) = Resolved (ResString resultStr)"
  then show "fst (v2_route build env q) =
          \<lparr>status = 200,
           body = JObj [(''success'', JBool True),
                        (''gcp_upload'',
                         JObj ((case GCP_BUCKET_NAME env of None \<Rightarrow> [] | Some b \<Rightarrow> [(''bucket'', JStr b)])
                               @ [(''path'', JStr (request_mcpId env q @ ''/''
                                                   @ scrape_commit (or_else (q_commit q) ''latest'') resultStr @ ''/'')),
                                  (''files'', JArr [JStr (''bundle-''
                                                   @ scrape_commit (or_else (q_commit q) ''latest'') resultStr
                                                   @ ''.tar.gz'')])]))]\<rparr>"
    unfolding v2_route_unfold by (simp add: v2_try_def gcp_upload_body_def)
next
  show "fst (v2_route build env q) \<noteq> mcpId_required" by (rule v2_route_not_mcpId_required)
qed

text \<open>
  A request without \<open>mcpId\<close> to a process whose random source yields zero bytes, with
  remote publishing enabled and a build that resolves with a marked bundle: the
  identifier is 32 zeros, and the reported path begins with it.
\<close>

theorem mcpId_never_missing_witness:
  "request_mcpId (demo_http None) (demo_query None) = ''00000000000000000000000000000000''
   \<and> request_mcpId (demo_http None) (demo_query (Some ''my-mcp'')) = ''my-mcp''
   \<and> fst (v2_route marked_build (demo_http None) (demo_query None)) =
       \<lparr>status = 200,
        body = JObj [(''success'', JBool True),
                     (''gcp_upload'',
                      JObj [(''bucket'', JStr ''bundler-microservice-servers''),
                            (''path'', JStr ''00000000000000000000000000000000/0a1b2c3/''),
                            (''files'', JArr [JStr ''bundle-0a1b2c3.tar.gz''])])]\<rparr>"
proof -
  let ?env = "demo_http None"
  let ?q = "demo_query None"
  have id: "request_mcpId ?env ?q = ''00000000000000000000000000000000''"
    by (simp add: request_mcpId_def or_else_def http_demo_defs)
  have id2: "request_mcpId ?env (demo_query (Some ''my-mcp'')) = ''my-mcp''"
    by (simp add: request_mcpId_def or_else_def http_demo_defs)
  have sc: "scrape_commit ''latest'' (''// COMMIT_HASH:0a1b2c3'' @ [CHR 0x0A] @ ''export {};'') = ''0a1b2c3''"
    by (simp add: scrape_defs)
  have h: "or_else (q_url ?q) [] \<noteq> [] \<and> DISABLE_GCP_INTEGRATION ?env \<noteq> Some ''true''
         \<and> race ?env (marked_build (or_else (q_url ?q) []) (or_else (q_commit ?q) ''latest'')
                        (Some (request_mcpId ?env ?q)))
             = Resolved (ResString (''// COMMIT_HASH:0a1b2c3'' @ [CHR 0x0A] @ ''export {};''))"
    by (simp add: http_demo_defs or_else_def race_def BUNDLER_TIMEOUT_def marked_build_def)
  show ?thesis
    using id id2 sc
      mcpId_never_missing [of ?env ?q marked_build, THEN conjunct2, THEN conjunct2, THEN conjunct2,
        THEN conjunct2, THEN conjunct2, THEN conjunct2, THEN conjunct1, rule_format, OF h]
    by (simp add: http_demo_defs or_else_def)
qed

subsection \<open>Responses with status 200\<close>

lemma v2_try_one_member:
  assumes "v2_try build env url commit mcpId skip = Inr ok"
  shows "has_key (body ok) ''data'' \<noteq> has_key (body ok) ''gcp_upload''"
  using assms
  by (auto simp: v2_try_def has_key_def gcp_upload_body_def split: settle.splits v2result.splits)

lemma v2_route_ok:
  assumes "status (fst (v2_route build env q)) = 200"
  shows "\<exists>ok. v2_try build env (or_else (q_url q) []) (or_else (q_commit q) ''latest'')
               (request_mcpId env q) (DISABLE_GCP_INTEGRATION env = Some ''true'') = Inr ok
            \<and> fst (v2_route build env q) = ok"
proof -
  let ?t = "v2_try build env (or_else (q_url q) []) (or_else (q_commit q) ''latest'')
              (request_mcpId env q) (DISABLE_GCP_INTEGRATION env = Some ''true'')"
  have u: "or_else (q_url q) [] \<noteq> []"
    using assms by (auto simp: v2_route_def Let_def url_required_def)
  have r: "v2_route build env q = (case ?t of Inr ok \<Rightarrow> (ok, []) | Inl error \<Rightarrow> (v2_catch error, [error]))"
    using u request_mcpId_nonempty [of env q] by (simp add: v2_route_def Let_def)
  show ?thesis
  proof (cases ?t)
    case (Inl error)
    then have "status (fst (v2_route build env q)) = 504 \<or> status (fst (v2_route build env q)) = 500"
      using r status_v2_catch [of error] by simp
    then show ?thesis using assms by auto
  next
    case (Inr resp)
    then show ?thesis using r by simp
  qed
qed

subsection \<open>Error responses\<close>






section \<open>Properties of the v2 build behind its route\<close>

subsection \<open>What a v2 build resolves with\<close>

lemma buildMCPServerV2_fst:
  "fst (buildMCPServerV2 env host u commit mcpId s) =
     (case fst (build_stepsV2 env u commit mcpId (baseRepoUrl (parseMonorepoUrl u))
                  (subDir (parseMonorepoUrl u)) (temp_dir env) s) of
        Inr b \<Rightarrow> Inr (build_result mcpId b)
      | Inl e \<Rightarrow> Inl (Error ''Failed to build the server code.''))"
  by (simp add: buildMCPServerV2_def Let_def split: prod.splits sum.splits)

lemma buildMCPServerV2_resolved:
  assumes "fst (buildMCPServerV2 env host u commit mcpId s) = Inr r"
  shows "\<exists>b s1. build_stepsV2 env u commit mcpId (baseRepoUrl (parseMonorepoUrl u))
                   (subDir (parseMonorepoUrl u)) (temp_dir env) s = (Inr b, s1)
              \<and> r = build_result mcpId b"
  using assms by (auto simp: buildMCPServerV2_def Let_def split: prod.splits sum.splits)

lemma build_stepsV2_built:
  fixes env :: "'e env"
  assumes "build_stepsV2 env u commit mcpId repoUrl sub tempDir s = (Inr b, s1)"
  shows "\<exists>s2 s3 (s6 :: 'e state) c.
           git_checkout env commit tempDir s2 = (Inr (), s3)
         \<and> revision b = fst (resolve_commit env tempDir s3)
         \<and> built_in b = install_dir env tempDir sub
         \<and> files s6 (path_join env (built_in b) ''bundle.mjs'') = Some (File c)
         \<and> bundle_text b = utf8_decode c"
proof -
  from assms obtain s2 s3 s6 buildContent where
      co: "git_checkout env commit tempDir s2 = (Inr (), s3)"
    and rd: "fs_readFile (path_join env (install_dir env tempDir sub) ''bundle.mjs'') s6 = (Inr buildContent, s1)"
    and b: "b = \<lparr>bundle_text = buildContent, revision = fst (resolve_commit env tempDir s3),
                 built_in = install_dir env tempDir sub\<rparr>"
    unfolding build_stepsV2_def Let_def
    by (auto split: prod.splits sum.splits)
  from rd obtain c where
      c: "files s6 (path_join env (install_dir env tempDir sub) ''bundle.mjs'') = Some (File c)"
         "buildContent = utf8_decode c"
    by (auto simp: fs_readFile_def split: option.splits node.splits)
  have "git_checkout env commit tempDir s2 = (Inr (), s3)
         \<and> revision b = fst (resolve_commit env tempDir s3)
         \<and> built_in b = install_dir env tempDir sub
         \<and> files s6 (path_join env (built_in b) ''bundle.mjs'') = Some (File c)
         \<and> bundle_text b = utf8_decode c"
    using co b c by simp
  then show ?thesis by blast
qed

lemma resolve_commit_cases:
  "fst (resolve_commit env d s) =
     (case fst (fst (run_cmd env ''git rev-parse HEAD'' (Some d) (files s, ext s))) of
        Inr out \<Rightarrow> trim out
      | Inl e \<Rightarrow> toString_hex (randomBytes_at (random_source env) 8 20))"
  by (simp add: resolve_commit_def execAsync_def split: prod.splits sum.splits)

lemma fallback_revision_hex:
  "length (toString_hex (randomBytes_at src 8 20)) = 40
   \<and> list_all is_hex (toString_hex (randomBytes_at src 8 20))"
  by (simp add: toString_hex_length toString_hex_is_hex randomBytes_at_def)

subsection \<open>What the route reads from the marked text\<close>

lemma takeWhile_hex_run:
  "list_all is_hex h \<Longrightarrow> takeWhile is_hex (h @ CHR 0x0A # rest) = h"
  by (induction h) (simp_all add: is_hex_def)

lemma scrape_commit_marker:
  assumes "h \<noteq> []" and "list_all is_hex h"
  shows "scrape_commit commit (commit_marker h @ rest) = h"
proof -
  have m: "commit_marker h @ rest = ''// COMMIT_HASH:'' @ h @ CHR 0x0A # rest"
    using assms(1) by (simp add: commit_marker_def)
  have c: "content_re (commit_marker h @ rest) = Some h"
    unfolding m content_re_def
    using assms takeWhile_hex_run [OF assms(2), of rest]
    by (simp add: hex_run_def)
  have s: "search content_re (commit_marker h @ rest) = Some h"
    using c by (simp add: commit_marker_def)
  have "hd h \<noteq> CHR ''u''" using assms by (cases h) (auto simp: is_hex_def)
  then have u: "h \<noteq> ''unknown''" by auto
  show ?thesis using s u by (simp add: scrape_commit_def)
qed

lemma hex_not_latest: "list_all is_hex h \<Longrightarrow> h \<noteq> ''latest''"
  by (auto simp: is_hex_def)

subsection \<open>The route on the build\<close>

lemma v2_route_promise_ok:
  assumes "status (fst (v2_route (buildV2_promise env host henv s t) henv q)) = 200"
  shows "\<exists>b s1.
           build_stepsV2 env (or_else (q_url q) []) (Some (or_else (q_commit q) ''latest''))
             (if DISABLE_GCP_INTEGRATION henv = Some ''true'' then None else Some (request_mcpId henv q))
             (baseRepoUrl (parseMonorepoUrl (or_else (q_url q) [])))
             (subDir (parseMonorepoUrl (or_else (q_url q) []))) (temp_dir env) s = (Inr b, s1)
         \<and> fst (v2_route (buildV2_promise env host henv s t) henv q) =
             (if DISABLE_GCP_INTEGRATION henv = Some ''true''
              then \<lparr>status = 200, body = JObj [(''success'', JBool True), (''data'', JStr (bundle_text b))]\<rparr>
              else \<lparr>status = 200,
                    body = gcp_upload_body henv (request_mcpId henv q)
                             (scrape_commit (or_else (q_commit q) ''latest'')
                                (commit_marker (revision b) @ bundle_text b))\<rparr>)"
proof -
  let ?build = "buildV2_promise env host henv s t"
  let ?url = "or_else (q_url q) []"
  let ?commit = "or_else (q_commit q) ''latest''"
  let ?skip = "DISABLE_GCP_INTEGRATION henv = Some ''true''"
  let ?arg = "if ?skip then None else Some (request_mcpId henv q)"
  from v2_route_ok [OF assms] obtain ok where
      t: "v2_try ?build henv ?url ?commit (request_mcpId henv q) ?skip = Inr ok"
    and f: "fst (v2_route ?build henv q) = ok"
    by blast
  from t obtain v where r: "race henv (?build ?url ?commit ?arg) = Resolved v"
    by (auto simp: v2_try_def split: settle.splits)
  have "race henv (?build ?url ?commit ?arg) = fst (?build ?url ?commit ?arg)"
    using r race_cases [of henv "?build ?url ?commit ?arg"] by auto
  then have "fst (?build ?url ?commit ?arg) = Resolved v" using r by simp
  then have "fst (buildMCPServerV2 env host ?url (Some ?commit) ?arg s) = Inr v"
    by (auto simp: buildV2_promise_def split: sum.splits)
  from buildMCPServerV2_resolved [OF this] obtain b s1 where
      bs: "build_stepsV2 env ?url (Some ?commit) ?arg (baseRepoUrl (parseMonorepoUrl ?url))
             (subDir (parseMonorepoUrl ?url)) (temp_dir env) s = (Inr b, s1)"
    and v: "v = build_result ?arg b"
    by blast
  have "ok = (if ?skip
              then \<lparr>status = 200, body = JObj [(''success'', JBool True), (''data'', JStr (bundle_text b))]\<rparr>
              else \<lparr>status = 200,
                    body = gcp_upload_body henv (request_mcpId henv q)
                             (scrape_commit ?commit (commit_marker (revision b) @ bundle_text b))\<rparr>)"
    using t r v request_mcpId_nonempty [of henv q]
    by (auto simp: v2_try_def build_result_def marked_def truthy_string_def split: if_splits)
  then show ?thesis using bs f by blast
qed

subsection \<open>The reported revision\<close>

text \<open>
  C3. Take it that \<open>git rev-parse HEAD\<close>, whenever it succeeds, prints a commit hash:
  its trimmed output is a non-empty string of the digits \<open>0-9a-f\<close>. Let remote
  publishing be enabled and let a \<open>/v2/bundler\<close> request, served by the v2 build, end
  with status 200. Then the build has run through, and its resolved revision is the
  trimmed output of \<open>git rev-parse HEAD\<close> in the scratch directory after the checkout,
  or, when that command fails, forty hexadecimal digits from \<open>crypto.randomBytes(20)\<close>;
  in both cases it is a non-empty hexadecimal string, so it is not \<open>latest\<close>. The
  response names exactly the file \<open>bundle-<revision>.tar.gz\<close> and the path
  \<open><mcpId>/<revision>/\<close>, with the \<open>mcpId\<close> of the request.
\<close>

theorem v2_reports_resolved_revision:
  fixes env :: "'e env"
  assumes "\<forall>d w out. fst (fst (run_cmd env ''git rev-parse HEAD'' d w)) = Inr out
             \<longrightarrow> trim out \<noteq> [] \<and> list_all is_hex (trim out)"
    and "DISABLE_GCP_INTEGRATION henv \<noteq> Some ''true''"
    and "status (fst (v2_route (buildV2_promise env host henv s t) henv q)) = 200"
  shows "\<exists>b s1 s2 (s3 :: 'e state).
      build_stepsV2 env (or_else (q_url q) []) (Some (or_else (q_commit q) ''latest''))
        (Some (request_mcpId henv q))
        (baseRepoUrl (parseMonorepoUrl (or_else (q_url q) [])))
        (subDir (parseMonorepoUrl (or_else (q_url q) []))) (temp_dir env) s = (Inr b, s1)
    \<and> git_checkout env (Some (or_else (q_commit q) ''latest'')) (temp_dir env) s2 = (Inr (), s3)
    \<and> revision b =
        (case fst (fst (run_cmd env ''git rev-parse HEAD'' (Some (temp_dir env)) (files s3, ext s3))) of
           Inr out \<Rightarrow> trim out
         | Inl e \<Rightarrow> toString_hex (randomBytes_at (random_source env) 8 20))
    \<and> revision b \<noteq> [] \<and> list_all is_hex (revision b) \<and> revision b \<noteq> ''latest''
    \<and> fst (v2_route (buildV2_promise env host henv s t) henv q) =
        \<lparr>status = 200,
         body = JObj [(''success'', JBool True),
                      (''gcp_upload'',
                       JObj ((case GCP_BUCKET_NAME henv of None \<Rightarrow> [] | Some name \<Rightarrow> [(''bucket'', JStr name)])
                             @ [(''path'', JStr (request_mcpId henv q @ ''/'' @ revision b @ ''/'')),
                                (''files'', JArr [JStr (''bundle-'' @ revision b @ ''.tar.gz'')])]))]\<rparr>"
proof -
  let ?url = "or_else (q_url q) []"
  let ?commit = "or_else (q_commit q) ''latest''"
  from v2_route_promise_ok [OF assms(3)] assms(2) obtain b s1 where
      bs: "build_stepsV2 env ?url (Some ?commit) (Some (request_mcpId henv q))
             (baseRepoUrl (parseMonorepoUrl ?url)) (subDir (parseMonorepoUrl ?url)) (temp_dir env) s
           = (Inr b, s1)"
    and r: "fst (v2_route (buildV2_promise env host henv s t) henv q) =
              \<lparr>status = 200,
               body = gcp_upload_body henv (request_mcpId henv q)
                        (scrape_commit ?commit (commit_marker (revision b) @ bundle_text b))\<rparr>"
    by auto
  from build_stepsV2_built [OF bs] obtain s2 s3 where
      co: "git_checkout env (Some ?commit) (temp_dir env) s2 = (Inr (), s3)"
    and rv: "revision b = fst (resolve_commit env (temp_dir env) s3)"
    by blast
  have rc: "revision b =
        (case fst (fst (run_cmd env ''git rev-parse HEAD'' (Some (temp_dir env)) (files s3, ext s3))) of
           Inr out \<Rightarrow> trim out
         | Inl e \<Rightarrow> toString_hex (randomBytes_at (random_source env) 8 20))"
    unfolding rv by (rule resolve_commit_cases)
  have hx: "revision b \<noteq> [] \<and> list_all is_hex (revision b)"
  proof (cases "fst (fst (run_cmd env ''git rev-parse HEAD'' (Some (temp_dir env)) (files s3, ext s3)))")
    case (Inl e)
    then have "revision b = toString_hex (randomBytes_at (random_source env) 8 20)"
      using rc by simp
    then show ?thesis using fallback_revision_hex [of "random_source env"] by auto
  next
    case (Inr out)
    then have "revision b = trim out" using rc by simp
    then show ?thesis using assms(1) Inr by simp
  qed
  then have nl: "revision b \<noteq> ''latest''" using hex_not_latest by blast
  have sc: "scrape_commit ?commit (commit_marker (revision b) @ bundle_text b) = revision b"
    using hx by (intro scrape_commit_marker) simp_all
  have "fst (v2_route (buildV2_promise env host henv s t) henv q) =
        \<lparr>status = 200,
         body = JObj [(''success'', JBool True),
                      (''gcp_upload'',
                       JObj ((case GCP_BUCKET_NAME henv of None \<Rightarrow> [] | Some name \<Rightarrow> [(''bucket'', JStr name)])
                             @ [(''path'', JStr (request_mcpId henv q @ ''/'' @ revision b @ ''/'')),
                                (''files'', JArr [JStr (''bundle-'' @ revision b @ ''.tar.gz'')])]))]\<rparr>"
    unfolding r sc by (simp add: gcp_upload_body_def)
  then show ?thesis using bs co rc hx nl by blast
qed

text \<open>
  The demo repository, requested without \<open>mcpId\<close> from a process whose random source
  yields zero bytes, with remote publishing enabled: the build resolves the revision
  \<open>3f2a9c41d07be5861a4c0f9d2b7e6a1c5d8f0b23\<close>, uploads the archive under it, and the
  response names it.
\<close>

lemma trim_demo_head:
  "trim (''3f2a9c41d07be5861a4c0f9d2b7e6a1c5d8f0b23'' @ [CHR 0x0A]) = ''3f2a9c41d07be5861a4c0f9d2b7e6a1c5d8f0b23''"
  by (simp add: trim_def white_space_def strip_leading.simps startsWith_def)

lemma demo_git_prints_hash:
  "fst (fst (run_cmd (demo_env repo_run) ''git rev-parse HEAD'' d w)) = Inr out
     \<Longrightarrow> trim out \<noteq> [] \<and> list_all is_hex (trim out)"
  using trim_demo_head by (auto simp: demo_defs repo_run_def startsWith_def is_hex_def demo_head_def)

lemma demo_build_stepsV2:
  "mcpId = None \<or> mcpId = Some ''00000000000000000000000000000000'' \<Longrightarrow>
   fst (build_stepsV2 (demo_env repo_run) ''https://github.com/o/r'' (Some ''latest'') mcpId
          ''https://github.com/o/r'' None ''/tmp/mcp-0000000000000000'' empty_state)
     = Inr \<lparr>bundle_text = ''export {};'', revision = ''3f2a9c41d07be5861a4c0f9d2b7e6a1c5d8f0b23'',
            built_in = ''/tmp/mcp-0000000000000000''\<rparr>"
  using trim_demo_head
  by (auto simp: build_stepsV2_def git_cloneV2_def resolve_commit_def installV2_def platforms_def
      typecheckV2_def tsconfig_fixV2_def tsconfig_repair_def build_script_def run_build_script_def
      wants_build_def find_entrypointV2_def entrypoint_from_manifest_def manifest_path_def bin_path_def
      possibleEntrypointsV2_def bundle_stageV2_def bun_build_cmdV2_def esbuild_cmdV2_def
      build_result_def marked_def commit_marker_def truthy_string_def buildV2_promise_def
      randomBytes_at_def stage_defs demo_defs effect_defs repo_run_def demo_host_def demo_head_def empty_state_def Let_def)

lemma demo_route_status:
  "flag = None \<or> flag = Some ''true'' \<Longrightarrow>
   status (fst (v2_route (buildV2_promise (demo_env repo_run) demo_host (demo_http flag) empty_state (Some 4000))
                  (demo_http flag) (demo_query None))) = 200"
  using trim_demo_head
  by (auto simp: http_defs scrape_defs http_demo_defs build_stepsV2_def git_cloneV2_def resolve_commit_def installV2_def platforms_def
      typecheckV2_def tsconfig_fixV2_def tsconfig_repair_def build_script_def run_build_script_def
      wants_build_def find_entrypointV2_def entrypoint_from_manifest_def manifest_path_def bin_path_def
      possibleEntrypointsV2_def bundle_stageV2_def bun_build_cmdV2_def esbuild_cmdV2_def
      build_result_def marked_def commit_marker_def truthy_string_def buildV2_promise_def
      randomBytes_at_def stage_defs demo_defs effect_defs
      locator_defs repo_run_def demo_host_def demo_head_def empty_state_def buildMCPServerV2_fst Let_def)

lemma demo_request:
  "or_else (q_url (demo_query None)) [] = ''https://github.com/o/r''
   \<and> or_else (q_commit (demo_query None)) ''latest'' = ''latest''
   \<and> request_mcpId (demo_http flag) (demo_query None) = ''00000000000000000000000000000000''
   \<and> parseMonorepoUrl ''https://github.com/o/r''
       = \<lparr>baseRepoUrl = ''https://github.com/o/r'', branch = None, subDir = None\<rparr>
   \<and> temp_dir (demo_env repo_run) = ''/tmp/mcp-0000000000000000''
   \<and> GCP_BUCKET_NAME (demo_http flag) = Some ''bundler-microservice-servers''"
  by (simp add: http_defs http_demo_defs locator_defs demo_defs temp_dir_def)

theorem v2_reports_resolved_revision_witness:
  "DISABLE_GCP_INTEGRATION (demo_http None) \<noteq> Some ''true''
   \<and> status (fst (v2_route (buildV2_promise (demo_env repo_run) demo_host (demo_http None) empty_state (Some 4000))
                    (demo_http None) (demo_query None))) = 200
   \<and> fst (v2_route (buildV2_promise (demo_env repo_run) demo_host (demo_http None) empty_state (Some 4000))
            (demo_http None) (demo_query None)) =
        \<lparr>status = 200,
         body = JObj [(''success'', JBool True),
                      (''gcp_upload'',
                       JObj [(''bucket'', JStr ''bundler-microservice-servers''),
                             (''path'', JStr ''00000000000000000000000000000000/3f2a9c41d07be5861a4c0f9d2b7e6a1c5d8f0b23/''),
                             (''files'', JArr [JStr ''bundle-3f2a9c41d07be5861a4c0f9d2b7e6a1c5d8f0b23.tar.gz''])])]\<rparr>
   \<and> Upload ''/tmp/bundle-3f2a9c41d07be5861a4c0f9d2b7e6a1c5d8f0b23.tar.gz''
         ''00000000000000000000000000000000/3f2a9c41d07be5861a4c0f9d2b7e6a1c5d8f0b23/bundle-3f2a9c41d07be5861a4c0f9d2b7e6a1c5d8f0b23.tar.gz''
       \<in> set (trace (snd (buildMCPServerV2 (demo_env repo_run) demo_host ''https://github.com/o/r''
                              (Some ''latest'') (Some ''00000000000000000000000000000000'') empty_state)))"
proof -
  let ?henv = "demo_http None"
  let ?route = "v2_route (buildV2_promise (demo_env repo_run) demo_host ?henv empty_state (Some 4000))
                  ?henv (demo_query None)"
  have en: "DISABLE_GCP_INTEGRATION ?henv \<noteq> Some ''true''" by (simp add: demo_http_def)
  have ok: "status (fst ?route) = 200" by (rule demo_route_status) simp
  have up: "Upload ''/tmp/bundle-3f2a9c41d07be5861a4c0f9d2b7e6a1c5d8f0b23.tar.gz''
         ''00000000000000000000000000000000/3f2a9c41d07be5861a4c0f9d2b7e6a1c5d8f0b23/bundle-3f2a9c41d07be5861a4c0f9d2b7e6a1c5d8f0b23.tar.gz''
       \<in> set (trace (snd (buildMCPServerV2 (demo_env repo_run) demo_host ''https://github.com/o/r''
                              (Some ''latest'') (Some ''00000000000000000000000000000000'') empty_state)))"
    using trim_demo_head
    by (simp add: buildMCPServerV2_def archive_stage_def createTarGzArchive_def copy_node_modules_def
      uploadToGCPBucket_def upload_archive_def save_archive_def upload_location_def
      fs_mkdir_recursive_def fs_copyFile_def fs_cp_def fs_stat_def fs_unlink_def under_def build_stepsV2_def git_cloneV2_def resolve_commit_def installV2_def platforms_def
      typecheckV2_def tsconfig_fixV2_def tsconfig_repair_def build_script_def run_build_script_def
      wants_build_def find_entrypointV2_def entrypoint_from_manifest_def manifest_path_def bin_path_def
      possibleEntrypointsV2_def bundle_stageV2_def bun_build_cmdV2_def esbuild_cmdV2_def
      build_result_def marked_def commit_marker_def truthy_string_def buildV2_promise_def
      randomBytes_at_def stage_defs demo_defs effect_defs locator_defs
        repo_run_def demo_host_def demo_head_def empty_state_def Let_def)
  have git: "\<forall>d w out. fst (fst (run_cmd (demo_env repo_run) ''git rev-parse HEAD'' d w)) = Inr out
             \<longrightarrow> trim out \<noteq> [] \<and> list_all is_hex (trim out)"
    using demo_git_prints_hash by blast
  from v2_reports_resolved_revision [OF git en ok]
  obtain b s1 where
      bs: "build_stepsV2 (demo_env repo_run) ''https://github.com/o/r'' (Some ''latest'')
             (Some ''00000000000000000000000000000000'') ''https://github.com/o/r'' None
             ''/tmp/mcp-0000000000000000'' empty_state = (Inr b, s1)"
    and r: "fst ?route =
        \<lparr>status = 200,
         body = JObj [(''success'', JBool True),
                      (''gcp_upload'',
                       JObj [(''bucket'', JStr ''bundler-microservice-servers''),
                             (''path'', JStr (''00000000000000000000000000000000'' @ ''/'' @ revision b @ ''/'')),
                             (''files'', JArr [JStr (''bundle-'' @ revision b @ ''.tar.gz'')])])]\<rparr>"
    unfolding demo_request [THEN conjunct1] demo_request [THEN conjunct2, THEN conjunct1]
      demo_request [THEN conjunct2, THEN conjunct2, THEN conjunct1]
      demo_request [THEN conjunct2, THEN conjunct2, THEN conjunct2, THEN conjunct1]
      demo_request [THEN conjunct2, THEN conjunct2, THEN conjunct2, THEN conjunct2, THEN conjunct1]
      demo_request [THEN conjunct2, THEN conjunct2, THEN conjunct2, THEN conjunct2, THEN conjunct2]
    by auto
  have "revision b = ''3f2a9c41d07be5861a4c0f9d2b7e6a1c5d8f0b23''"
    using bs demo_build_stepsV2 [of "Some ''00000000000000000000000000000000''"] by simp
  then show ?thesis using en ok up r by simp
qed

subsection \<open>Inline data or publish location\<close>

text \<open>
  C7. Let a \<open>/v2/bundler\<close> request, served by the v2 build, end with status 200. If
  \<open>DISABLE_GCP_INTEGRATION\<close> is \<open>true\<close>, the build was called without \<open>mcpId\<close> and
  the body is \<open>success\<close> and \<open>data\<close>, the text of the bundle. Otherwise the build was
  called with the \<open>mcpId\<close> of the request and the body is \<open>success\<close> and
  \<open>gcp_upload\<close>, with the path and the file named after that \<open>mcpId\<close> and the revision
  read from the marked text. So the body has \<open>data\<close> exactly when the flag is \<open>true\<close>
  and \<open>gcp_upload\<close> exactly when it is not, whatever the request and the build's
  outcome. And whatever function serves the builds, a body with status 200 has exactly
  one of the two.
\<close>

theorem v2_response_data_or_location:
  assumes "status (fst (v2_route (buildV2_promise env host henv s t) henv q)) = 200"
  shows "(DISABLE_GCP_INTEGRATION henv = Some ''true'' \<longrightarrow>
      (\<exists>b s1. build_stepsV2 env (or_else (q_url q) []) (Some (or_else (q_commit q) ''latest'')) None
                 (baseRepoUrl (parseMonorepoUrl (or_else (q_url q) [])))
                 (subDir (parseMonorepoUrl (or_else (q_url q) []))) (temp_dir env) s = (Inr b, s1)
             \<and> fst (v2_route (buildV2_promise env host henv s t) henv q) =
                 \<lparr>status = 200,
                  body = JObj [(''success'', JBool True), (''data'', JStr (bundle_text b))]\<rparr>))
   \<and> (DISABLE_GCP_INTEGRATION henv \<noteq> Some ''true'' \<longrightarrow>
      (\<exists>b s1. build_stepsV2 env (or_else (q_url q) []) (Some (or_else (q_commit q) ''latest''))
                 (Some (request_mcpId henv q))
                 (baseRepoUrl (parseMonorepoUrl (or_else (q_url q) [])))
                 (subDir (parseMonorepoUrl (or_else (q_url q) []))) (temp_dir env) s = (Inr b, s1)
             \<and> fst (v2_route (buildV2_promise env host henv s t) henv q) =
                 \<lparr>status = 200,
                  body = JObj [(''success'', JBool True),
                               (''gcp_upload'',
                                JObj ((case GCP_BUCKET_NAME henv of None \<Rightarrow> [] | Some name \<Rightarrow> [(''bucket'', JStr name)])
                                      @ [(''path'', JStr (request_mcpId henv q @ ''/''
                                            @ scrape_commit (or_else (q_commit q) ''latest'')
                                                (commit_marker (revision b) @ bundle_text b) @ ''/'')),
                                         (''files'', JArr [JStr (''bundle-''
                                            @ scrape_commit (or_else (q_commit q) ''latest'')
                                                (commit_marker (revision b) @ bundle_text b)
                                            @ ''.tar.gz'')])]))]\<rparr>))
   \<and> (has_key (body (fst (v2_route (buildV2_promise env host henv s t) henv q))) ''data''
        \<longleftrightarrow> DISABLE_GCP_INTEGRATION henv = Some ''true'')
   \<and> (has_key (body (fst (v2_route (buildV2_promise env host henv s t) henv q))) ''gcp_upload''
        \<longleftrightarrow> DISABLE_GCP_INTEGRATION henv \<noteq> Some ''true'')
   \<and> (\<forall>build. status (fst (v2_route build henv q)) = 200 \<longrightarrow>
        has_key (body (fst (v2_route build henv q))) ''data''
          \<noteq> has_key (body (fst (v2_route build henv q))) ''gcp_upload'')"
proof -
  let ?route = "v2_route (buildV2_promise env host henv s t) henv q"
  from v2_route_promise_ok [OF assms] obtain b s1 where
      bs: "build_stepsV2 env (or_else (q_url q) []) (Some (or_else (q_commit q) ''latest''))
             (if DISABLE_GCP_INTEGRATION henv = Some ''true'' then None else Some (request_mcpId henv q))
             (baseRepoUrl (parseMonorepoUrl (or_else (q_url q) [])))
             (subDir (parseMonorepoUrl (or_else (q_url q) []))) (temp_dir env) s = (Inr b, s1)"
    and r: "fst ?route =
             (if DISABLE_GCP_INTEGRATION henv = Some ''true''
              then \<lparr>status = 200, body = JObj [(''success'', JBool True), (''data'', JStr (bundle_text b))]\<rparr>
              else \<lparr>status = 200,
                    body = gcp_upload_body henv (request_mcpId henv q)
                             (scrape_commit (or_else (q_commit q) ''latest'')
                                (commit_marker (revision b) @ bundle_text b))\<rparr>)"
    by blast
  have c1: "DISABLE_GCP_INTEGRATION henv = Some ''true'' \<longrightarrow>
      (\<exists>b s1. build_stepsV2 env (or_else (q_url q) []) (Some (or_else (q_commit q) ''latest'')) None
                 (baseRepoUrl (parseMonorepoUrl (or_else (q_url q) [])))
                 (subDir (parseMonorepoUrl (or_else (q_url q) []))) (temp_dir env) s = (Inr b, s1)
             \<and> fst ?route =
                 \<lparr>status = 200,
                  body = JObj [(''success'', JBool True), (''data'', JStr (bundle_text b))]\<rparr>)"
    using bs r by auto
  have c2: "DISABLE_GCP_INTEGRATION henv \<noteq> Some ''true'' \<longrightarrow>
      (\<exists>b s1. build_stepsV2 env (or_else (q_url q) []) (Some (or_else (q_commit q) ''latest''))
                 (Some (request_mcpId henv q))
                 (baseRepoUrl (parseMonorepoUrl (or_else (q_url q) [])))
                 (subDir (parseMonorepoUrl (or_else (q_url q) []))) (temp_dir env) s = (Inr b, s1)
             \<and> fst ?route =
                 \<lparr>status = 200,
                  body = JObj [(''success'', JBool True),
                               (''gcp_upload'',
                                JObj ((case GCP_BUCKET_NAME henv of None \<Rightarrow> [] | Some name \<Rightarrow> [(''bucket'', JStr name)])
                                      @ [(''path'', JStr (request_mcpId henv q @ ''/''
                                            @ scrape_commit (or_else (q_commit q) ''latest'')
                                                (commit_marker (revision b) @ bundle_text b) @ ''/'')),
                                         (''files'', JArr [JStr (''bundle-''
                                            @ scrape_commit (or_else (q_commit q) ''latest'')
                                                (commit_marker (revision b) @ bundle_text b)
                                            @ ''.tar.gz'')])]))]\<rparr>)"
    using bs r by (auto simp: gcp_upload_body_def)
  have c3: "has_key (body (fst ?route)) ''data'' \<longleftrightarrow> DISABLE_GCP_INTEGRATION henv = Some ''true''"
    unfolding r by (simp add: has_key_def gcp_upload_body_def)
  have c4: "has_key (body (fst ?route)) ''gcp_upload'' \<longleftrightarrow> DISABLE_GCP_INTEGRATION henv \<noteq> Some ''true''"
    unfolding r by (simp add: has_key_def gcp_upload_body_def)
  have c5: "\<forall>build. status (fst (v2_route build henv q)) = 200 \<longrightarrow>
        has_key (body (fst (v2_route build henv q))) ''data''
          \<noteq> has_key (body (fst (v2_route build henv q))) ''gcp_upload''"
  proof (intro allI impI)
    fix build
    assume "status (fst (v2_route build henv q)) = 200"
    from v2_route_ok [OF this] v2_try_one_member
    show "has_key (body (fst (v2_route build henv q))) ''data''
          \<noteq> has_key (body (fst (v2_route build henv q))) ''gcp_upload''"
      by metis
  qed
  show ?thesis using c1 c2 c3 c4 c5 by (intro conjI)
qed

text \<open>
  The demo repository requested from two processes: with the flag \<open>true\<close> the body holds
  the bundle's text, without the flag it holds the publish location.
\<close>

theorem v2_response_data_or_location_witness:
  "fst (v2_route (buildV2_promise (demo_env repo_run) demo_host (demo_http (Some ''true'')) empty_state (Some 4000))
          (demo_http (Some ''true'')) (demo_query None))
     = \<lparr>status = 200, body = JObj [(''success'', JBool True), (''data'', JStr ''export {};'')]\<rparr>
   \<and> has_key (body (fst (v2_route (buildV2_promise (demo_env repo_run) demo_host (demo_http None) empty_state (Some 4000))
                           (demo_http None) (demo_query None)))) ''gcp_upload''
   \<and> \<not> has_key (body (fst (v2_route (buildV2_promise (demo_env repo_run) demo_host (demo_http None) empty_state (Some 4000))
                           (demo_http None) (demo_query None)))) ''data''"
proof -
  let ?on = "demo_http None"
  let ?off = "demo_http (Some ''true'')"
  have f: "DISABLE_GCP_INTEGRATION ?off = Some ''true''" "DISABLE_GCP_INTEGRATION ?on \<noteq> Some ''true''"
    by (simp_all add: demo_http_def)
  have ok_off: "status (fst (v2_route (buildV2_promise (demo_env repo_run) demo_host ?off empty_state (Some 4000))
                               ?off (demo_query None))) = 200"
    by (rule demo_route_status) simp
  have ok_on: "status (fst (v2_route (buildV2_promise (demo_env repo_run) demo_host ?on empty_state (Some 4000))
                              ?on (demo_query None))) = 200"
    by (rule demo_route_status) simp
  from v2_response_data_or_location [OF ok_off, THEN conjunct1, rule_format, OF f(1)]
  obtain b s1 where
      bs: "build_stepsV2 (demo_env repo_run) ''https://github.com/o/r'' (Some ''latest'') None
             ''https://github.com/o/r'' None ''/tmp/mcp-0000000000000000'' empty_state = (Inr b, s1)"
    and r: "fst (v2_route (buildV2_promise (demo_env repo_run) demo_host ?off empty_state (Some 4000))
                   ?off (demo_query None))
             = \<lparr>status = 200, body = JObj [(''success'', JBool True), (''data'', JStr (bundle_text b))]\<rparr>"
    unfolding demo_request [THEN conjunct1] demo_request [THEN conjunct2, THEN conjunct1]
      demo_request [THEN conjunct2, THEN conjunct2, THEN conjunct2, THEN conjunct1]
      demo_request [THEN conjunct2, THEN conjunct2, THEN conjunct2, THEN conjunct2, THEN conjunct1]
    by auto
  have "bundle_text b = ''export {};''"
    using bs demo_build_stepsV2 [of None] by simp
  then show ?thesis
    using r f
      v2_response_data_or_location [OF ok_on, THEN conjunct2, THEN conjunct2, THEN conjunct1]
      v2_response_data_or_location [OF ok_on, THEN conjunct2, THEN conjunct2, THEN conjunct2, THEN conjunct1]
    by simp
qed
end
